theory Spec2Isabelle
  imports Complex_Main "HOL-Library.Word"
begin

section \<open>Papaya's OpenGL layer (src/libs/gl.h)\<close>

text \<open>
  The layer is a sequence of calls into the OpenGL driver, each wrapped by the macro
  \<^verbatim>\<open>GLCHK\<close>, which runs the statement and then \<^verbatim>\<open>gl::check_error\<close>.
  The driver is not part of the repository. It is modelled as a record of GL state
  (only the pieces this file reads or writes), together with an environment \<open>env\<close> that
  stands for everything the driver decides on its own: whether a command generates an
  error, which names it hands out, which locations it resolves. Following the OpenGL 2.1
  specification (section 2.5), a command that generates an error has no effect other
  than recording its code in the error flag, and \<^verbatim>\<open>glGetError\<close> returns the flag
  and clears it.

  A \<^verbatim>\<open>float\<close> or \<^verbatim>\<open>double\<close> that a caller passes is taken to be a finite number
  and is given by the real number it denotes (infinities and NaNs as arguments are
  outside the model). The one floating-point operation of the file, the addition of
  lines 191 and 193, is the binary32 addition \<open>f32_add\<close>, which rounds and may overflow;
  its result is a \<open>float32\<close>. The conversion \<^verbatim>\<open>(float)\<close> of line 232 is not
  modelled: the uploaded value is the \<^verbatim>\<open>double\<close> passed. 32-bit handles,
  enumerants and locations are \<open>32 word\<close>; a \<^verbatim>\<open>GLint\<close> is read with \<open>sint\<close>, so the
  sentinel \<open>-1\<close> and \<^verbatim>\<open>0xffffffff\<close> are the same word. Loop counters and counts are
  \<open>int\<close>: no loop of the file can overflow its counter, which stays below its bound.
\<close>

subsection \<open>Types of types.h, imgui.h and the OpenGL headers\<close>

type_synonym GLenum = "32 word"
type_synonym GLuint = "32 word"
type_synonym GLint = "32 word"

datatype Vec2 = Vec2 (vx: real) (vy: real)

datatype Color = Color (cr: real) (cg: real) (cb: real) (ca: real)

text \<open>
  A binary32 value: a finite one is given by the real number it denotes (the two zeros
  are not told apart).
\<close>

datatype float32 = Finite real | PlusInfinity | MinusInfinity | NaN

fun val :: "float32 \<Rightarrow> real" where
  "val (Finite r) = r"
| "val _ = 0"

datatype ImVec2 = ImVec2 (ix: float32) (iy: float32)

record ImDrawVert =
  pos :: ImVec2
  uv :: ImVec2
  col :: "32 word"

subsection \<open>The addition of two floats\<close>

text \<open>
  IEEE 754 binary32, rounding to nearest, ties to even: 24 significant bits, exponents
  from -126 to 127. \<open>binade r\<close> is the exponent of the binade of \<open>r\<close>, not below that
  of the subnormal numbers; the spacing of the floats there is \<open>pow2 (binade r - 23)\<close>.
  A sum that rounds beyond the largest float is an infinity.
\<close>

definition pow2 :: "int \<Rightarrow> real" where
  "pow2 k = (if 0 \<le> k then 2 ^ nat k else 1 / 2 ^ nat (- k))"

definition round_half_even :: "real \<Rightarrow> int" where
  "round_half_even q =
     (let f = \<lfloor>q\<rfloor>; d = q - of_int f
      in if d < 1 / 2 then f else if 1 / 2 < d then f + 1
         else if even f then f else f + 1)"

definition binade :: "real \<Rightarrow> int" where
  "binade r = max \<lfloor>log 2 \<bar>r\<bar>\<rfloor> (- 126)"

definition max_binary32 :: real where
  "max_binary32 = (2 ^ 24 - 1) * 2 ^ 104"

definition round_binary32 :: "real \<Rightarrow> float32" where
  "round_binary32 r =
     (if r = 0 then Finite 0
      else let u = pow2 (binade r - 23);
               c = of_int (round_half_even (r / u)) * u
           in if max_binary32 < \<bar>c\<bar>
              then (if r < 0 then MinusInfinity else PlusInfinity)
              else Finite c)"

definition f32_add :: "real \<Rightarrow> real \<Rightarrow> float32" where
  "f32_add a b = round_binary32 (a + b)"

text \<open>The enumerants, with the values of the OpenGL headers.\<close>

definition GL_NO_ERROR :: GLenum where "GL_NO_ERROR = 0"
definition GL_INVALID_ENUM :: GLenum where "GL_INVALID_ENUM = 0x0500"
definition GL_INVALID_VALUE :: GLenum where "GL_INVALID_VALUE = 0x0501"
definition GL_INVALID_OPERATION :: GLenum where "GL_INVALID_OPERATION = 0x0502"
definition GL_STACK_OVERFLOW :: GLenum where "GL_STACK_OVERFLOW = 0x0503"
definition GL_STACK_UNDERFLOW :: GLenum where "GL_STACK_UNDERFLOW = 0x0504"
definition GL_OUT_OF_MEMORY :: GLenum where "GL_OUT_OF_MEMORY = 0x0505"
definition GL_INVALID_FRAMEBUFFER_OPERATION :: GLenum where
  "GL_INVALID_FRAMEBUFFER_OPERATION = 0x0506"

definition GL_FALSE :: GLint where "GL_FALSE = 0"
definition GL_TRUE :: GLint where "GL_TRUE = 1"
definition GL_LINE_LOOP :: GLenum where "GL_LINE_LOOP = 0x0002"
definition GL_TRIANGLES :: GLenum where "GL_TRIANGLES = 0x0004"
definition GL_SRC_ALPHA :: GLenum where "GL_SRC_ALPHA = 0x0302"
definition GL_ONE_MINUS_SRC_ALPHA :: GLenum where "GL_ONE_MINUS_SRC_ALPHA = 0x0303"
definition GL_CULL_FACE :: GLenum where "GL_CULL_FACE = 0x0B44"
definition GL_DEPTH_TEST :: GLenum where "GL_DEPTH_TEST = 0x0B71"
definition GL_BLEND :: GLenum where "GL_BLEND = 0x0BE2"
definition GL_SCISSOR_TEST :: GLenum where "GL_SCISSOR_TEST = 0x0C11"
definition GL_TEXTURE_2D :: GLenum where "GL_TEXTURE_2D = 0x0DE1"
definition GL_UNSIGNED_BYTE :: GLenum where "GL_UNSIGNED_BYTE = 0x1401"
definition GL_FLOAT :: GLenum where "GL_FLOAT = 0x1406"
definition GL_RGBA :: GLenum where "GL_RGBA = 0x1908"
definition GL_LINEAR :: GLint where "GL_LINEAR = 0x2601"
definition GL_TEXTURE_MAG_FILTER :: GLenum where "GL_TEXTURE_MAG_FILTER = 0x2800"
definition GL_TEXTURE_MIN_FILTER :: GLenum where "GL_TEXTURE_MIN_FILTER = 0x2801"
definition GL_FUNC_ADD :: GLenum where "GL_FUNC_ADD = 0x8006"
definition GL_RGBA8 :: GLint where "GL_RGBA8 = 0x8058"
definition GL_TEXTURE_BINDING_2D :: GLenum where "GL_TEXTURE_BINDING_2D = 0x8069"
definition GL_ARRAY_BUFFER :: GLenum where "GL_ARRAY_BUFFER = 0x8892"
definition GL_FRAGMENT_SHADER :: GLenum where "GL_FRAGMENT_SHADER = 0x8B30"
definition GL_VERTEX_SHADER :: GLenum where "GL_VERTEX_SHADER = 0x8B31"
definition GL_COMPILE_STATUS :: GLenum where "GL_COMPILE_STATUS = 0x8B81"
definition GL_CURRENT_PROGRAM :: GLenum where "GL_CURRENT_PROGRAM = 0x8B8D"

subsection \<open>The commands the file issues\<close>

text \<open>
  One constructor for each OpenGL entry point called in gl.h, with the arguments passed
  by value. Pointer arguments are replaced by what they point to (the source text of a
  shader, the vertices of a buffer write, the sixteen floats of a matrix); a null data
  pointer is \<open>None\<close>. Every command issued is appended to the trace \<open>calls\<close>.
\<close>

datatype gl_call =
    GetIntegerv GLenum
  | Enable GLenum
  | Disable GLenum
  | BlendEquation GLenum
  | BlendFunc GLenum GLenum
  | BindBuffer GLenum GLuint
  | UseProgram GLuint
  | Uniform1f GLint real
  | Uniform2f GLint real real
  | Uniform4f GLint real real real real
  | UniformMatrix4fv GLint int GLint "real list"
  | EnableVertexAttribArray GLuint
  | VertexAttribPointer GLuint int GLenum GLint int nat
  | LineWidth real
  | DrawArrays GLenum int GLuint
  | BindTexture GLenum GLuint
  | GenBuffers int
  | BufferData GLenum nat "ImDrawVert list option" GLenum
  | BufferSubData GLenum nat nat "ImDrawVert list"
  | GenTextures int
  | TexParameteri GLenum GLenum GLint
  | TexImage2D GLenum int GLint int int int GLenum GLenum "8 word list option"
  | CreateProgram
  | CreateShader GLenum
  | ShaderSource GLuint int string
  | CompileShader GLuint
  | AttachShader GLuint GLuint
  | LinkProgram GLuint
  | GetShaderiv GLuint GLenum
  | GetShaderInfoLog GLuint int
  | GetAttribLocation GLuint string
  | GetUniformLocation GLuint string

subsection \<open>The state: the GL context and the process's standard output\<close>

record world =
  gl_error :: GLenum
  calls :: "gl_call list"
  blend :: bool
  blend_equation :: GLenum
  blend_sfactor :: GLenum
  blend_dfactor :: GLenum
  cull_face :: bool
  depth_test :: bool
  scissor_test :: bool
  array_buffer :: GLuint
  current_program :: GLuint
  texture_binding_2d :: GLuint
  line_width :: real
  buffer_size :: "GLuint \<Rightarrow> nat"
  buffer_data :: "GLuint \<Rightarrow> ImDrawVert list"
  stdout :: string

text \<open>
  What the driver and the preprocessor decide. \<open>outcome E s c\<close> is the error code
  command \<open>c\<close> generates in state \<open>s\<close> (\<open>GL_NO_ERROR\<close>: it executes). Since the state
  holds the trace of all commands so far, any deterministic driver is an instance.
  \<open>site_expr\<close>, \<open>site_file\<close> and \<open>site_line\<close> are the expansions of \<^verbatim>\<open>#stmt\<close>,
  \<^verbatim>\<open>__FILE__\<close> and \<^verbatim>\<open>__LINE__\<close> in the \<^verbatim>\<open>GLCHK\<close> that starts at a given line of
  gl.h.
\<close>

record env =
  outcome :: "world \<Rightarrow> gl_call \<Rightarrow> GLenum"
  fresh_name :: "world \<Rightarrow> GLuint"
  attrib_location :: "world \<Rightarrow> GLuint \<Rightarrow> string \<Rightarrow> GLint"
  uniform_location :: "world \<Rightarrow> GLuint \<Rightarrow> string \<Rightarrow> GLint"
  compile_status :: "world \<Rightarrow> GLuint \<Rightarrow> GLint"
  info_log :: "world \<Rightarrow> GLuint \<Rightarrow> string"
  site_expr :: "nat \<Rightarrow> string"
  site_file :: string
  site_line :: "nat \<Rightarrow> int"

subsection \<open>printf\<close>

fun digits :: "nat \<Rightarrow> string" where
  "digits n =
     (if n < 10 then [''0123456789'' ! n]
      else digits (n div 10) @ [''0123456789'' ! (n mod 10)])"

declare digits.simps [simp del]

text \<open>The conversion \<^verbatim>\<open>%d\<close>.\<close>

definition fmt_d :: "int \<Rightarrow> string" where
  "fmt_d i = (if i < 0 then CHR ''-'' # digits (nat (- i)) else digits (nat i))"

definition newline :: string where
  "newline = [CHR 0x0A]"

definition printf :: "string \<Rightarrow> world \<Rightarrow> world" where
  "printf txt s = s\<lparr>stdout := stdout s @ txt\<rparr>"

subsection \<open>gl::check_error (lines 76-93)\<close>

definition glGetError :: "world \<Rightarrow> GLenum \<times> world" where
  "glGetError s = (gl_error s, s\<lparr>gl_error := GL_NO_ERROR\<rparr>)"

definition check_error :: "string \<Rightarrow> string \<Rightarrow> int \<Rightarrow> world \<Rightarrow> world" where
  "check_error expr file line s =
     (let (error, s1) = glGetError s in
      if error = GL_NO_ERROR then s1
      else
        let str =
          (if error = GL_INVALID_ENUM then ''Invalid enum''
           else if error = GL_INVALID_VALUE then ''Invalid value''
           else if error = GL_INVALID_OPERATION then ''Invalid operation''
           else if error = GL_INVALID_FRAMEBUFFER_OPERATION
             then ''Invalid framebuffer operation''
           else if error = GL_OUT_OF_MEMORY then ''Out of memory''
           else if error = GL_STACK_UNDERFLOW then ''Stack underflow''
           else if error = GL_STACK_OVERFLOW then ''Stack overflow''
           else ''Undefined error'');
          s2 = printf (''OpenGL Error: '' @ str @ '' in '' @ file @ '':'' @ fmt_d line
                       @ newline) s1
        in printf (''    --- Expression: '' @ expr @ newline) s2)"

text \<open>The categories of the specification, as a table from error code to name.\<close>

definition error_categories :: "(GLenum \<times> string) list" where
  "error_categories =
     [(GL_INVALID_ENUM, ''Invalid enum''),
      (GL_INVALID_VALUE, ''Invalid value''),
      (GL_INVALID_OPERATION, ''Invalid operation''),
      (GL_INVALID_FRAMEBUFFER_OPERATION, ''Invalid framebuffer operation''),
      (GL_OUT_OF_MEMORY, ''Out of memory''),
      (GL_STACK_UNDERFLOW, ''Stack underflow''),
      (GL_STACK_OVERFLOW, ''Stack overflow'')]"

definition category :: "GLenum \<Rightarrow> string" where
  "category e = (case map_of error_categories e of Some c \<Rightarrow> c | None \<Rightarrow> ''Undefined error'')"

subsection \<open>The driver's commands\<close>

text \<open>
  A command is appended to the trace; the driver decides whether it generates an error.
  If it does, nothing else changes but the error flag, which keeps the first code
  recorded since it was last read. A command with results (an out-parameter or a return
  value) yields \<open>None\<close> when it generates an error: the out-parameter is not written.
  Uniform values, vertex-array state, texture images and the framebuffer are not part of
  \<open>world\<close>; the commands that change them are visible in the trace only.
\<close>

definition raise_error :: "GLenum \<Rightarrow> world \<Rightarrow> world" where
  "raise_error e s = (if gl_error s = GL_NO_ERROR then s\<lparr>gl_error := e\<rparr> else s)"

definition gl_cmd :: "env \<Rightarrow> gl_call \<Rightarrow> (world \<Rightarrow> world) \<Rightarrow> world \<Rightarrow> world" where
  "gl_cmd E c effect s =
     (let e = outcome E s c; s1 = s\<lparr>calls := calls s @ [c]\<rparr>
      in if e = GL_NO_ERROR then effect s1 else raise_error e s1)"

definition gl_query :: "env \<Rightarrow> gl_call \<Rightarrow> (world \<Rightarrow> 'a) \<Rightarrow> world \<Rightarrow> 'a option \<times> world" where
  "gl_query E c result s =
     (let e = outcome E s c; s1 = s\<lparr>calls := calls s @ [c]\<rparr>
      in if e = GL_NO_ERROR then (Some (result s), s1) else (None, raise_error e s1))"

definition set_capability :: "GLenum \<Rightarrow> bool \<Rightarrow> world \<Rightarrow> world" where
  "set_capability cap v s =
     (if cap = GL_BLEND then s\<lparr>blend := v\<rparr>
      else if cap = GL_CULL_FACE then s\<lparr>cull_face := v\<rparr>
      else if cap = GL_DEPTH_TEST then s\<lparr>depth_test := v\<rparr>
      else if cap = GL_SCISSOR_TEST then s\<lparr>scissor_test := v\<rparr>
      else s)"

definition get_integer :: "GLenum \<Rightarrow> world \<Rightarrow> GLint" where
  "get_integer pname s =
     (if pname = GL_CURRENT_PROGRAM then current_program s
      else if pname = GL_TEXTURE_BINDING_2D then texture_binding_2d s
      else 0)"

definition glGetIntegerv :: "env \<Rightarrow> GLenum \<Rightarrow> world \<Rightarrow> GLint option \<times> world" where
  "glGetIntegerv E pname = gl_query E (GetIntegerv pname) (get_integer pname)"

definition glEnable :: "env \<Rightarrow> GLenum \<Rightarrow> world \<Rightarrow> world" where
  "glEnable E cap = gl_cmd E (Enable cap) (set_capability cap True)"

definition glDisable :: "env \<Rightarrow> GLenum \<Rightarrow> world \<Rightarrow> world" where
  "glDisable E cap = gl_cmd E (Disable cap) (set_capability cap False)"

definition glBlendEquation :: "env \<Rightarrow> GLenum \<Rightarrow> world \<Rightarrow> world" where
  "glBlendEquation E mode = gl_cmd E (BlendEquation mode) (\<lambda>s. s\<lparr>blend_equation := mode\<rparr>)"

definition glBlendFunc :: "env \<Rightarrow> GLenum \<Rightarrow> GLenum \<Rightarrow> world \<Rightarrow> world" where
  "glBlendFunc E sf df =
     gl_cmd E (BlendFunc sf df) (\<lambda>s. s\<lparr>blend_sfactor := sf, blend_dfactor := df\<rparr>)"

definition glBindBuffer :: "env \<Rightarrow> GLenum \<Rightarrow> GLuint \<Rightarrow> world \<Rightarrow> world" where
  "glBindBuffer E target b =
     gl_cmd E (BindBuffer target b)
       (\<lambda>s. if target = GL_ARRAY_BUFFER then s\<lparr>array_buffer := b\<rparr> else s)"

definition glUseProgram :: "env \<Rightarrow> GLuint \<Rightarrow> world \<Rightarrow> world" where
  "glUseProgram E p = gl_cmd E (UseProgram p) (\<lambda>s. s\<lparr>current_program := p\<rparr>)"

definition glBindTexture :: "env \<Rightarrow> GLenum \<Rightarrow> GLuint \<Rightarrow> world \<Rightarrow> world" where
  "glBindTexture E target t =
     gl_cmd E (BindTexture target t)
       (\<lambda>s. if target = GL_TEXTURE_2D then s\<lparr>texture_binding_2d := t\<rparr> else s)"

definition glLineWidth :: "env \<Rightarrow> real \<Rightarrow> world \<Rightarrow> world" where
  "glLineWidth E w = gl_cmd E (LineWidth w) (\<lambda>s. s\<lparr>line_width := w\<rparr>)"

definition glUniform1f :: "env \<Rightarrow> GLint \<Rightarrow> real \<Rightarrow> world \<Rightarrow> world" where
  "glUniform1f E loc v = gl_cmd E (Uniform1f loc v) (\<lambda>s. s)"

definition glUniform2f :: "env \<Rightarrow> GLint \<Rightarrow> real \<Rightarrow> real \<Rightarrow> world \<Rightarrow> world" where
  "glUniform2f E loc v0 v1 = gl_cmd E (Uniform2f loc v0 v1) (\<lambda>s. s)"

definition glUniform4f :: "env \<Rightarrow> GLint \<Rightarrow> real \<Rightarrow> real \<Rightarrow> real \<Rightarrow> real \<Rightarrow> world \<Rightarrow> world" where
  "glUniform4f E loc v0 v1 v2 v3 = gl_cmd E (Uniform4f loc v0 v1 v2 v3) (\<lambda>s. s)"

definition glUniformMatrix4fv :: "env \<Rightarrow> GLint \<Rightarrow> int \<Rightarrow> GLint \<Rightarrow> real list \<Rightarrow> world \<Rightarrow> world" where
  "glUniformMatrix4fv E loc n tr m = gl_cmd E (UniformMatrix4fv loc n tr m) (\<lambda>s. s)"

definition glEnableVertexAttribArray :: "env \<Rightarrow> GLuint \<Rightarrow> world \<Rightarrow> world" where
  "glEnableVertexAttribArray E index = gl_cmd E (EnableVertexAttribArray index) (\<lambda>s. s)"

definition glVertexAttribPointer ::
    "env \<Rightarrow> GLuint \<Rightarrow> int \<Rightarrow> GLenum \<Rightarrow> GLint \<Rightarrow> int \<Rightarrow> nat \<Rightarrow> world \<Rightarrow> world" where
  "glVertexAttribPointer E index n type normalized stride pointer =
     gl_cmd E (VertexAttribPointer index n type normalized stride pointer) (\<lambda>s. s)"

definition glDrawArrays :: "env \<Rightarrow> GLenum \<Rightarrow> int \<Rightarrow> GLuint \<Rightarrow> world \<Rightarrow> world" where
  "glDrawArrays E mode first n = gl_cmd E (DrawArrays mode first n) (\<lambda>s. s)"

definition sizeof_ImDrawVert :: nat where
  "sizeof_ImDrawVert = 20"

definition glGenBuffers :: "env \<Rightarrow> int \<Rightarrow> world \<Rightarrow> GLuint option \<times> world" where
  "glGenBuffers E n = gl_query E (GenBuffers n) (fresh_name E)"

definition glBufferData ::
    "env \<Rightarrow> GLenum \<Rightarrow> nat \<Rightarrow> ImDrawVert list option \<Rightarrow> GLenum \<Rightarrow> world \<Rightarrow> world" where
  "glBufferData E target sz data usage =
     gl_cmd E (BufferData target sz data usage)
       (\<lambda>s. if target = GL_ARRAY_BUFFER
             then s\<lparr>buffer_size := (buffer_size s)(array_buffer s := sz),
                    buffer_data := (buffer_data s)
                      (array_buffer s := (case data of None \<Rightarrow> [] | Some vs \<Rightarrow> vs))\<rparr>
             else s)"

text \<open>
  A sub-range write replaces the vertices from byte \<open>offset\<close> on and keeps the rest of
  the buffer's contents.
\<close>

definition glBufferSubData ::
    "env \<Rightarrow> GLenum \<Rightarrow> nat \<Rightarrow> nat \<Rightarrow> ImDrawVert list \<Rightarrow> world \<Rightarrow> world" where
  "glBufferSubData E target offset sz data =
     gl_cmd E (BufferSubData target offset sz data)
       (\<lambda>s. if target = GL_ARRAY_BUFFER
             then let old = buffer_data s (array_buffer s); k = offset div sizeof_ImDrawVert
                  in s\<lparr>buffer_data := (buffer_data s)
                         (array_buffer s := take k old @ data @ drop (k + length data) old)\<rparr>
             else s)"

definition glGenTextures :: "env \<Rightarrow> int \<Rightarrow> world \<Rightarrow> GLuint option \<times> world" where
  "glGenTextures E n = gl_query E (GenTextures n) (fresh_name E)"

definition glTexParameteri :: "env \<Rightarrow> GLenum \<Rightarrow> GLenum \<Rightarrow> GLint \<Rightarrow> world \<Rightarrow> world" where
  "glTexParameteri E target pname param = gl_cmd E (TexParameteri target pname param) (\<lambda>s. s)"

definition glTexImage2D ::
    "env \<Rightarrow> GLenum \<Rightarrow> int \<Rightarrow> GLint \<Rightarrow> int \<Rightarrow> int \<Rightarrow> int \<Rightarrow> GLenum \<Rightarrow> GLenum \<Rightarrow> 8 word list option
     \<Rightarrow> world \<Rightarrow> world" where
  "glTexImage2D E target level ifmt w h border fmt type data =
     gl_cmd E (TexImage2D target level ifmt w h border fmt type data) (\<lambda>s. s)"

text \<open>The commands that return a value return 0, or -1 for a location, on an error.\<close>

definition glCreateProgram :: "env \<Rightarrow> world \<Rightarrow> GLuint \<times> world" where
  "glCreateProgram E s =
     (let (r, s1) = gl_query E CreateProgram (fresh_name E) s
      in (case r of None \<Rightarrow> 0 | Some h \<Rightarrow> h, s1))"

definition glCreateShader :: "env \<Rightarrow> GLenum \<Rightarrow> world \<Rightarrow> GLuint \<times> world" where
  "glCreateShader E type s =
     (let (r, s1) = gl_query E (CreateShader type) (fresh_name E) s
      in (case r of None \<Rightarrow> 0 | Some h \<Rightarrow> h, s1))"

definition glShaderSource :: "env \<Rightarrow> GLuint \<Rightarrow> int \<Rightarrow> string \<Rightarrow> world \<Rightarrow> world" where
  "glShaderSource E sh n src = gl_cmd E (ShaderSource sh n src) (\<lambda>s. s)"

definition glCompileShader :: "env \<Rightarrow> GLuint \<Rightarrow> world \<Rightarrow> world" where
  "glCompileShader E sh = gl_cmd E (CompileShader sh) (\<lambda>s. s)"

definition glAttachShader :: "env \<Rightarrow> GLuint \<Rightarrow> GLuint \<Rightarrow> world \<Rightarrow> world" where
  "glAttachShader E p sh = gl_cmd E (AttachShader p sh) (\<lambda>s. s)"

definition glLinkProgram :: "env \<Rightarrow> GLuint \<Rightarrow> world \<Rightarrow> world" where
  "glLinkProgram E p = gl_cmd E (LinkProgram p) (\<lambda>s. s)"

definition glGetShaderiv :: "env \<Rightarrow> GLuint \<Rightarrow> GLenum \<Rightarrow> world \<Rightarrow> GLint option \<times> world" where
  "glGetShaderiv E sh pname s = gl_query E (GetShaderiv sh pname) (\<lambda>t. compile_status E t sh) s"

definition glGetShaderInfoLog :: "env \<Rightarrow> GLuint \<Rightarrow> int \<Rightarrow> world \<Rightarrow> string option \<times> world" where
  "glGetShaderInfoLog E sh bufsize s =
     gl_query E (GetShaderInfoLog sh bufsize) (\<lambda>t. take (nat (bufsize - 1)) (info_log E t sh)) s"

definition glGetAttribLocation :: "env \<Rightarrow> GLuint \<Rightarrow> string \<Rightarrow> world \<Rightarrow> GLint \<times> world" where
  "glGetAttribLocation E p name s =
     (let (r, s1) = gl_query E (GetAttribLocation p name) (\<lambda>t. attrib_location E t p name) s
      in (case r of None \<Rightarrow> - 1 | Some l \<Rightarrow> l, s1))"

definition glGetUniformLocation :: "env \<Rightarrow> GLuint \<Rightarrow> string \<Rightarrow> world \<Rightarrow> GLint \<times> world" where
  "glGetUniformLocation E p name s =
     (let (r, s1) = gl_query E (GetUniformLocation p name) (\<lambda>t. uniform_location E t p name) s
      in (case r of None \<Rightarrow> - 1 | Some l \<Rightarrow> l, s1))"

subsection \<open>The macro GLCHK (line 7)\<close>

text \<open>
  \<^verbatim>\<open>#define GLCHK(stmt) stmt; gl::check_error(#stmt, __FILE__, __LINE__)\<close>.
  The number is the line of gl.h where the macro call starts. \<open>GLCHK_val\<close> is the same
  for a statement whose value is kept (\<^verbatim>\<open>x = GLCHK( f() )\<close> expands to
  \<^verbatim>\<open>x = f(); gl::check_error(...)\<close>, and an out-parameter is a value as well).
\<close>

definition GLCHK :: "env \<Rightarrow> nat \<Rightarrow> (world \<Rightarrow> world) \<Rightarrow> world \<Rightarrow> world" where
  "GLCHK E n stmt s = check_error (site_expr E n) (site_file E) (site_line E n) (stmt s)"

definition GLCHK_val :: "env \<Rightarrow> nat \<Rightarrow> (world \<Rightarrow> 'a \<times> world) \<Rightarrow> world \<Rightarrow> 'a \<times> world" where
  "GLCHK_val E n stmt s =
     (let (v, s1) = stmt s
      in (v, check_error (site_expr E n) (site_file E) (site_line E n) s1))"

subsection \<open>The structs of gl.h\<close>

text \<open>
  The arrays \<^verbatim>\<open>attribs[8]\<close> and \<^verbatim>\<open>uniforms[8]\<close> are lists; an index outside
  \<open>0..7\<close> is undefined behaviour in C++, which every function below returns as \<open>None\<close>,
  as it does for a read of a local variable that was never written and for a
  \<^verbatim>\<open>va_arg\<close> past the end of the arguments or at another type than the one passed.
\<close>

record Shader =
  handle :: GLuint
  attrib_count :: int
  uniform_count :: int
  attribs :: "GLint list"
  uniforms :: "GLint list"

record Mesh =
  is_line_loop :: bool
  vbo_size :: "32 word"
  index_count :: "32 word"
  vbo_handle :: GLuint
  elements_handle :: GLuint

definition UniformType_Float :: int where "UniformType_Float = 0"
definition UniformType_Vec2 :: int where "UniformType_Vec2 = 1"
definition UniformType_Matrix4 :: int where "UniformType_Matrix4 = 2"
definition UniformType_Color :: int where "UniformType_Color = 3"
definition UniformType_COUNT :: int where "UniformType_COUNT = 4"

text \<open>The values a caller can pass through the ellipsis of the two variadic functions.\<close>

datatype va_item =
    VInt int
  | VDouble real
  | VFloatPtr "real list"
  | VVec2 Vec2
  | VColor Color
  | VStr string

definition slot :: "'a list \<Rightarrow> int \<Rightarrow> 'a option" where
  "slot xs i = (if 0 \<le> i \<and> i < 8 \<and> nat i < length xs then Some (xs ! nat i) else None)"

definition store :: "'a list \<Rightarrow> int \<Rightarrow> 'a \<Rightarrow> 'a list option" where
  "store xs i v = (if 0 \<le> i \<and> i < 8 \<and> nat i < length xs then Some (xs[nat i := v]) else None)"

text \<open>\<^verbatim>\<open>va_arg(args, T)\<close>: the next argument and the rest, if it was passed at type \<open>T\<close>.\<close>

fun va_arg_int :: "va_item list \<Rightarrow> (int \<times> va_item list) option" where
  "va_arg_int (VInt v # rest) = Some (v, rest)"
| "va_arg_int _ = None"

fun va_arg_double :: "va_item list \<Rightarrow> (real \<times> va_item list) option" where
  "va_arg_double (VDouble v # rest) = Some (v, rest)"
| "va_arg_double _ = None"

fun va_arg_float_ptr :: "va_item list \<Rightarrow> (real list \<times> va_item list) option" where
  "va_arg_float_ptr (VFloatPtr v # rest) = Some (v, rest)"
| "va_arg_float_ptr _ = None"

fun va_arg_Vec2 :: "va_item list \<Rightarrow> (Vec2 \<times> va_item list) option" where
  "va_arg_Vec2 (VVec2 v # rest) = Some (v, rest)"
| "va_arg_Vec2 _ = None"

fun va_arg_Color :: "va_item list \<Rightarrow> (Color \<times> va_item list) option" where
  "va_arg_Color (VColor v # rest) = Some (v, rest)"
| "va_arg_Color _ = None"

fun va_arg_str :: "va_item list \<Rightarrow> (string \<times> va_item list) option" where
  "va_arg_str (VStr v # rest) = Some (v, rest)"
| "va_arg_str _ = None"

subsection \<open>print_compilation_errors (lines 95-109)\<close>

definition print_compilation_errors ::
    "env \<Rightarrow> GLuint \<Rightarrow> string \<Rightarrow> string \<Rightarrow> int \<Rightarrow> world \<Rightarrow> world option" where
  "print_compilation_errors E h type file line s =
     (let (compilation_status, s1) = GLCHK_val E 99 (glGetShaderiv E h GL_COMPILE_STATUS) s
      in case compilation_status of
           None \<Rightarrow> None
         | Some st \<Rightarrow>
             if st \<noteq> GL_TRUE then
               let s2 = printf (''Compilation error in '' @ type @ '' shader in '' @ file
                                @ '':'' @ fmt_d line @ newline) s1;
                   (log, s3) = GLCHK_val E 105 (glGetShaderInfoLog E h 4096) s2
               in case log of
                    None \<Rightarrow> None
                  | Some txt \<Rightarrow> Some (printf newline (printf txt s3))
             else Some s1)"

subsection \<open>gl::compile_shader (lines 111-153)\<close>

text \<open>The bodies of the two loops (lines 136-141 and 145-150), then the loops.\<close>

definition compile_shader_attrib ::
    "env \<Rightarrow> string \<Rightarrow> int \<Rightarrow> int \<Rightarrow> Shader \<times> va_item list \<times> world
     \<Rightarrow> (Shader \<times> va_item list \<times> world) option" where
  "compile_shader_attrib E file line i = (\<lambda>(shader, args, s).
     Option.bind (va_arg_str args) (\<lambda>(name, rest).
       let (loc, s1) = GLCHK_val E 137 (glGetAttribLocation E (handle shader) name) s
       in Option.bind (store (attribs shader) i loc) (\<lambda>arr.
            let s2 = (if loc = - 1
                      then printf (''Attribute '' @ name @ '' not found in shader at ''
                                   @ file @ '':'' @ fmt_d line @ newline) s1
                      else s1)
            in Some (shader\<lparr>attribs := arr\<rparr>, rest, s2))))"

function compile_shader_attribs ::
    "env \<Rightarrow> string \<Rightarrow> int \<Rightarrow> int \<Rightarrow> int \<Rightarrow> Shader \<times> va_item list \<times> world
     \<Rightarrow> (Shader \<times> va_item list \<times> world) option" where
  "compile_shader_attribs E file line attrib_count' i st =
     (if i < attrib_count' then
        (case compile_shader_attrib E file line i st of
           None \<Rightarrow> None
         | Some st' \<Rightarrow> compile_shader_attribs E file line attrib_count' (i + 1) st')
      else Some st)"
  by pat_completeness auto
termination
  by (relation "measure (\<lambda>(E, file, line, n, i, x). nat (n - i))") auto

declare compile_shader_attribs.simps [simp del]

definition compile_shader_uniform ::
    "env \<Rightarrow> string \<Rightarrow> int \<Rightarrow> int \<Rightarrow> Shader \<times> va_item list \<times> world
     \<Rightarrow> (Shader \<times> va_item list \<times> world) option" where
  "compile_shader_uniform E file line i = (\<lambda>(shader, args, s).
     Option.bind (va_arg_str args) (\<lambda>(name, rest).
       let (loc, s1) = GLCHK_val E 146 (glGetUniformLocation E (handle shader) name) s
       in Option.bind (store (uniforms shader) i loc) (\<lambda>arr.
            let s2 = (if loc = - 1
                      then printf (''Uniform '' @ name @ '' not found in shader at ''
                                   @ file @ '':'' @ fmt_d line @ newline) s1
                      else s1)
            in Some (shader\<lparr>uniforms := arr\<rparr>, rest, s2))))"

function compile_shader_uniforms ::
    "env \<Rightarrow> string \<Rightarrow> int \<Rightarrow> int \<Rightarrow> int \<Rightarrow> Shader \<times> va_item list \<times> world
     \<Rightarrow> (Shader \<times> va_item list \<times> world) option" where
  "compile_shader_uniforms E file line uniform_count' i st =
     (if i < uniform_count' then
        (case compile_shader_uniform E file line i st of
           None \<Rightarrow> None
         | Some st' \<Rightarrow> compile_shader_uniforms E file line uniform_count' (i + 1) st')
      else Some st)"
  by pat_completeness auto
termination
  by (relation "measure (\<lambda>(E, file, line, n, i, x). nat (n - i))") auto

declare compile_shader_uniforms.simps [simp del]

text \<open>
  Lines 115-124: the program object and the two shader objects, compiled and attached.
  The result is the three handles.
\<close>

definition compile_shader_objects ::
    "env \<Rightarrow> string \<Rightarrow> string \<Rightarrow> world \<Rightarrow> (GLuint \<times> GLuint \<times> GLuint) \<times> world" where
  "compile_shader_objects E vert frag s0 =
     (let (h, s1) = GLCHK_val E 115 (glCreateProgram E) s0;
          (vert_handle, s2) = GLCHK_val E 116 (glCreateShader E GL_VERTEX_SHADER) s1;
          (frag_handle, s3) = GLCHK_val E 117 (glCreateShader E GL_FRAGMENT_SHADER) s2;
          s4 = GLCHK E 119 (glShaderSource E vert_handle 1 vert) s3;
          s5 = GLCHK E 120 (glShaderSource E frag_handle 1 frag) s4;
          s6 = GLCHK E 121 (glCompileShader E vert_handle) s5;
          s7 = GLCHK E 122 (glCompileShader E frag_handle) s6;
          s8 = GLCHK E 123 (glAttachShader E h vert_handle) s7;
          s9 = GLCHK E 124 (glAttachShader E h frag_handle) s8
      in ((h, vert_handle, frag_handle), s9))"

definition compile_shader ::
    "env \<Rightarrow> Shader \<Rightarrow> string \<Rightarrow> int \<Rightarrow> string \<Rightarrow> string \<Rightarrow> int \<Rightarrow> int \<Rightarrow> va_item list \<Rightarrow> world
     \<Rightarrow> (Shader \<times> world) option" where
  "compile_shader E shader file line vert frag attrib_count' uniform_count' args s0 =
     (let ((h, vert_handle, frag_handle), s9) = compile_shader_objects E vert frag s0;
          shader1 = shader\<lparr>handle := h\<rparr>
      in case print_compilation_errors E vert_handle ''vertex'' file line s9 of
           None \<Rightarrow> None
         | Some s10 \<Rightarrow>
         (case print_compilation_errors E frag_handle ''fragment'' file line s10 of
           None \<Rightarrow> None
         | Some s11 \<Rightarrow>
             let s12 = GLCHK E 129 (glLinkProgram E (handle shader1)) s11;
                 shader2 = shader1\<lparr>attrib_count := attrib_count',
                                   uniform_count := uniform_count'\<rparr>
             in (case compile_shader_attribs E file line attrib_count' 0 (shader2, args, s12) of
                   None \<Rightarrow> None
                 | Some (shader3, args1, s13) \<Rightarrow>
                 (case compile_shader_uniforms E file line uniform_count' 0
                         (shader3, args1, s13) of
                   None \<Rightarrow> None
                 | Some (shader4, args2, s14) \<Rightarrow> Some (shader4, s14)))))"

subsection \<open>gl::set_vertex_attribs (lines 155-177)\<close>

function set_vertex_attribs_enable :: "env \<Rightarrow> Shader \<Rightarrow> int \<Rightarrow> world \<Rightarrow> world option" where
  "set_vertex_attribs_enable E shader i s =
     (if i < attrib_count shader then
        (case slot (attribs shader) i of
           None \<Rightarrow> None
         | Some a \<Rightarrow>
             set_vertex_attribs_enable E shader (i + 1)
               (GLCHK E 158 (glEnableVertexAttribArray E a) s))
      else Some s)"
  by pat_completeness auto
termination
  by (relation "measure (\<lambda>(E, shader, i, s). nat (attrib_count shader - i))") auto

declare set_vertex_attribs_enable.simps [simp del]

text \<open>
  \<^verbatim>\<open>sizeof(ImDrawVert)\<close> is 20 and the offsets of \<^verbatim>\<open>pos\<close>, \<^verbatim>\<open>uv\<close> and \<^verbatim>\<open>col\<close>
  are 0, 8 and 16: two floats, two floats and four bytes.
\<close>

definition set_vertex_attribs :: "env \<Rightarrow> Shader \<Rightarrow> world \<Rightarrow> world option" where
  "set_vertex_attribs E shader s =
     Option.bind (set_vertex_attribs_enable E shader 0 s) (\<lambda>s1.
     Option.bind (slot (attribs shader) 0) (\<lambda>a0.
       let s2 = GLCHK E 163 (glVertexAttribPointer E a0 2 GL_FLOAT GL_FALSE
                               (int sizeof_ImDrawVert) 0) s1
       in Option.bind (slot (attribs shader) 1) (\<lambda>a1.
       let s3 = GLCHK E 167 (glVertexAttribPointer E a1 2 GL_FLOAT GL_FALSE
                               (int sizeof_ImDrawVert) 8) s2
       in if attrib_count shader > 2 then
            Option.bind (slot (attribs shader) 2) (\<lambda>a2.
              Some (GLCHK E 172 (glVertexAttribPointer E a2 4 GL_UNSIGNED_BYTE GL_TRUE
                                   (int sizeof_ImDrawVert) 16) s3))
          else Some s3)))"

subsection \<open>gl::transform_quad (lines 188-205) and gl::init_quad (lines 179-186)\<close>

text \<open>
  The mesh is passed by reference: the functions return it next to the new state. The
  position and the size are finite floats; \<open>x2\<close> and \<open>y2\<close> are their rounded sums. The
  temporaries \<^verbatim>\<open>Vec2(x1, y2)\<close> are stored as the \<^verbatim>\<open>ImVec2\<close> of the vertex.
\<close>

definition transform_quad :: "env \<Rightarrow> Mesh \<Rightarrow> Vec2 \<Rightarrow> Vec2 \<Rightarrow> world \<Rightarrow> Mesh \<times> world" where
  "transform_quad E mesh pos' size' s =
     (let x1 = Finite (vx pos');
          x2 = f32_add (vx pos') (vx size');
          y1 = Finite (vy pos');
          y2 = f32_add (vy pos') (vy size');
          verts =
            [\<lparr>pos = ImVec2 x1 y2, uv = ImVec2 (Finite 0) (Finite 1), col = 0xffffffff\<rparr>,
             \<lparr>pos = ImVec2 x1 y1, uv = ImVec2 (Finite 0) (Finite 0), col = 0xffffffff\<rparr>,
             \<lparr>pos = ImVec2 x2 y2, uv = ImVec2 (Finite 1) (Finite 1), col = 0xffffffff\<rparr>,
             \<lparr>pos = ImVec2 x2 y1, uv = ImVec2 (Finite 1) (Finite 0), col = 0xffffffff\<rparr>,
             \<lparr>pos = ImVec2 x2 y2, uv = ImVec2 (Finite 1) (Finite 1), col = 0xffffffff\<rparr>,
             \<lparr>pos = ImVec2 x1 y1, uv = ImVec2 (Finite 0) (Finite 0), col = 0xffffffff\<rparr>];
          s1 = GLCHK E 203 (glBindBuffer E GL_ARRAY_BUFFER (vbo_handle mesh)) s;
          s2 = GLCHK E 204 (glBufferSubData E GL_ARRAY_BUFFER 0
                              (sizeof_ImDrawVert * length verts) verts) s1
      in (mesh, s2))"

definition init_quad :: "env \<Rightarrow> Mesh \<Rightarrow> Vec2 \<Rightarrow> Vec2 \<Rightarrow> 32 word \<Rightarrow> world \<Rightarrow> Mesh \<times> world" where
  "init_quad E mesh pos' size' usage s =
     (let (r, s1) = GLCHK_val E 181 (glGenBuffers E 1) s;
          mesh1 = (case r of None \<Rightarrow> mesh | Some b \<Rightarrow> mesh\<lparr>vbo_handle := b\<rparr>);
          s2 = GLCHK E 182 (glBindBuffer E GL_ARRAY_BUFFER (vbo_handle mesh1)) s1;
          s3 = GLCHK E 183 (glBufferData E GL_ARRAY_BUFFER (sizeof_ImDrawVert * 6) None usage) s2;
          mesh2 = mesh1\<lparr>index_count := 6\<rparr>
      in transform_quad E mesh2 pos' size' s3)"

subsection \<open>gl::draw_mesh (lines 207-268)\<close>

text \<open>The body of the loop over the uniforms (lines 229-250), then the loop.\<close>

definition draw_mesh_uniform ::
    "env \<Rightarrow> Shader \<Rightarrow> int \<Rightarrow> va_item list \<times> world \<Rightarrow> (va_item list \<times> world) option" where
  "draw_mesh_uniform E shader i = (\<lambda>(args, s).
     Option.bind (va_arg_int args) (\<lambda>(tag, rest).
       if tag = UniformType_Float then
         Option.bind (slot (uniforms shader) i) (\<lambda>loc.
         Option.bind (va_arg_double rest) (\<lambda>(d, rest').
           Some (rest', GLCHK E 231 (glUniform1f E loc d) s)))
       else if tag = UniformType_Matrix4 then
         Option.bind (slot (uniforms shader) i) (\<lambda>loc.
         Option.bind (va_arg_float_ptr rest) (\<lambda>(m, rest').
           Some (rest', GLCHK E 236 (glUniformMatrix4fv E loc 1 GL_FALSE m) s)))
       else if tag = UniformType_Vec2 then
         Option.bind (va_arg_Vec2 rest) (\<lambda>(vec, rest').
         Option.bind (slot (uniforms shader) i) (\<lambda>loc.
           Some (rest', GLCHK E 242 (glUniform2f E loc (vx vec) (vy vec)) s)))
       else if tag = UniformType_Color then
         Option.bind (va_arg_Color rest) (\<lambda>(c, rest').
         Option.bind (slot (uniforms shader) i) (\<lambda>loc.
           Some (rest', GLCHK E 247 (glUniform4f E loc (cr c) (cg c) (cb c) (ca c)) s)))
       else Some (rest, s)))"

function draw_mesh_uniforms ::
    "env \<Rightarrow> Shader \<Rightarrow> int \<Rightarrow> int \<Rightarrow> va_item list \<times> world \<Rightarrow> (va_item list \<times> world) option" where
  "draw_mesh_uniforms E shader uniform_count' i st =
     (if i < uniform_count' then
        (case draw_mesh_uniform E shader i st of
           None \<Rightarrow> None
         | Some st' \<Rightarrow> draw_mesh_uniforms E shader uniform_count' (i + 1) st')
      else Some st)"
  by pat_completeness auto
termination
  by (relation "measure (\<lambda>(E, shader, n, i, x). nat (n - i))") auto

declare draw_mesh_uniforms.simps [simp del]

text \<open>Lines 213-222: the state the draw needs.\<close>

definition draw_mesh_setup :: "env \<Rightarrow> Mesh \<Rightarrow> Shader \<Rightarrow> bool \<Rightarrow> world \<Rightarrow> world" where
  "draw_mesh_setup E mesh shader scissor s2 =
     (let s3 = GLCHK E 213 (glEnable E GL_BLEND) s2;
          s4 = GLCHK E 214 (glBlendEquation E GL_FUNC_ADD) s3;
          s5 = GLCHK E 215 (glBlendFunc E GL_SRC_ALPHA GL_ONE_MINUS_SRC_ALPHA) s4;
          s6 = GLCHK E 216 (glDisable E GL_CULL_FACE) s5;
          s7 = GLCHK E 217 (glDisable E GL_DEPTH_TEST) s6;
          s8 = (if scissor then GLCHK E 218 (glEnable E GL_SCISSOR_TEST) s7
                else GLCHK E 219 (glDisable E GL_SCISSOR_TEST) s7);
          s9 = GLCHK E 221 (glBindBuffer E GL_ARRAY_BUFFER (vbo_handle mesh)) s8
      in GLCHK E 222 (glUseProgram E (handle shader)) s9)"

text \<open>Lines 263-267, under the comment \<^verbatim>\<open>// Restore modified state\<close>.\<close>

definition draw_mesh_restore :: "env \<Rightarrow> GLint option \<Rightarrow> GLint option \<Rightarrow> world \<Rightarrow> world option" where
  "draw_mesh_restore E last_program last_texture s =
     (case (last_program, last_texture) of
        (Some lp, Some lt) \<Rightarrow>
          let s1 = GLCHK E 263 (glBindBuffer E GL_ARRAY_BUFFER 0) s;
              s2 = GLCHK E 264 (glUseProgram E lp) s1;
              s3 = GLCHK E 265 (glDisable E GL_SCISSOR_TEST) s2;
              s4 = GLCHK E 266 (glDisable E GL_BLEND) s3
          in Some (GLCHK E 267 (glBindTexture E GL_TEXTURE_2D lt) s4)
      | _ \<Rightarrow> None)"

definition draw_mesh ::
    "env \<Rightarrow> Mesh \<Rightarrow> Shader \<Rightarrow> bool \<Rightarrow> int \<Rightarrow> va_item list \<Rightarrow> world \<Rightarrow> world option" where
  "draw_mesh E mesh shader scissor uniform_count' args s0 =
     (let (last_program, s1) = GLCHK_val E 211 (glGetIntegerv E GL_CURRENT_PROGRAM) s0;
          (last_texture, s2) = GLCHK_val E 212 (glGetIntegerv E GL_TEXTURE_BINDING_2D) s1;
          s10 = draw_mesh_setup E mesh shader scissor s2
      in case draw_mesh_uniforms E shader uniform_count' 0 (args, s10) of
           None \<Rightarrow> None
         | Some (args', s11) \<Rightarrow>
         (case set_vertex_attribs E shader s11 of
           None \<Rightarrow> None
         | Some s12 \<Rightarrow>
             let s13 = GLCHK E 258 (glLineWidth E 2) s12;
                 s14 = GLCHK E 259 (glDrawArrays E
                         (if is_line_loop mesh then GL_LINE_LOOP else GL_TRIANGLES) 0
                         (index_count mesh)) s13
             in draw_mesh_restore E last_program last_texture s14))"

subsection \<open>gl::allocate_tex (lines 270-280)\<close>

definition allocate_tex ::
    "env \<Rightarrow> int \<Rightarrow> int \<Rightarrow> 8 word list option \<Rightarrow> world \<Rightarrow> (GLuint \<times> world) option" where
  "allocate_tex E width' height' data s =
     (let (tex, s1) = GLCHK_val E 273 (glGenTextures E 1) s
      in case tex of
           None \<Rightarrow> None
         | Some t \<Rightarrow>
             let s2 = GLCHK E 274 (glBindTexture E GL_TEXTURE_2D t) s1;
                 s3 = GLCHK E 275 (glTexParameteri E GL_TEXTURE_2D GL_TEXTURE_MIN_FILTER GL_LINEAR) s2;
                 s4 = GLCHK E 276 (glTexParameteri E GL_TEXTURE_2D GL_TEXTURE_MAG_FILTER GL_LINEAR) s3;
                 s5 = GLCHK E 277 (glTexImage2D E GL_TEXTURE_2D 0 GL_RGBA8 width' height' 0
                                     GL_RGBA GL_UNSIGNED_BYTE data) s4
             in Some (t, s5))"

subsection \<open>Vocabulary of the properties\<close>

text \<open>
  \<open>unchanged_gpu s s'\<close>: the two states differ at most in the trace, the error flag and
  the standard output.
\<close>

definition unchanged_gpu :: "world \<Rightarrow> world \<Rightarrow> bool" where
  "unchanged_gpu s s' \<longleftrightarrow>
     blend s' = blend s \<and> blend_equation s' = blend_equation s \<and>
     blend_sfactor s' = blend_sfactor s \<and> blend_dfactor s' = blend_dfactor s \<and>
     cull_face s' = cull_face s \<and> depth_test s' = depth_test s \<and>
     scissor_test s' = scissor_test s \<and> array_buffer s' = array_buffer s \<and>
     current_program s' = current_program s \<and>
     texture_binding_2d s' = texture_binding_2d s \<and> line_width s' = line_width s \<and>
     buffer_size s' = buffer_size s \<and> buffer_data s' = buffer_data s"

text \<open>
  The uniform argument of the specification, a tagged value; \<open>va_uniform\<close> is how a
  caller passes one through the ellipsis of \<^verbatim>\<open>draw_mesh\<close> (the tag, then the value),
  and \<open>upload\<close> is the command that sends it to a location.
\<close>

datatype uniform_arg = UFloat real | UVec2 Vec2 | UMatrix4 "real list" | UColor Color

fun va_uniform :: "uniform_arg \<Rightarrow> va_item list" where
  "va_uniform (UFloat d) = [VInt UniformType_Float, VDouble d]"
| "va_uniform (UVec2 v) = [VInt UniformType_Vec2, VVec2 v]"
| "va_uniform (UMatrix4 m) = [VInt UniformType_Matrix4, VFloatPtr m]"
| "va_uniform (UColor c) = [VInt UniformType_Color, VColor c]"

fun upload :: "GLint \<Rightarrow> uniform_arg \<Rightarrow> gl_call" where
  "upload loc (UFloat d) = Uniform1f loc d"
| "upload loc (UVec2 v) = Uniform2f loc (vx v) (vy v)"
| "upload loc (UMatrix4 m) = UniformMatrix4fv loc 1 GL_FALSE m"
| "upload loc (UColor c) = Uniform4f loc (cr c) (cg c) (cb c) (ca c)"

text \<open>The commands \<^verbatim>\<open>set_vertex_attribs\<close> issues for a shader.\<close>

definition attrib_calls :: "Shader \<Rightarrow> gl_call list" where
  "attrib_calls shader =
     map EnableVertexAttribArray (take (nat (attrib_count shader)) (attribs shader))
     @ [VertexAttribPointer (attribs shader ! 0) 2 GL_FLOAT GL_FALSE 20 0,
        VertexAttribPointer (attribs shader ! 1) 2 GL_FLOAT GL_FALSE 20 8]
     @ (if attrib_count shader > 2
        then [VertexAttribPointer (attribs shader ! 2) 4 GL_UNSIGNED_BYTE GL_TRUE 20 16]
        else [])"

text \<open>
  \<open>appends s s'\<close>: the output of \<open>s'\<close> is the output of \<open>s\<close> with more text after it.
  \<open>logged msg s s'\<close>: that text contains \<open>msg\<close>.
\<close>

definition appends :: "world \<Rightarrow> world \<Rightarrow> bool" where
  "appends s s' \<longleftrightarrow> (\<exists>a. stdout s' = stdout s @ a)"

definition logged :: "string \<Rightarrow> world \<Rightarrow> world \<Rightarrow> bool" where
  "logged msg s s' \<longleftrightarrow> (\<exists>a b. stdout s' = stdout s @ a @ msg @ b)"

text \<open>
  The two lines \<^verbatim>\<open>check_error\<close> prints (lines 91 and 92) for the error \<open>e\<close> found
  after the command of line \<open>n\<close>.
\<close>

definition error_report :: "env \<Rightarrow> nat \<Rightarrow> GLenum \<Rightarrow> string" where
  "error_report E n e =
     ''OpenGL Error: '' @ category e @ '' in '' @ site_file E @ '':''
       @ fmt_d (site_line E n) @ newline
     @ ''    --- Expression: '' @ site_expr E n @ newline"

text \<open>
  Twice the signed area of the triangle \<open>a b c\<close> of finite points: positive when the
  triangle is counter-clockwise (with the y axis pointing up).
\<close>

definition orient2d :: "ImVec2 \<Rightarrow> ImVec2 \<Rightarrow> ImVec2 \<Rightarrow> real" where
  "orient2d a b c =
     (val (ix b) - val (ix a)) * (val (iy c) - val (iy a))
     - (val (iy b) - val (iy a)) * (val (ix c) - val (ix a))"

text \<open>
  The commands of one draw, in order, for uniform arguments \<open>us\<close>, when the program and
  the texture found bound are \<open>lp\<close> and \<open>lt\<close>.
\<close>

definition draw_calls ::
    "Mesh \<Rightarrow> Shader \<Rightarrow> bool \<Rightarrow> uniform_arg list \<Rightarrow> GLuint \<Rightarrow> GLuint \<Rightarrow> gl_call list" where
  "draw_calls mesh shader scissor us lp lt =
     [GetIntegerv GL_CURRENT_PROGRAM, GetIntegerv GL_TEXTURE_BINDING_2D,
      Enable GL_BLEND, BlendEquation GL_FUNC_ADD,
      BlendFunc GL_SRC_ALPHA GL_ONE_MINUS_SRC_ALPHA,
      Disable GL_CULL_FACE, Disable GL_DEPTH_TEST,
      (if scissor then Enable GL_SCISSOR_TEST else Disable GL_SCISSOR_TEST),
      BindBuffer GL_ARRAY_BUFFER (vbo_handle mesh), UseProgram (handle shader)]
     @ map2 upload (uniforms shader) us
     @ attrib_calls shader
     @ [LineWidth 2,
        DrawArrays (if is_line_loop mesh then GL_LINE_LOOP else GL_TRIANGLES) 0
          (index_count mesh),
        BindBuffer GL_ARRAY_BUFFER 0, UseProgram lp, Disable GL_SCISSOR_TEST,
        Disable GL_BLEND, BindTexture GL_TEXTURE_2D lt]"

fun is_upload :: "gl_call \<Rightarrow> bool" where
  "is_upload (Uniform1f loc v) = True"
| "is_upload (Uniform2f loc v0 v1) = True"
| "is_upload (Uniform4f loc v0 v1 v2 v3) = True"
| "is_upload (UniformMatrix4fv loc n tr m) = True"
| "is_upload c = False"

subsection \<open>Concrete contexts and drivers, for the examples\<close>

definition world0 :: world where
  "world0 =
     \<lparr>gl_error = GL_NO_ERROR, calls = [], blend = False, blend_equation = GL_FUNC_ADD,
      blend_sfactor = 1, blend_dfactor = 0, cull_face = False, depth_test = False,
      scissor_test = False, array_buffer = 0, current_program = 0, texture_binding_2d = 0,
      line_width = 1, buffer_size = (\<lambda>_. 0), buffer_data = (\<lambda>_. []), stdout = []\<rparr>"

text \<open>
  A driver that executes every command, hands out the number of commands seen so far
  plus one as the next name, and resolves a name to its length.
\<close>

definition env0 :: env where
  "env0 =
     \<lparr>outcome = (\<lambda>s c. GL_NO_ERROR),
      fresh_name = (\<lambda>s. of_nat (length (calls s)) + 1),
      attrib_location = (\<lambda>s p name. of_nat (length name)),
      uniform_location = (\<lambda>s p name. of_nat (length name)),
      compile_status = (\<lambda>s h. GL_TRUE),
      info_log = (\<lambda>s h. []),
      site_expr = (\<lambda>n. ''stmt''),
      site_file = ''gl.h'',
      site_line = int\<rparr>"

text \<open>
  A driver for which program 7 exists only as long as it is current, as a program
  deleted while in use does: once another program is bound, binding 7 is an error.
\<close>

definition env_lost_program :: env where
  "env_lost_program =
     env0\<lparr>outcome := (\<lambda>s c. if c = UseProgram 7 \<and> current_program s \<noteq> 7
                             then GL_INVALID_VALUE else GL_NO_ERROR)\<rparr>"

text \<open>A driver that rejects blending and binding the texture 5.\<close>

definition env_failing :: env where
  "env_failing =
     env0\<lparr>outcome := (\<lambda>s c. if c = Enable GL_BLEND \<or> c = BindTexture GL_TEXTURE_2D 5
                             then GL_INVALID_OPERATION else GL_NO_ERROR)\<rparr>"

text \<open>
  A driver that rejects the index \<^verbatim>\<open>0xffffffff\<close>, which is what the sentinel -1 is as a
  \<^verbatim>\<open>GLuint\<close>, as an attribute index.
\<close>

definition env_rejects_sentinel :: env where
  "env_rejects_sentinel =
     env0\<lparr>outcome := (\<lambda>s c. if c = EnableVertexAttribArray 0xffffffff \<or>
                                c = VertexAttribPointer 0xffffffff 4 GL_UNSIGNED_BYTE GL_TRUE 20 16
                             then GL_INVALID_VALUE else GL_NO_ERROR)\<rparr>"

text \<open>
  A driver for a program that declares the attributes \<open>position\<close> and \<open>uv\<close> and the
  uniform \<open>u_proj\<close>, and nothing else.
\<close>

definition env_two_attribs :: env where
  "env_two_attribs =
     env0\<lparr>attrib_location := (\<lambda>s p name. if name = ''position'' then 0
                                        else if name = ''uv'' then 1 else - 1),
          uniform_location := (\<lambda>s p name. if name = ''u_proj'' then 0 else - 1)\<rparr>"

definition shader0 :: Shader where
  "shader0 = \<lparr>handle = 0, attrib_count = 0, uniform_count = 0,
              attribs = [0, 0, 0, 0, 0, 0, 0, 0], uniforms = [0, 0, 0, 0, 0, 0, 0, 0]\<rparr>"

definition mesh0 :: Mesh where
  "mesh0 = \<lparr>is_line_loop = False, vbo_size = 0, index_count = 0, vbo_handle = 0,
            elements_handle = 0\<rparr>"

text \<open>The inputs of the counterexamples.\<close>

definition world_program_7 :: world where
  "world_program_7 = world0\<lparr>current_program := 7\<rparr>"

definition world_culling :: world where
  "world_culling = world0\<lparr>cull_face := True\<rparr>"

definition shader_3 :: Shader where
  "shader_3 = shader0\<lparr>handle := 3\<rparr>"

definition shader_no_uniform :: Shader where
  "shader_no_uniform = shader0\<lparr>uniforms := [- 1, 0, 0, 0, 0, 0, 0, 0]\<rparr>"

definition shader_no_color :: Shader where
  "shader_no_color = shader0\<lparr>attrib_count := 3, attribs := [0, 1, - 1, 0, 0, 0, 0, 0]\<rparr>"

section \<open>Properties\<close>

lemmas gl_error_codes =
  GL_NO_ERROR_def GL_INVALID_ENUM_def GL_INVALID_VALUE_def GL_INVALID_OPERATION_def
  GL_STACK_OVERFLOW_def GL_STACK_UNDERFLOW_def GL_OUT_OF_MEMORY_def
  GL_INVALID_FRAMEBUFFER_OPERATION_def

lemmas gl_enums =
  GL_FALSE_def GL_TRUE_def GL_LINE_LOOP_def GL_TRIANGLES_def GL_SRC_ALPHA_def
  GL_ONE_MINUS_SRC_ALPHA_def GL_CULL_FACE_def GL_DEPTH_TEST_def GL_BLEND_def
  GL_SCISSOR_TEST_def GL_TEXTURE_2D_def GL_UNSIGNED_BYTE_def GL_FLOAT_def GL_RGBA_def
  GL_LINEAR_def GL_TEXTURE_MAG_FILTER_def GL_TEXTURE_MIN_FILTER_def GL_FUNC_ADD_def
  GL_RGBA8_def GL_TEXTURE_BINDING_2D_def GL_ARRAY_BUFFER_def GL_FRAGMENT_SHADER_def
  GL_VERTEX_SHADER_def GL_COMPILE_STATUS_def GL_CURRENT_PROGRAM_def

subsection \<open>gl::check_error\<close>

lemma category_eq:
  "category e =
     (if e = GL_INVALID_ENUM then ''Invalid enum''
      else if e = GL_INVALID_VALUE then ''Invalid value''
      else if e = GL_INVALID_OPERATION then ''Invalid operation''
      else if e = GL_INVALID_FRAMEBUFFER_OPERATION then ''Invalid framebuffer operation''
      else if e = GL_OUT_OF_MEMORY then ''Out of memory''
      else if e = GL_STACK_UNDERFLOW then ''Stack underflow''
      else if e = GL_STACK_OVERFLOW then ''Stack overflow''
      else ''Undefined error'')"
  by (simp add: category_def error_categories_def)

text \<open>
  Claim C7. When the driver's error flag holds the no-error code, \<open>check_error\<close> returns
  the state as it is: nothing is printed. For every other code it prints
  \<open>OpenGL Error: <category> in <file>:<line>\<close> and, on the next line,
  \<open>    --- Expression: <call text>\<close>, clears the flag and returns: the function is
  total, there is no branch that throws or aborts. The category is one of the seven
  names of the table, or \<open>Undefined error\<close>, which is what every code outside the table
  gets.
\<close>

theorem check_error_behaviour:
  "(gl_error s = GL_NO_ERROR \<longrightarrow> check_error expr file line s = s) \<and>
   (gl_error s \<noteq> GL_NO_ERROR \<longrightarrow>
      check_error expr file line s =
        s\<lparr>gl_error := GL_NO_ERROR,
          stdout := stdout s @ ''OpenGL Error: '' @ category (gl_error s) @ '' in '' @ file
                    @ '':'' @ fmt_d line @ newline
                    @ ''    --- Expression: '' @ expr @ newline\<rparr>) \<and>
   category (gl_error s) \<in> snd ` set error_categories \<union> {''Undefined error''} \<and>
   (gl_error s \<notin> fst ` set error_categories \<longrightarrow> category (gl_error s) = ''Undefined error'')"
proof (intro conjI impI)
  assume "gl_error s = GL_NO_ERROR"
  then show "check_error expr file line s = s"
    by (simp add: check_error_def glGetError_def)
next
  assume "gl_error s \<noteq> GL_NO_ERROR"
  then show "check_error expr file line s =
        s\<lparr>gl_error := GL_NO_ERROR,
          stdout := stdout s @ ''OpenGL Error: '' @ category (gl_error s) @ '' in '' @ file
                    @ '':'' @ fmt_d line @ newline
                    @ ''    --- Expression: '' @ expr @ newline\<rparr>"
    unfolding category_eq by (simp add: check_error_def glGetError_def printf_def Let_def)
next
  show "category (gl_error s) \<in> snd ` set error_categories \<union> {''Undefined error''}"
    unfolding category_eq by (simp add: error_categories_def)
next
  assume "gl_error s \<notin> fst ` set error_categories"
  then show "category (gl_error s) = ''Undefined error''"
    unfolding category_eq by (simp add: error_categories_def)
qed

theorem check_error_behaviour_witness:
  "stdout (check_error ''glEnable(GL_BLEND)'' ''gl.h'' 213
             (world0\<lparr>gl_error := GL_INVALID_ENUM\<rparr>)) =
     ''OpenGL Error: Invalid enum in gl.h:213'' @ newline
     @ ''    --- Expression: glEnable(GL_BLEND)'' @ newline
   \<and> check_error ''glEnable(GL_BLEND)'' ''gl.h'' 213 world0 = world0
   \<and> stdout (check_error ''f()'' ''gl.h'' 7 (world0\<lparr>gl_error := 0x0507\<rparr>)) =
     ''OpenGL Error: Undefined error in gl.h:7'' @ newline
     @ ''    --- Expression: f()'' @ newline"
  using
    check_error_behaviour [of "world0\<lparr>gl_error := GL_INVALID_ENUM\<rparr>"
      "''glEnable(GL_BLEND)''" "''gl.h''" 213]
    check_error_behaviour [of world0 "''glEnable(GL_BLEND)''" "''gl.h''" 213]
    check_error_behaviour [of "world0\<lparr>gl_error := 0x0507\<rparr>" "''f()''" "''gl.h''" 7]
  by (simp add: world0_def category_eq gl_error_codes fmt_d_def digits.simps)

subsection \<open>What a command changes\<close>

lemma check_error_frame [simp]:
  "calls (check_error e f l s) = calls s"
  "blend (check_error e f l s) = blend s"
  "blend_equation (check_error e f l s) = blend_equation s"
  "blend_sfactor (check_error e f l s) = blend_sfactor s"
  "blend_dfactor (check_error e f l s) = blend_dfactor s"
  "cull_face (check_error e f l s) = cull_face s"
  "depth_test (check_error e f l s) = depth_test s"
  "scissor_test (check_error e f l s) = scissor_test s"
  "array_buffer (check_error e f l s) = array_buffer s"
  "current_program (check_error e f l s) = current_program s"
  "texture_binding_2d (check_error e f l s) = texture_binding_2d s"
  "line_width (check_error e f l s) = line_width s"
  "buffer_size (check_error e f l s) = buffer_size s"
  "buffer_data (check_error e f l s) = buffer_data s"
  "gl_error (check_error e f l s) = GL_NO_ERROR"
  by (simp_all add: check_error_def glGetError_def printf_def Let_def)

lemma raise_error_frame [simp]:
  "calls (raise_error e s) = calls s"
  "blend (raise_error e s) = blend s"
  "blend_equation (raise_error e s) = blend_equation s"
  "blend_sfactor (raise_error e s) = blend_sfactor s"
  "blend_dfactor (raise_error e s) = blend_dfactor s"
  "cull_face (raise_error e s) = cull_face s"
  "depth_test (raise_error e s) = depth_test s"
  "scissor_test (raise_error e s) = scissor_test s"
  "array_buffer (raise_error e s) = array_buffer s"
  "current_program (raise_error e s) = current_program s"
  "texture_binding_2d (raise_error e s) = texture_binding_2d s"
  "line_width (raise_error e s) = line_width s"
  "buffer_size (raise_error e s) = buffer_size s"
  "buffer_data (raise_error e s) = buffer_data s"
  "stdout (raise_error e s) = stdout s"
  by (simp_all add: raise_error_def)

lemma GLCHK_frame [simp]:
  "calls (GLCHK E n stmt s) = calls (stmt s)"
  "blend (GLCHK E n stmt s) = blend (stmt s)"
  "blend_equation (GLCHK E n stmt s) = blend_equation (stmt s)"
  "blend_sfactor (GLCHK E n stmt s) = blend_sfactor (stmt s)"
  "blend_dfactor (GLCHK E n stmt s) = blend_dfactor (stmt s)"
  "cull_face (GLCHK E n stmt s) = cull_face (stmt s)"
  "depth_test (GLCHK E n stmt s) = depth_test (stmt s)"
  "scissor_test (GLCHK E n stmt s) = scissor_test (stmt s)"
  "array_buffer (GLCHK E n stmt s) = array_buffer (stmt s)"
  "current_program (GLCHK E n stmt s) = current_program (stmt s)"
  "texture_binding_2d (GLCHK E n stmt s) = texture_binding_2d (stmt s)"
  "line_width (GLCHK E n stmt s) = line_width (stmt s)"
  "buffer_size (GLCHK E n stmt s) = buffer_size (stmt s)"
  "buffer_data (GLCHK E n stmt s) = buffer_data (stmt s)"
  "gl_error (GLCHK E n stmt s) = GL_NO_ERROR"
  by (simp_all add: GLCHK_def)

lemma GLCHK_val_frame [simp]:
  "fst (GLCHK_val E n q s) = fst (q s)"
  "calls (snd (GLCHK_val E n q s)) = calls (snd (q s))"
  "blend (snd (GLCHK_val E n q s)) = blend (snd (q s))"
  "blend_equation (snd (GLCHK_val E n q s)) = blend_equation (snd (q s))"
  "blend_sfactor (snd (GLCHK_val E n q s)) = blend_sfactor (snd (q s))"
  "blend_dfactor (snd (GLCHK_val E n q s)) = blend_dfactor (snd (q s))"
  "cull_face (snd (GLCHK_val E n q s)) = cull_face (snd (q s))"
  "depth_test (snd (GLCHK_val E n q s)) = depth_test (snd (q s))"
  "scissor_test (snd (GLCHK_val E n q s)) = scissor_test (snd (q s))"
  "array_buffer (snd (GLCHK_val E n q s)) = array_buffer (snd (q s))"
  "current_program (snd (GLCHK_val E n q s)) = current_program (snd (q s))"
  "texture_binding_2d (snd (GLCHK_val E n q s)) = texture_binding_2d (snd (q s))"
  "line_width (snd (GLCHK_val E n q s)) = line_width (snd (q s))"
  "buffer_size (snd (GLCHK_val E n q s)) = buffer_size (snd (q s))"
  "buffer_data (snd (GLCHK_val E n q s)) = buffer_data (snd (q s))"
  "gl_error (snd (GLCHK_val E n q s)) = GL_NO_ERROR"
  by (simp_all add: GLCHK_val_def split_def Let_def)

lemma gl_cmd_calls:
  "(\<And>t. calls (effect t) = calls t) \<Longrightarrow> calls (gl_cmd E c effect s) = calls s @ [c]"
  by (simp add: gl_cmd_def Let_def)

lemma gl_cmd_frame:
  "(\<And>t. blend (effect t) = blend t) \<Longrightarrow> blend (gl_cmd E c effect s) = blend s"
  "(\<And>t. blend_equation (effect t) = blend_equation t) \<Longrightarrow>
     blend_equation (gl_cmd E c effect s) = blend_equation s"
  "(\<And>t. blend_sfactor (effect t) = blend_sfactor t) \<Longrightarrow>
     blend_sfactor (gl_cmd E c effect s) = blend_sfactor s"
  "(\<And>t. blend_dfactor (effect t) = blend_dfactor t) \<Longrightarrow>
     blend_dfactor (gl_cmd E c effect s) = blend_dfactor s"
  "(\<And>t. cull_face (effect t) = cull_face t) \<Longrightarrow> cull_face (gl_cmd E c effect s) = cull_face s"
  "(\<And>t. depth_test (effect t) = depth_test t) \<Longrightarrow>
     depth_test (gl_cmd E c effect s) = depth_test s"
  "(\<And>t. scissor_test (effect t) = scissor_test t) \<Longrightarrow>
     scissor_test (gl_cmd E c effect s) = scissor_test s"
  "(\<And>t. array_buffer (effect t) = array_buffer t) \<Longrightarrow>
     array_buffer (gl_cmd E c effect s) = array_buffer s"
  "(\<And>t. current_program (effect t) = current_program t) \<Longrightarrow>
     current_program (gl_cmd E c effect s) = current_program s"
  "(\<And>t. texture_binding_2d (effect t) = texture_binding_2d t) \<Longrightarrow>
     texture_binding_2d (gl_cmd E c effect s) = texture_binding_2d s"
  "(\<And>t. line_width (effect t) = line_width t) \<Longrightarrow>
     line_width (gl_cmd E c effect s) = line_width s"
  "(\<And>t. buffer_size (effect t) = buffer_size t) \<Longrightarrow>
     buffer_size (gl_cmd E c effect s) = buffer_size s"
  "(\<And>t. buffer_data (effect t) = buffer_data t) \<Longrightarrow>
     buffer_data (gl_cmd E c effect s) = buffer_data s"
  by (simp_all add: gl_cmd_def Let_def)

lemma gl_cmd_ok:
  "outcome E s c = GL_NO_ERROR \<Longrightarrow> gl_cmd E c effect s = effect (s\<lparr>calls := calls s @ [c]\<rparr>)"
  by (simp add: gl_cmd_def Let_def)

lemma gl_query_frame [simp]:
  "fst (gl_query E c r s) = (if outcome E s c = GL_NO_ERROR then Some (r s) else None)"
  "calls (snd (gl_query E c r s)) = calls s @ [c]"
  "blend (snd (gl_query E c r s)) = blend s"
  "blend_equation (snd (gl_query E c r s)) = blend_equation s"
  "blend_sfactor (snd (gl_query E c r s)) = blend_sfactor s"
  "blend_dfactor (snd (gl_query E c r s)) = blend_dfactor s"
  "cull_face (snd (gl_query E c r s)) = cull_face s"
  "depth_test (snd (gl_query E c r s)) = depth_test s"
  "scissor_test (snd (gl_query E c r s)) = scissor_test s"
  "array_buffer (snd (gl_query E c r s)) = array_buffer s"
  "current_program (snd (gl_query E c r s)) = current_program s"
  "texture_binding_2d (snd (gl_query E c r s)) = texture_binding_2d s"
  "line_width (snd (gl_query E c r s)) = line_width s"
  "buffer_size (snd (gl_query E c r s)) = buffer_size s"
  "buffer_data (snd (gl_query E c r s)) = buffer_data s"
  by (simp_all add: gl_query_def Let_def)

lemma set_capability_frame [simp]:
  "calls (set_capability cap v s) = calls s"
  "blend (set_capability cap v s) = (if cap = GL_BLEND then v else blend s)"
  "cull_face (set_capability cap v s) = (if cap = GL_CULL_FACE then v else cull_face s)"
  "depth_test (set_capability cap v s) = (if cap = GL_DEPTH_TEST then v else depth_test s)"
  "scissor_test (set_capability cap v s) = (if cap = GL_SCISSOR_TEST then v else scissor_test s)"
  "blend_equation (set_capability cap v s) = blend_equation s"
  "blend_sfactor (set_capability cap v s) = blend_sfactor s"
  "blend_dfactor (set_capability cap v s) = blend_dfactor s"
  "array_buffer (set_capability cap v s) = array_buffer s"
  "current_program (set_capability cap v s) = current_program s"
  "texture_binding_2d (set_capability cap v s) = texture_binding_2d s"
  "line_width (set_capability cap v s) = line_width s"
  "buffer_size (set_capability cap v s) = buffer_size s"
  "buffer_data (set_capability cap v s) = buffer_data s"
  by (simp_all add: set_capability_def gl_enums)

lemmas gl_commands =
  glGetIntegerv_def glEnable_def glDisable_def glBlendEquation_def glBlendFunc_def
  glBindBuffer_def glUseProgram_def glBindTexture_def glLineWidth_def glUniform1f_def
  glUniform2f_def glUniform4f_def glUniformMatrix4fv_def glEnableVertexAttribArray_def
  glVertexAttribPointer_def glDrawArrays_def glGenBuffers_def glBufferData_def
  glBufferSubData_def glGenTextures_def glTexParameteri_def glTexImage2D_def
  glShaderSource_def glCompileShader_def glAttachShader_def glLinkProgram_def
  glGetShaderiv_def glGetShaderInfoLog_def

lemma unchanged_gpu_refl [simp]: "unchanged_gpu s s"
  by (simp add: unchanged_gpu_def)

lemma unchanged_gpu_trans: "unchanged_gpu s t \<Longrightarrow> unchanged_gpu t u \<Longrightarrow> unchanged_gpu s u"
  by (simp add: unchanged_gpu_def)

lemma unchanged_gpu_step [simp]:
  "unchanged_gpu s (GLCHK E k (gl_cmd E c (\<lambda>s. s)) t) = unchanged_gpu s t"
  by (simp add: unchanged_gpu_def gl_cmd_frame)

lemma calls_step [simp]:
  "calls (gl_cmd E c (\<lambda>s. s) s) = calls s @ [c]"
  by (simp add: gl_cmd_calls)

lemma draw_mesh_uniform_frame:
  "draw_mesh_uniform E sh i (args, s) = Some (args', s') \<Longrightarrow> unchanged_gpu s s'"
  by (auto simp: draw_mesh_uniform_def gl_commands bind_eq_Some_conv split: if_splits)

lemma draw_mesh_uniforms_frame:
  "draw_mesh_uniforms E sh n i st = Some st' \<Longrightarrow> unchanged_gpu (snd st) (snd st')"
proof (induction "nat (n - i)" arbitrary: i st)
  case 0
  then have "\<not> i < n" by simp
  with "0.prems" show ?case
    by (simp add: draw_mesh_uniforms.simps)
next
  case (Suc k)
  from Suc.hyps(2) have lt: "i < n" by simp
  with Suc.prems obtain st1 where
    b: "draw_mesh_uniform E sh i st = Some st1" and
    r: "draw_mesh_uniforms E sh n (i + 1) st1 = Some st'"
    by (subst (asm) draw_mesh_uniforms.simps) (auto split: option.splits)
  from Suc.hyps(2) have "k = nat (n - (i + 1))" by simp
  from Suc.hyps(1) [OF this r] have "unchanged_gpu (snd st1) (snd st')" .
  moreover from b have "unchanged_gpu (snd st) (snd st1)"
    by (cases st; cases st1) (auto dest: draw_mesh_uniform_frame)
  ultimately show ?case by (rule unchanged_gpu_trans [rotated])
qed

lemma set_vertex_attribs_enable_frame:
  "set_vertex_attribs_enable E sh i s = Some s' \<Longrightarrow> unchanged_gpu s s'"
proof (induction "nat (attrib_count sh - i)" arbitrary: i s)
  case 0
  then have "\<not> i < attrib_count sh" by simp
  with "0.prems" show ?case
    by (simp add: set_vertex_attribs_enable.simps)
next
  case (Suc k)
  from Suc.hyps(2) have lt: "i < attrib_count sh" by simp
  with Suc.prems obtain a where
    r: "set_vertex_attribs_enable E sh (i + 1) (GLCHK E 158 (glEnableVertexAttribArray E a) s)
          = Some s'"
    by (subst (asm) set_vertex_attribs_enable.simps) (auto split: option.splits)
  from Suc.hyps(2) have "k = nat (attrib_count sh - (i + 1))" by simp
  from Suc.hyps(1) [OF this r]
  have "unchanged_gpu (GLCHK E 158 (glEnableVertexAttribArray E a) s) s'" .
  then show ?case
    by (rule unchanged_gpu_trans [rotated]) (simp add: gl_commands)
qed

lemma set_vertex_attribs_frame:
  "set_vertex_attribs E sh s = Some s' \<Longrightarrow> unchanged_gpu s s'"
  by (auto simp: set_vertex_attribs_def gl_commands bind_eq_Some_conv Let_def
      split: if_splits dest!: set_vertex_attribs_enable_frame)

subsection \<open>gl::draw_mesh\<close>

lemma get_integer_simps [simp]:
  "get_integer GL_CURRENT_PROGRAM s = current_program s"
  "get_integer GL_TEXTURE_BINDING_2D s = texture_binding_2d s"
  by (simp_all add: get_integer_def gl_enums)

lemma draw_mesh_Some:
  assumes "draw_mesh E mesh shader scissor n args s = Some s'"
  shows "\<exists>args' s11 s12.
    draw_mesh_uniforms E shader n 0
      (args, draw_mesh_setup E mesh shader scissor
         (snd (GLCHK_val E 212 (glGetIntegerv E GL_TEXTURE_BINDING_2D)
            (snd (GLCHK_val E 211 (glGetIntegerv E GL_CURRENT_PROGRAM) s))))) = Some (args', s11) \<and>
    set_vertex_attribs E shader s11 = Some s12 \<and>
    draw_mesh_restore E
      (fst (GLCHK_val E 211 (glGetIntegerv E GL_CURRENT_PROGRAM) s))
      (fst (GLCHK_val E 212 (glGetIntegerv E GL_TEXTURE_BINDING_2D)
            (snd (GLCHK_val E 211 (glGetIntegerv E GL_CURRENT_PROGRAM) s))))
      (GLCHK E 259 (glDrawArrays E (if is_line_loop mesh then GL_LINE_LOOP else GL_TRIANGLES) 0
                      (index_count mesh))
         (GLCHK E 258 (glLineWidth E 2) s12)) = Some s'"
  using assms unfolding draw_mesh_def Let_def split_def
  by (auto split: option.splits)

lemma draw_mesh_restore_Some:
  "draw_mesh_restore E lp lt s = Some s' \<Longrightarrow> \<exists>p t. lp = Some p \<and> lt = Some t"
  by (auto simp: draw_mesh_restore_def split: option.splits)

lemma draw_mesh_snapshot:
  assumes "draw_mesh E mesh shader scissor n args s = Some s'"
  shows "fst (GLCHK_val E 211 (glGetIntegerv E GL_CURRENT_PROGRAM) s) = Some (current_program s)"
    and "fst (GLCHK_val E 212 (glGetIntegerv E GL_TEXTURE_BINDING_2D)
            (snd (GLCHK_val E 211 (glGetIntegerv E GL_CURRENT_PROGRAM) s)))
         = Some (texture_binding_2d s)"
proof -
  from draw_mesh_Some [OF assms] obtain x where
    "draw_mesh_restore E
      (fst (GLCHK_val E 211 (glGetIntegerv E GL_CURRENT_PROGRAM) s))
      (fst (GLCHK_val E 212 (glGetIntegerv E GL_TEXTURE_BINDING_2D)
            (snd (GLCHK_val E 211 (glGetIntegerv E GL_CURRENT_PROGRAM) s)))) x = Some s'"
    by blast
  from draw_mesh_restore_Some [OF this] obtain p t where
    p: "fst (GLCHK_val E 211 (glGetIntegerv E GL_CURRENT_PROGRAM) s) = Some p" and
    t: "fst (GLCHK_val E 212 (glGetIntegerv E GL_TEXTURE_BINDING_2D)
            (snd (GLCHK_val E 211 (glGetIntegerv E GL_CURRENT_PROGRAM) s))) = Some t"
    by blast
  from p show "fst (GLCHK_val E 211 (glGetIntegerv E GL_CURRENT_PROGRAM) s)
      = Some (current_program s)"
    by (simp add: glGetIntegerv_def split: if_splits)
  from t show "fst (GLCHK_val E 212 (glGetIntegerv E GL_TEXTURE_BINDING_2D)
            (snd (GLCHK_val E 211 (glGetIntegerv E GL_CURRENT_PROGRAM) s)))
         = Some (texture_binding_2d s)"
    by (simp add: glGetIntegerv_def split: if_splits)
qed

lemma slot_Some: "0 \<le> i \<Longrightarrow> i < 8 \<Longrightarrow> nat i < length xs \<Longrightarrow> slot xs i = Some (xs ! nat i)"
  by (simp add: slot_def)

lemma draw_mesh_uniform_encoded:
  assumes "slot (uniforms sh) i = Some loc"
  shows "\<exists>s'. draw_mesh_uniform E sh i (va_uniform u @ rest, s) = Some (rest, s') \<and>
              calls s' = calls s @ [upload loc u]"
  using assms
  by (cases u)
    (simp_all add: draw_mesh_uniform_def gl_commands UniformType_Float_def
      UniformType_Vec2_def UniformType_Matrix4_def UniformType_Color_def)

lemma draw_mesh_uniforms_encoded:
  "0 \<le> i \<Longrightarrow> i + int (length us) = n \<Longrightarrow> n \<le> 8 \<Longrightarrow> nat n \<le> length (uniforms sh) \<Longrightarrow>
   \<exists>s'. draw_mesh_uniforms E sh n i (concat (map va_uniform us) @ rest, s) = Some (rest, s') \<and>
        calls s' = calls s @ map2 upload (drop (nat i) (uniforms sh)) us"
proof (induction us arbitrary: i s)
  case Nil
  then show ?case by (simp add: draw_mesh_uniforms.simps)
next
  case (Cons u us)
  from Cons.prems have lt: "i < n" and i8: "i < 8" and len: "nat i < length (uniforms sh)"
    by auto
  from slot_Some [OF Cons.prems(1) i8 len]
  have sl: "slot (uniforms sh) i = Some (uniforms sh ! nat i)" .
  from draw_mesh_uniform_encoded [OF sl, of E u "concat (map va_uniform us) @ rest" s]
  obtain s1 where
    b: "draw_mesh_uniform E sh i (va_uniform u @ concat (map va_uniform us) @ rest, s)
          = Some (concat (map va_uniform us) @ rest, s1)" and
    c1: "calls s1 = calls s @ [upload (uniforms sh ! nat i) u]"
    by blast
  from Cons.prems have "0 \<le> i + 1" "i + 1 + int (length us) = n" by auto
  from Cons.IH [OF this Cons.prems(3,4), of s1] obtain s' where
    r: "draw_mesh_uniforms E sh n (i + 1) (concat (map va_uniform us) @ rest, s1)
          = Some (rest, s')" and
    c2: "calls s' = calls s1 @ map2 upload (drop (nat (i + 1)) (uniforms sh)) us"
    by blast
  have d: "drop (nat i) (uniforms sh) = uniforms sh ! nat i # drop (nat (i + 1)) (uniforms sh)"
    using len Cons.prems(1) by (simp add: Cons_nth_drop_Suc nat_add_distrib)
  have "draw_mesh_uniforms E sh n i (concat (map va_uniform (u # us)) @ rest, s) = Some (rest, s')"
    using lt b r by (subst draw_mesh_uniforms.simps) simp
  moreover have "calls s' = calls s @ map2 upload (drop (nat i) (uniforms sh)) (u # us)"
    using c1 c2 d by simp
  ultimately show ?case by blast
qed

lemma set_vertex_attribs_enable_calls:
  "0 \<le> i \<Longrightarrow> attrib_count sh \<le> 8 \<Longrightarrow> nat (attrib_count sh) \<le> length (attribs sh) \<Longrightarrow>
   \<exists>s'. set_vertex_attribs_enable E sh i s = Some s' \<and>
        calls s' = calls s @ map EnableVertexAttribArray
                     (drop (nat i) (take (nat (attrib_count sh)) (attribs sh)))"
proof (induction "nat (attrib_count sh - i)" arbitrary: i s)
  case 0
  then have "\<not> i < attrib_count sh" by simp
  with 0 show ?case
    by (simp add: set_vertex_attribs_enable.simps)
next
  case (Suc k)
  from Suc.hyps(2) have lt: "i < attrib_count sh" by simp
  with Suc.prems have i8: "i < 8" and len: "nat i < length (attribs sh)" by auto
  from slot_Some [OF Suc.prems(1) i8 len]
  have sl: "slot (attribs sh) i = Some (attribs sh ! nat i)" .
  let ?s1 = "GLCHK E 158 (glEnableVertexAttribArray E (attribs sh ! nat i)) s"
  from Suc.hyps(2) have k: "k = nat (attrib_count sh - (i + 1))" by simp
  from Suc.prems have "0 \<le> i + 1" by simp
  from Suc.hyps(1) [OF k this Suc.prems(2,3), of ?s1] obtain s' where
    r: "set_vertex_attribs_enable E sh (i + 1) ?s1 = Some s'" and
    c: "calls s' = calls ?s1 @ map EnableVertexAttribArray
                     (drop (nat (i + 1)) (take (nat (attrib_count sh)) (attribs sh)))"
    by blast
  have len': "nat i < length (take (nat (attrib_count sh)) (attribs sh))"
    using lt len Suc.prems(1) by simp
  have d: "drop (nat i) (take (nat (attrib_count sh)) (attribs sh))
      = attribs sh ! nat i # drop (nat (i + 1)) (take (nat (attrib_count sh)) (attribs sh))"
    using Cons_nth_drop_Suc [OF len'] lt Suc.prems(1) by (simp add: nat_add_distrib)
  have "set_vertex_attribs_enable E sh i s = Some s'"
    using lt sl r by (subst set_vertex_attribs_enable.simps) simp
  moreover have "calls s' = calls s @ map EnableVertexAttribArray
                     (drop (nat i) (take (nat (attrib_count sh)) (attribs sh)))"
    using c d by (simp add: gl_commands)
  ultimately show ?case by blast
qed

lemma set_vertex_attribs_calls:
  assumes "attrib_count sh \<le> 8" and "length (attribs sh) = 8"
  shows "\<exists>s'. set_vertex_attribs E sh s = Some s' \<and> calls s' = calls s @ attrib_calls sh"
proof -
  from assms have "nat (attrib_count sh) \<le> length (attribs sh)" by simp
  from set_vertex_attribs_enable_calls [OF _ assms(1) this, of 0 E s] obtain s1 where
    e: "set_vertex_attribs_enable E sh 0 s = Some s1" and
    c: "calls s1 = calls s @ map EnableVertexAttribArray
                     (take (nat (attrib_count sh)) (attribs sh))"
    by auto
  show ?thesis
    using e c assms(2)
    by (simp add: set_vertex_attribs_def slot_def Let_def gl_commands attrib_calls_def
        sizeof_ImDrawVert_def)
qed

lemma draw_mesh_setup_calls:
  "calls (draw_mesh_setup E mesh shader scissor s) =
     calls s @ [Enable GL_BLEND, BlendEquation GL_FUNC_ADD,
      BlendFunc GL_SRC_ALPHA GL_ONE_MINUS_SRC_ALPHA,
      Disable GL_CULL_FACE, Disable GL_DEPTH_TEST,
      (if scissor then Enable GL_SCISSOR_TEST else Disable GL_SCISSOR_TEST),
      BindBuffer GL_ARRAY_BUFFER (vbo_handle mesh), UseProgram (handle shader)]"
  by (simp add: draw_mesh_setup_def Let_def gl_commands gl_cmd_calls)

lemma draw_mesh_restore_calls:
  "\<exists>s'. draw_mesh_restore E (Some lp) (Some lt) s = Some s' \<and>
     calls s' = calls s @ [BindBuffer GL_ARRAY_BUFFER 0, UseProgram lp,
       Disable GL_SCISSOR_TEST, Disable GL_BLEND, BindTexture GL_TEXTURE_2D lt]"
  by (simp add: draw_mesh_restore_def Let_def gl_commands gl_cmd_calls)

lemma draw_mesh_calls:
  assumes q: "\<forall>t p. outcome E t (GetIntegerv p) = GL_NO_ERROR"
    and us: "length us \<le> 8" and ul: "length (uniforms sh) = 8"
    and ac: "attrib_count sh \<le> 8" and al: "length (attribs sh) = 8"
  shows "\<exists>s'. draw_mesh E mesh sh scissor (int (length us))
                 (concat (map va_uniform us) @ rest) s = Some s' \<and>
              calls s' = calls s @ draw_calls mesh sh scissor us (current_program s)
                                     (texture_binding_2d s)"
proof -
  let ?q1 = "GLCHK_val E 211 (glGetIntegerv E GL_CURRENT_PROGRAM) s"
  let ?q2 = "GLCHK_val E 212 (glGetIntegerv E GL_TEXTURE_BINDING_2D) (snd ?q1)"
  let ?s10 = "draw_mesh_setup E mesh sh scissor (snd ?q2)"
  have f1: "fst ?q1 = Some (current_program s)"
    using q by (simp add: glGetIntegerv_def)
  have f2: "fst ?q2 = Some (texture_binding_2d s)"
    using q by (simp add: glGetIntegerv_def)
  have c2: "calls (snd ?q2) = calls s @ [GetIntegerv GL_CURRENT_PROGRAM,
      GetIntegerv GL_TEXTURE_BINDING_2D]"
    by (simp add: glGetIntegerv_def)
  from us ul have "0 \<le> (0::int)" "0 + int (length us) = int (length us)"
    "int (length us) \<le> 8" "nat (int (length us)) \<le> length (uniforms sh)"
    by simp_all
  from draw_mesh_uniforms_encoded [OF this, of E rest ?s10] obtain s11 where
    u: "draw_mesh_uniforms E sh (int (length us)) 0 (concat (map va_uniform us) @ rest, ?s10)
          = Some (rest, s11)" and
    c11: "calls s11 = calls ?s10 @ map2 upload (uniforms sh) us"
    by auto
  from set_vertex_attribs_calls [OF ac al, of E s11] obtain s12 where
    a: "set_vertex_attribs E sh s11 = Some s12" and
    c12: "calls s12 = calls s11 @ attrib_calls sh"
    by blast
  let ?s14 = "GLCHK E 259 (glDrawArrays E
                (if is_line_loop mesh then GL_LINE_LOOP else GL_TRIANGLES) 0
                (index_count mesh)) (GLCHK E 258 (glLineWidth E 2) s12)"
  have c14: "calls ?s14 = calls s12 @ [LineWidth 2,
      DrawArrays (if is_line_loop mesh then GL_LINE_LOOP else GL_TRIANGLES) 0
        (index_count mesh)]"
    by (simp add: gl_commands gl_cmd_calls)
  from draw_mesh_restore_calls [of E "current_program s" "texture_binding_2d s" ?s14]
  obtain s' where
    r: "draw_mesh_restore E (Some (current_program s)) (Some (texture_binding_2d s)) ?s14
          = Some s'" and
    c': "calls s' = calls ?s14 @ [BindBuffer GL_ARRAY_BUFFER 0, UseProgram (current_program s),
       Disable GL_SCISSOR_TEST, Disable GL_BLEND,
       BindTexture GL_TEXTURE_2D (texture_binding_2d s)]"
    by blast
  have "draw_mesh E mesh sh scissor (int (length us)) (concat (map va_uniform us) @ rest) s
      = Some s'"
    unfolding draw_mesh_def Let_def split_def
    by (simp only: f1 f2 u a r option.case prod.case snd_conv fst_conv)
  moreover have "calls s' = calls s @ draw_calls mesh sh scissor us (current_program s)
                                     (texture_binding_2d s)"
    unfolding c' c14 c12 c11 draw_mesh_setup_calls c2 draw_calls_def by simp
  ultimately show ?thesis by blast
qed

lemma gl_fields [simp]:
  "blend (glEnable E cap t) =
     (if outcome E t (Enable cap) = GL_NO_ERROR \<and> cap = GL_BLEND then True else blend t)"
  "blend_equation (glEnable E cap t) = blend_equation t"
  "blend_sfactor (glEnable E cap t) = blend_sfactor t"
  "blend_dfactor (glEnable E cap t) = blend_dfactor t"
  "cull_face (glEnable E cap t) =
     (if outcome E t (Enable cap) = GL_NO_ERROR \<and> cap = GL_CULL_FACE then True else cull_face t)"
  "depth_test (glEnable E cap t) =
     (if outcome E t (Enable cap) = GL_NO_ERROR \<and> cap = GL_DEPTH_TEST then True else depth_test t)"
  "scissor_test (glEnable E cap t) =
     (if outcome E t (Enable cap) = GL_NO_ERROR \<and> cap = GL_SCISSOR_TEST then True else scissor_test t)"
  "array_buffer (glEnable E cap t) = array_buffer t"
  "current_program (glEnable E cap t) = current_program t"
  "texture_binding_2d (glEnable E cap t) = texture_binding_2d t"
  "line_width (glEnable E cap t) = line_width t"
  "buffer_size (glEnable E cap t) = buffer_size t"
  "buffer_data (glEnable E cap t) = buffer_data t"
  "blend (glDisable E cap t) =
     (if outcome E t (Disable cap) = GL_NO_ERROR \<and> cap = GL_BLEND then False else blend t)"
  "blend_equation (glDisable E cap t) = blend_equation t"
  "blend_sfactor (glDisable E cap t) = blend_sfactor t"
  "blend_dfactor (glDisable E cap t) = blend_dfactor t"
  "cull_face (glDisable E cap t) =
     (if outcome E t (Disable cap) = GL_NO_ERROR \<and> cap = GL_CULL_FACE then False else cull_face t)"
  "depth_test (glDisable E cap t) =
     (if outcome E t (Disable cap) = GL_NO_ERROR \<and> cap = GL_DEPTH_TEST then False else depth_test t)"
  "scissor_test (glDisable E cap t) =
     (if outcome E t (Disable cap) = GL_NO_ERROR \<and> cap = GL_SCISSOR_TEST then False else scissor_test t)"
  "array_buffer (glDisable E cap t) = array_buffer t"
  "current_program (glDisable E cap t) = current_program t"
  "texture_binding_2d (glDisable E cap t) = texture_binding_2d t"
  "line_width (glDisable E cap t) = line_width t"
  "buffer_size (glDisable E cap t) = buffer_size t"
  "buffer_data (glDisable E cap t) = buffer_data t"
  "blend (glBlendEquation E m t) = blend t"
  "blend_equation (glBlendEquation E m t) =
     (if outcome E t (BlendEquation m) = GL_NO_ERROR then m else blend_equation t)"
  "blend_sfactor (glBlendEquation E m t) = blend_sfactor t"
  "blend_dfactor (glBlendEquation E m t) = blend_dfactor t"
  "cull_face (glBlendEquation E m t) = cull_face t"
  "depth_test (glBlendEquation E m t) = depth_test t"
  "scissor_test (glBlendEquation E m t) = scissor_test t"
  "array_buffer (glBlendEquation E m t) = array_buffer t"
  "current_program (glBlendEquation E m t) = current_program t"
  "texture_binding_2d (glBlendEquation E m t) = texture_binding_2d t"
  "line_width (glBlendEquation E m t) = line_width t"
  "buffer_size (glBlendEquation E m t) = buffer_size t"
  "buffer_data (glBlendEquation E m t) = buffer_data t"
  "blend (glBlendFunc E sf df t) = blend t"
  "blend_equation (glBlendFunc E sf df t) = blend_equation t"
  "blend_sfactor (glBlendFunc E sf df t) =
     (if outcome E t (BlendFunc sf df) = GL_NO_ERROR then sf else blend_sfactor t)"
  "blend_dfactor (glBlendFunc E sf df t) =
     (if outcome E t (BlendFunc sf df) = GL_NO_ERROR then df else blend_dfactor t)"
  "cull_face (glBlendFunc E sf df t) = cull_face t"
  "depth_test (glBlendFunc E sf df t) = depth_test t"
  "scissor_test (glBlendFunc E sf df t) = scissor_test t"
  "array_buffer (glBlendFunc E sf df t) = array_buffer t"
  "current_program (glBlendFunc E sf df t) = current_program t"
  "texture_binding_2d (glBlendFunc E sf df t) = texture_binding_2d t"
  "line_width (glBlendFunc E sf df t) = line_width t"
  "buffer_size (glBlendFunc E sf df t) = buffer_size t"
  "buffer_data (glBlendFunc E sf df t) = buffer_data t"
  "blend (glBindBuffer E tg b t) = blend t"
  "blend_equation (glBindBuffer E tg b t) = blend_equation t"
  "blend_sfactor (glBindBuffer E tg b t) = blend_sfactor t"
  "blend_dfactor (glBindBuffer E tg b t) = blend_dfactor t"
  "cull_face (glBindBuffer E tg b t) = cull_face t"
  "depth_test (glBindBuffer E tg b t) = depth_test t"
  "scissor_test (glBindBuffer E tg b t) = scissor_test t"
  "array_buffer (glBindBuffer E tg b t) =
     (if outcome E t (BindBuffer tg b) = GL_NO_ERROR \<and> tg = GL_ARRAY_BUFFER then b else array_buffer t)"
  "current_program (glBindBuffer E tg b t) = current_program t"
  "texture_binding_2d (glBindBuffer E tg b t) = texture_binding_2d t"
  "line_width (glBindBuffer E tg b t) = line_width t"
  "buffer_size (glBindBuffer E tg b t) = buffer_size t"
  "buffer_data (glBindBuffer E tg b t) = buffer_data t"
  "blend (glUseProgram E p t) = blend t"
  "blend_equation (glUseProgram E p t) = blend_equation t"
  "blend_sfactor (glUseProgram E p t) = blend_sfactor t"
  "blend_dfactor (glUseProgram E p t) = blend_dfactor t"
  "cull_face (glUseProgram E p t) = cull_face t"
  "depth_test (glUseProgram E p t) = depth_test t"
  "scissor_test (glUseProgram E p t) = scissor_test t"
  "array_buffer (glUseProgram E p t) = array_buffer t"
  "current_program (glUseProgram E p t) =
     (if outcome E t (UseProgram p) = GL_NO_ERROR then p else current_program t)"
  "texture_binding_2d (glUseProgram E p t) = texture_binding_2d t"
  "line_width (glUseProgram E p t) = line_width t"
  "buffer_size (glUseProgram E p t) = buffer_size t"
  "buffer_data (glUseProgram E p t) = buffer_data t"
  "blend (glBindTexture E tg x t) = blend t"
  "blend_equation (glBindTexture E tg x t) = blend_equation t"
  "blend_sfactor (glBindTexture E tg x t) = blend_sfactor t"
  "blend_dfactor (glBindTexture E tg x t) = blend_dfactor t"
  "cull_face (glBindTexture E tg x t) = cull_face t"
  "depth_test (glBindTexture E tg x t) = depth_test t"
  "scissor_test (glBindTexture E tg x t) = scissor_test t"
  "array_buffer (glBindTexture E tg x t) = array_buffer t"
  "current_program (glBindTexture E tg x t) = current_program t"
  "texture_binding_2d (glBindTexture E tg x t) =
     (if outcome E t (BindTexture tg x) = GL_NO_ERROR \<and> tg = GL_TEXTURE_2D then x else texture_binding_2d t)"
  "line_width (glBindTexture E tg x t) = line_width t"
  "buffer_size (glBindTexture E tg x t) = buffer_size t"
  "buffer_data (glBindTexture E tg x t) = buffer_data t"
  "blend (glLineWidth E w t) = blend t"
  "blend_equation (glLineWidth E w t) = blend_equation t"
  "blend_sfactor (glLineWidth E w t) = blend_sfactor t"
  "blend_dfactor (glLineWidth E w t) = blend_dfactor t"
  "cull_face (glLineWidth E w t) = cull_face t"
  "depth_test (glLineWidth E w t) = depth_test t"
  "scissor_test (glLineWidth E w t) = scissor_test t"
  "array_buffer (glLineWidth E w t) = array_buffer t"
  "current_program (glLineWidth E w t) = current_program t"
  "texture_binding_2d (glLineWidth E w t) = texture_binding_2d t"
  "line_width (glLineWidth E w t) =
     (if outcome E t (LineWidth w) = GL_NO_ERROR then w else line_width t)"
  "buffer_size (glLineWidth E w t) = buffer_size t"
  "buffer_data (glLineWidth E w t) = buffer_data t"
  "blend (glDrawArrays E md fi n t) = blend t"
  "blend_equation (glDrawArrays E md fi n t) = blend_equation t"
  "blend_sfactor (glDrawArrays E md fi n t) = blend_sfactor t"
  "blend_dfactor (glDrawArrays E md fi n t) = blend_dfactor t"
  "cull_face (glDrawArrays E md fi n t) = cull_face t"
  "depth_test (glDrawArrays E md fi n t) = depth_test t"
  "scissor_test (glDrawArrays E md fi n t) = scissor_test t"
  "array_buffer (glDrawArrays E md fi n t) = array_buffer t"
  "current_program (glDrawArrays E md fi n t) = current_program t"
  "texture_binding_2d (glDrawArrays E md fi n t) = texture_binding_2d t"
  "line_width (glDrawArrays E md fi n t) = line_width t"
  "buffer_size (glDrawArrays E md fi n t) = buffer_size t"
  "buffer_data (glDrawArrays E md fi n t) = buffer_data t"
  by (auto simp: glEnable_def glDisable_def glBlendEquation_def glBlendFunc_def
      glBindBuffer_def glUseProgram_def glBindTexture_def glLineWidth_def glDrawArrays_def
      gl_cmd_def Let_def)

lemma gl_calls [simp]:
  "calls (glEnable E cap t) = calls t @ [Enable cap]"
  "calls (glDisable E cap t) = calls t @ [Disable cap]"
  "calls (glBlendEquation E m t) = calls t @ [BlendEquation m]"
  "calls (glBlendFunc E sf df t) = calls t @ [BlendFunc sf df]"
  "calls (glBindBuffer E tg b t) = calls t @ [BindBuffer tg b]"
  "calls (glUseProgram E p t) = calls t @ [UseProgram p]"
  "calls (glBindTexture E tg x t) = calls t @ [BindTexture tg x]"
  "calls (glLineWidth E w t) = calls t @ [LineWidth w]"
  "calls (glDrawArrays E md fi n t) = calls t @ [DrawArrays md fi n]"
  by (simp_all add: glEnable_def glDisable_def glBlendEquation_def glBlendFunc_def
      glBindBuffer_def glUseProgram_def glBindTexture_def glLineWidth_def glDrawArrays_def
      gl_cmd_calls)

lemma draw_mesh_restore_eq:
  "draw_mesh_restore E (Some lp) (Some lt) s =
     Some (GLCHK E 267 (glBindTexture E GL_TEXTURE_2D lt)
       (GLCHK E 266 (glDisable E GL_BLEND)
         (GLCHK E 265 (glDisable E GL_SCISSOR_TEST)
           (GLCHK E 264 (glUseProgram E lp)
             (GLCHK E 263 (glBindBuffer E GL_ARRAY_BUFFER 0) s)))))"
  by (simp add: draw_mesh_restore_def Let_def)

lemma draw_mesh_setup_eq:
  "draw_mesh_setup E mesh shader scissor s =
     GLCHK E 222 (glUseProgram E (handle shader))
       (GLCHK E 221 (glBindBuffer E GL_ARRAY_BUFFER (vbo_handle mesh))
         ((if scissor then GLCHK E 218 (glEnable E GL_SCISSOR_TEST)
           else GLCHK E 219 (glDisable E GL_SCISSOR_TEST))
           (GLCHK E 217 (glDisable E GL_DEPTH_TEST)
             (GLCHK E 216 (glDisable E GL_CULL_FACE)
               (GLCHK E 215 (glBlendFunc E GL_SRC_ALPHA GL_ONE_MINUS_SRC_ALPHA)
                 (GLCHK E 214 (glBlendEquation E GL_FUNC_ADD)
                   (GLCHK E 213 (glEnable E GL_BLEND) s)))))))"
  by (simp add: draw_mesh_setup_def Let_def)

text \<open>A draw with defined behaviour, cut into its parts.\<close>

lemma draw_mesh_parts:
  assumes "draw_mesh E mesh shader scissor n args s = Some s'"
  obtains s2 s11 s12 where
    "unchanged_gpu s s2"
    "unchanged_gpu (draw_mesh_setup E mesh shader scissor s2) s11"
    "unchanged_gpu s11 s12"
    "s' = GLCHK E 267 (glBindTexture E GL_TEXTURE_2D (texture_binding_2d s))
       (GLCHK E 266 (glDisable E GL_BLEND)
         (GLCHK E 265 (glDisable E GL_SCISSOR_TEST)
           (GLCHK E 264 (glUseProgram E (current_program s))
             (GLCHK E 263 (glBindBuffer E GL_ARRAY_BUFFER 0)
               (GLCHK E 259 (glDrawArrays E
                   (if is_line_loop mesh then GL_LINE_LOOP else GL_TRIANGLES) 0
                   (index_count mesh))
                 (GLCHK E 258 (glLineWidth E 2) s12))))))"
proof -
  let ?s2 = "snd (GLCHK_val E 212 (glGetIntegerv E GL_TEXTURE_BINDING_2D)
            (snd (GLCHK_val E 211 (glGetIntegerv E GL_CURRENT_PROGRAM) s)))"
  from draw_mesh_Some [OF assms] obtain args' s11 s12 where
    u: "draw_mesh_uniforms E shader n 0 (args, draw_mesh_setup E mesh shader scissor ?s2)
          = Some (args', s11)" and
    a: "set_vertex_attribs E shader s11 = Some s12" and
    r: "draw_mesh_restore E
      (fst (GLCHK_val E 211 (glGetIntegerv E GL_CURRENT_PROGRAM) s))
      (fst (GLCHK_val E 212 (glGetIntegerv E GL_TEXTURE_BINDING_2D)
            (snd (GLCHK_val E 211 (glGetIntegerv E GL_CURRENT_PROGRAM) s))))
      (GLCHK E 259 (glDrawArrays E (if is_line_loop mesh then GL_LINE_LOOP else GL_TRIANGLES) 0
                      (index_count mesh))
         (GLCHK E 258 (glLineWidth E 2) s12)) = Some s'"
    by blast
  have 1: "unchanged_gpu s ?s2"
    by (simp add: unchanged_gpu_def glGetIntegerv_def)
  from draw_mesh_uniforms_frame [OF u]
  have 2: "unchanged_gpu (draw_mesh_setup E mesh shader scissor ?s2) s11" by simp
  from set_vertex_attribs_frame [OF a] have 3: "unchanged_gpu s11 s12" .
  from r have 4: "s' = GLCHK E 267 (glBindTexture E GL_TEXTURE_2D (texture_binding_2d s))
       (GLCHK E 266 (glDisable E GL_BLEND)
         (GLCHK E 265 (glDisable E GL_SCISSOR_TEST)
           (GLCHK E 264 (glUseProgram E (current_program s))
             (GLCHK E 263 (glBindBuffer E GL_ARRAY_BUFFER 0)
               (GLCHK E 259 (glDrawArrays E
                   (if is_line_loop mesh then GL_LINE_LOOP else GL_TRIANGLES) 0
                   (index_count mesh))
                 (GLCHK E 258 (glLineWidth E 2) s12))))))"
    by (simp only: draw_mesh_snapshot [OF assms] draw_mesh_restore_eq option.inject)
  from 1 2 3 4 show thesis by (rule that)
qed

lemma draw_mesh_final_state:
  assumes "draw_mesh E mesh shader scissor n args s = Some s'"
    and ok: "\<forall>t c. outcome E t c = GL_NO_ERROR"
  shows "current_program s' = current_program s \<and>
         texture_binding_2d s' = texture_binding_2d s \<and>
         \<not> blend s' \<and> blend_equation s' = GL_FUNC_ADD \<and>
         blend_sfactor s' = GL_SRC_ALPHA \<and> blend_dfactor s' = GL_ONE_MINUS_SRC_ALPHA \<and>
         \<not> cull_face s' \<and> \<not> depth_test s' \<and> \<not> scissor_test s' \<and>
         array_buffer s' = 0 \<and> line_width s' = 2"
proof -
  from draw_mesh_parts [OF assms(1)] obtain s2 s11 s12 where
    1: "unchanged_gpu s s2" and
    2: "unchanged_gpu (draw_mesh_setup E mesh shader scissor s2) s11" and
    3: "unchanged_gpu s11 s12" and
    4: "s' = GLCHK E 267 (glBindTexture E GL_TEXTURE_2D (texture_binding_2d s))
       (GLCHK E 266 (glDisable E GL_BLEND)
         (GLCHK E 265 (glDisable E GL_SCISSOR_TEST)
           (GLCHK E 264 (glUseProgram E (current_program s))
             (GLCHK E 263 (glBindBuffer E GL_ARRAY_BUFFER 0)
               (GLCHK E 259 (glDrawArrays E
                   (if is_line_loop mesh then GL_LINE_LOOP else GL_TRIANGLES) 0
                   (index_count mesh))
                 (GLCHK E 258 (glLineWidth E 2) s12))))))" .
  have s10: "blend_equation (draw_mesh_setup E mesh shader scissor s2) = GL_FUNC_ADD"
    "blend_sfactor (draw_mesh_setup E mesh shader scissor s2) = GL_SRC_ALPHA"
    "blend_dfactor (draw_mesh_setup E mesh shader scissor s2) = GL_ONE_MINUS_SRC_ALPHA"
    "\<not> cull_face (draw_mesh_setup E mesh shader scissor s2)"
    "\<not> depth_test (draw_mesh_setup E mesh shader scissor s2)"
    using ok
    by (simp_all add: draw_mesh_setup_eq gl_enums)
  from 2 3 s10 have s12: "blend_equation s12 = GL_FUNC_ADD"
    "blend_sfactor s12 = GL_SRC_ALPHA" "blend_dfactor s12 = GL_ONE_MINUS_SRC_ALPHA"
    "\<not> cull_face s12" "\<not> depth_test s12"
    by (simp_all add: unchanged_gpu_def)
  show ?thesis
    unfolding 4 using ok s12
    by (simp add: gl_enums)
qed

lemma shader0_wf [simp]:
  "length (uniforms (shader0\<lparr>handle := h\<rparr>)) = 8"
  "length (attribs (shader0\<lparr>handle := h\<rparr>)) = 8"
  "attrib_count (shader0\<lparr>handle := h\<rparr>) = 0"
  "length (uniforms shader0) = 8" "length (attribs shader0) = 8" "attrib_count shader0 = 0"
  by (simp_all add: shader0_def)

text \<open>
  Claim C5, as amended. Only the current program and the 2D texture binding are saved
  and put back. The rest of the state the draw touches is not saved: when every command
  succeeds the call ends with blending disabled, the blend equation and function it set
  (additive, source alpha and one minus source alpha), face culling, depth test and
  scissor test disabled, no array buffer bound and line width 2, whatever these were
  before the call.
\<close>

theorem draw_mesh_leaves_fixed_state:
  assumes "draw_mesh E mesh shader scissor n args s = Some s'"
    and "\<forall>t c. outcome E t c = GL_NO_ERROR"
  shows "current_program s' = current_program s \<and>
         texture_binding_2d s' = texture_binding_2d s \<and>
         \<not> blend s' \<and> blend_equation s' = GL_FUNC_ADD \<and>
         blend_sfactor s' = GL_SRC_ALPHA \<and> blend_dfactor s' = GL_ONE_MINUS_SRC_ALPHA \<and>
         \<not> cull_face s' \<and> \<not> depth_test s' \<and> \<not> scissor_test s' \<and>
         array_buffer s' = 0 \<and> line_width s' = 2"
  using assms by (rule draw_mesh_final_state)

text \<open>An instance: face culling was enabled, a program and a texture were bound.\<close>

theorem draw_mesh_leaves_fixed_state_witness:
  "\<exists>s'. draw_mesh env0 mesh0 shader0 True 1 [VInt UniformType_Float, VDouble 1]
          (world0\<lparr>current_program := 7, texture_binding_2d := 5, cull_face := True\<rparr>)
        = Some s' \<and>
        current_program s' = 7 \<and> texture_binding_2d s' = 5 \<and>
        \<not> blend s' \<and> \<not> cull_face s' \<and> \<not> depth_test s' \<and> \<not> scissor_test s' \<and>
        array_buffer s' = 0 \<and> line_width s' = 2"
proof -
  let ?w = "world0\<lparr>current_program := 7, texture_binding_2d := 5, cull_face := True\<rparr>"
  have ok: "\<forall>t c. outcome env0 t c = GL_NO_ERROR"
    by (simp add: env0_def)
  from draw_mesh_calls [of env0 "[UFloat 1]" shader0 mesh0 True "[]" ?w] ok
  obtain s' where
    d: "draw_mesh env0 mesh0 shader0 True 1 [VInt UniformType_Float, VDouble 1] ?w = Some s'"
    by auto
  from draw_mesh_leaves_fixed_state [OF d ok] d show ?thesis
    by (simp add: world0_def)
qed

text \<open>
  Claim C5 as stated fails: face culling is enabled before the draw and disabled after it.
\<close>

theorem draw_mesh_cull_face_counterexample:
  "cull_face world_culling \<and>
   map_option cull_face (draw_mesh env0 mesh0 shader0 False 0 [] world_culling) = Some False"
proof -
  have ok: "\<forall>t c. outcome env0 t c = GL_NO_ERROR"
    by (simp add: env0_def)
  from draw_mesh_calls [of env0 "[]" shader0 mesh0 False "[]" world_culling] ok
  obtain s' where d: "draw_mesh env0 mesh0 shader0 False 0 [] world_culling = Some s'"
    by auto
  from draw_mesh_final_state [OF d ok] d show ?thesis
    by (simp add: world_culling_def)
qed

text \<open>
  Claim C1, as amended. The claim as stated fails for the program: the saved program is
  bound again by an ordinary command, and when the driver rejects that command the
  program of the draw stays bound. What holds of every draw with defined behaviour (so
  both snapshot queries succeeded), whichever of its commands fail:
  the 2D texture bound after the call is the one bound before it, since the only command
  of the draw that binds a texture is the last one, which binds the saved texture;
  the five restoring commands are the last commands of the draw;
  the program bound after the call is the one bound before it or the program of the
  shader, and it is the one bound before it whenever the driver accepts the command that
  binds the saved program again.
\<close>

theorem draw_mesh_restores_program_and_texture:
  assumes "draw_mesh E mesh shader scissor n args s = Some s'"
  shows "texture_binding_2d s' = texture_binding_2d s \<and>
         (\<exists>before. calls s' =
            before @ [BindBuffer GL_ARRAY_BUFFER 0, UseProgram (current_program s),
                      Disable GL_SCISSOR_TEST, Disable GL_BLEND,
                      BindTexture GL_TEXTURE_2D (texture_binding_2d s)]) \<and>
         (current_program s' = current_program s \<or> current_program s' = handle shader) \<and>
         ((\<forall>t. outcome E t (UseProgram (current_program s)) = GL_NO_ERROR) \<longrightarrow>
            current_program s' = current_program s)"
proof -
  from draw_mesh_parts [OF assms] obtain s2 s11 s12 where
    1: "unchanged_gpu s s2" and
    2: "unchanged_gpu (draw_mesh_setup E mesh shader scissor s2) s11" and
    3: "unchanged_gpu s11 s12" and
    4: "s' = GLCHK E 267 (glBindTexture E GL_TEXTURE_2D (texture_binding_2d s))
       (GLCHK E 266 (glDisable E GL_BLEND)
         (GLCHK E 265 (glDisable E GL_SCISSOR_TEST)
           (GLCHK E 264 (glUseProgram E (current_program s))
             (GLCHK E 263 (glBindBuffer E GL_ARRAY_BUFFER 0)
               (GLCHK E 259 (glDrawArrays E
                   (if is_line_loop mesh then GL_LINE_LOOP else GL_TRIANGLES) 0
                   (index_count mesh))
                 (GLCHK E 258 (glLineWidth E 2) s12))))))"
    by blast
  have "texture_binding_2d (draw_mesh_setup E mesh shader scissor s2) = texture_binding_2d s2"
    by (simp add: draw_mesh_setup_eq)
  with 1 2 3 have t: "texture_binding_2d s12 = texture_binding_2d s"
    by (simp add: unchanged_gpu_def)
  have "current_program (draw_mesh_setup E mesh shader scissor s2) = current_program s2 \<or>
      current_program (draw_mesh_setup E mesh shader scissor s2) = handle shader"
    by (simp add: draw_mesh_setup_eq)
  with 1 2 3 have p: "current_program s12 = current_program s \<or>
      current_program s12 = handle shader"
    by (simp add: unchanged_gpu_def)
  have a: "texture_binding_2d s' = texture_binding_2d s"
    unfolding 4 using t by simp
  have b: "calls s' =
      (calls s12 @ [LineWidth 2,
         DrawArrays (if is_line_loop mesh then GL_LINE_LOOP else GL_TRIANGLES) 0
           (index_count mesh)])
      @ [BindBuffer GL_ARRAY_BUFFER 0, UseProgram (current_program s),
         Disable GL_SCISSOR_TEST, Disable GL_BLEND,
         BindTexture GL_TEXTURE_2D (texture_binding_2d s)]"
    unfolding 4 by simp
  have c: "current_program s' = current_program s \<or> current_program s' = handle shader"
    unfolding 4 using p by auto
  have d: "current_program s' = current_program s"
    if "\<forall>t. outcome E t (UseProgram (current_program s)) = GL_NO_ERROR"
    unfolding 4 using that by simp
  from a b c d show ?thesis by blast
qed

text \<open>
  An instance of C1 as amended: the program 7 and the texture 5 are bound, the driver
  rejects \<^verbatim>\<open>glEnable(GL_BLEND)\<close> and \<^verbatim>\<open>glBindTexture(GL_TEXTURE_2D, 5)\<close>, the draw
  binds the program 3 of its shader, and the program 7 and the texture 5 are bound at
  the end.
\<close>

theorem draw_mesh_restores_program_and_texture_witness:
  "(\<exists>s'. draw_mesh env_failing mesh0 (shader0\<lparr>handle := 3\<rparr>) True 1
          [VInt UniformType_Float, VDouble 1]
          (world0\<lparr>current_program := 7, texture_binding_2d := 5\<rparr>) = Some s' \<and>
        current_program s' = 7 \<and> texture_binding_2d s' = 5) \<and>
   current_program (draw_mesh_setup env_failing mesh0 (shader0\<lparr>handle := 3\<rparr>) True
     (world0\<lparr>current_program := 7, texture_binding_2d := 5\<rparr>)) = 3 \<and>
   outcome env_failing world0 (Enable GL_BLEND) = GL_INVALID_OPERATION \<and>
   outcome env_failing world0 (BindTexture GL_TEXTURE_2D 5) = GL_INVALID_OPERATION"
proof -
  let ?w = "world0\<lparr>current_program := 7, texture_binding_2d := 5\<rparr>"
  have q: "\<forall>t p. outcome env_failing t (GetIntegerv p) = GL_NO_ERROR"
    by (simp add: env_failing_def env0_def)
  from draw_mesh_calls [of env_failing "[UFloat 1]" "shader0\<lparr>handle := 3\<rparr>" mesh0 True "[]" ?w] q
  obtain s' where
    d: "draw_mesh env_failing mesh0 (shader0\<lparr>handle := 3\<rparr>) True 1
          [VInt UniformType_Float, VDouble 1] ?w = Some s'"
    by auto
  have p: "\<forall>t. outcome env_failing t (UseProgram (current_program ?w)) = GL_NO_ERROR"
    by (simp add: env_failing_def env0_def world0_def)
  have u: "current_program (draw_mesh_setup env_failing mesh0 (shader0\<lparr>handle := 3\<rparr>) True ?w)
      = 3"
    by (simp add: draw_mesh_setup_eq env_failing_def env0_def)
  have r: "outcome env_failing world0 (Enable GL_BLEND) = GL_INVALID_OPERATION"
    "outcome env_failing world0 (BindTexture GL_TEXTURE_2D 5) = GL_INVALID_OPERATION"
    by (simp_all add: env_failing_def env0_def)
  from draw_mesh_restores_program_and_texture [OF d] p d u r show ?thesis
    by (simp add: world0_def)
qed

text \<open>
  Claim C1 as stated fails: program 7 is bound before the draw, the driver rejects binding
  it again, and program 3, the shader of the draw, is bound after it.
\<close>

theorem draw_mesh_program_counterexample:
  "current_program world_program_7 = 7 \<and>
   map_option current_program
     (draw_mesh env_lost_program mesh0 shader_3 False 0 [] world_program_7) = Some 3"
proof -
  let ?w = world_program_7
  let ?sh = shader_3
  let ?E = env_lost_program
  have w: "current_program ?w = 7"
    by (simp add: world_program_7_def)
  have sh: "handle ?sh = 3" "length (uniforms ?sh) = 8" "length (attribs ?sh) = 8"
    "attrib_count ?sh = 0"
    by (simp_all add: shader_3_def)
  have q: "\<forall>t p. outcome ?E t (GetIntegerv p) = GL_NO_ERROR"
    by (simp add: env_lost_program_def env0_def)
  from draw_mesh_calls [of ?E "[]" ?sh mesh0 False "[]" ?w] q sh
  obtain s' where d: "draw_mesh ?E mesh0 ?sh False 0 [] ?w = Some s'"
    by auto
  from draw_mesh_parts [OF d] obtain s2 s11 s12 where
    2: "unchanged_gpu (draw_mesh_setup ?E mesh0 ?sh False s2) s11" and
    3: "unchanged_gpu s11 s12" and
    4: "s' = GLCHK ?E 267 (glBindTexture ?E GL_TEXTURE_2D (texture_binding_2d ?w))
       (GLCHK ?E 266 (glDisable ?E GL_BLEND)
         (GLCHK ?E 265 (glDisable ?E GL_SCISSOR_TEST)
           (GLCHK ?E 264 (glUseProgram ?E (current_program ?w))
             (GLCHK ?E 263 (glBindBuffer ?E GL_ARRAY_BUFFER 0)
               (GLCHK ?E 259 (glDrawArrays ?E
                   (if is_line_loop mesh0 then GL_LINE_LOOP else GL_TRIANGLES) 0
                   (index_count mesh0))
                 (GLCHK ?E 258 (glLineWidth ?E 2) s12))))))" .
  have "current_program (draw_mesh_setup ?E mesh0 ?sh False s2) = 3"
    by (simp add: draw_mesh_setup_eq env_lost_program_def env0_def sh)
  with 2 3 have "current_program s12 = 3"
    by (simp add: unchanged_gpu_def)
  then have "current_program s' = 3"
    unfolding 4 by (simp add: env_lost_program_def env0_def gl_error_codes w)
  with d w show ?thesis by simp
qed

lemma sentinel_word: "(- 1 :: 32 word) = 0xffffffff"
  by simp

lemma is_upload_upload [simp]: "is_upload (upload loc u)"
  by (cases u) simp_all

lemma filter_uploads [simp]:
  "filter is_upload (map2 upload locs us) = map2 upload locs us"
  by (auto simp: filter_id_conv)

lemma filter_attrib_calls [simp]: "filter is_upload (attrib_calls sh) = []"
  by (simp add: attrib_calls_def filter_empty_conv)

lemma filter_draw_calls:
  "filter is_upload (draw_calls mesh sh scissor us lp lt) = map2 upload (uniforms sh) us"
  by (simp add: draw_calls_def)

text \<open>
  Claim C3, as amended. The arguments are walked in order and matched with the slot
  table by position: the uploads of a draw are exactly the argument at position \<open>i\<close>
  sent to the location stored in slot \<open>i\<close>, for every \<open>i\<close> in order, whatever the driver
  answers. No upload is skipped: when slot \<open>i\<close> holds the sentinel -1, the upload command
  is issued with location -1 (which OpenGL ignores), and the argument is consumed, so
  the following arguments stay aligned with their slots.
\<close>

theorem draw_mesh_uploads_by_position:
  assumes "\<forall>t p. outcome E t (GetIntegerv p) = GL_NO_ERROR"
    and "length us \<le> 8" and "length (uniforms sh) = 8"
    and "attrib_count sh \<le> 8" and "length (attribs sh) = 8"
  shows "\<exists>s'. draw_mesh E mesh sh scissor (int (length us))
                 (concat (map va_uniform us) @ rest) s = Some s' \<and>
              filter is_upload (drop (length (calls s)) (calls s'))
                = map2 upload (uniforms sh) us \<and>
              (\<forall>i < length us. uniforms sh ! i = - 1 \<longrightarrow>
                 filter is_upload (drop (length (calls s)) (calls s')) ! i
                   = upload (- 1) (us ! i))"
proof -
  from draw_mesh_calls [OF assms, of mesh scissor rest s] obtain s' where
    d: "draw_mesh E mesh sh scissor (int (length us))
          (concat (map va_uniform us) @ rest) s = Some s'" and
    c: "calls s' = calls s @ draw_calls mesh sh scissor us (current_program s)
                              (texture_binding_2d s)"
    by blast
  have f: "filter is_upload (drop (length (calls s)) (calls s')) = map2 upload (uniforms sh) us"
    by (simp add: c filter_draw_calls)
  have "\<forall>i < length us. uniforms sh ! i = - 1 \<longrightarrow>
          map2 upload (uniforms sh) us ! i = upload (- 1) (us ! i)"
    using assms(2,3) by simp
  with d f show ?thesis by simp
qed

text \<open>An instance with three arguments, the second for a slot that holds -1.\<close>

theorem draw_mesh_uploads_by_position_witness:
  "\<exists>s'. draw_mesh env0 mesh0 (shader0\<lparr>uniforms := [5, - 1, 6, 0, 0, 0, 0, 0]\<rparr>) False 3
          [VInt UniformType_Float, VDouble 1, VInt UniformType_Vec2, VVec2 (Vec2 2 3),
           VInt UniformType_Float, VDouble 4] world0 = Some s' \<and>
        filter is_upload (calls s') = [Uniform1f 5 1, Uniform2f (- 1) 2 3, Uniform1f 6 4]"
  using draw_mesh_uploads_by_position
    [of env0 "[UFloat 1, UVec2 (Vec2 2 3), UFloat 4]"
      "shader0\<lparr>uniforms := [5, - 1, 6, 0, 0, 0, 0, 0]\<rparr>" mesh0 False "[]" world0]
  by (auto simp: env0_def shader0_def world0_def)

text \<open>
  Claim C3 as stated fails: slot 0 holds -1 and the upload for it is issued.
\<close>

theorem draw_mesh_sentinel_upload_counterexample:
  "uniforms shader_no_uniform ! 0 = - 1 \<and>
   map_option (filter is_upload \<circ> calls)
     (draw_mesh env0 mesh0 shader_no_uniform False 1 [VInt UniformType_Float, VDouble 1] world0)
   = Some [Uniform1f (- 1) 1]"
proof -
  let ?sh = shader_no_uniform
  have sh: "uniforms ?sh = [- 1, 0, 0, 0, 0, 0, 0, 0]" "length (attribs ?sh) = 8"
    "attrib_count ?sh = 0"
    by (simp_all add: shader_no_uniform_def shader0_def)
  have q: "\<forall>t p. outcome env0 t (GetIntegerv p) = GL_NO_ERROR"
    by (simp add: env0_def)
  from draw_mesh_calls [of env0 "[UFloat 1]" ?sh mesh0 False "[]" world0] q sh
  obtain s' where
    d: "draw_mesh env0 mesh0 ?sh False 1 [VInt UniformType_Float, VDouble 1] world0 = Some s'"
    and c: "calls s' = calls world0 @ draw_calls mesh0 ?sh False [UFloat 1]
              (current_program world0) (texture_binding_2d world0)"
    by auto
  have "filter is_upload (calls s') = [Uniform1f (- 1) 1]"
    by (simp add: c filter_draw_calls sh) (simp add: world0_def)
  with d sh show ?thesis by simp
qed

subsection \<open>What is printed\<close>

lemma appends_refl [simp]: "appends s s"
  by (simp add: appends_def)

lemma appends_trans: "appends s t \<Longrightarrow> appends t u \<Longrightarrow> appends s u"
  by (auto simp: appends_def)

lemma logged_appends: "logged msg s t \<Longrightarrow> appends t u \<Longrightarrow> logged msg s u"
proof -
  assume "logged msg s t" and "appends t u"
  then obtain a b c where "stdout t = stdout s @ a @ msg @ b" and "stdout u = stdout t @ c"
    by (auto simp: appends_def logged_def)
  then have "stdout u = stdout s @ a @ msg @ (b @ c)" by simp
  then show ?thesis unfolding logged_def by blast
qed

lemma appends_logged: "appends s t \<Longrightarrow> logged msg t u \<Longrightarrow> logged msg s u"
proof -
  assume "appends s t" and "logged msg t u"
  then obtain a b c where "stdout t = stdout s @ c" and "stdout u = stdout t @ a @ msg @ b"
    by (auto simp: appends_def logged_def)
  then have "stdout u = stdout s @ (c @ a) @ msg @ b" by simp
  then show ?thesis unfolding logged_def by blast
qed

lemma appends_printf [simp]: "appends s (printf msg s)"
  by (simp add: appends_def printf_def)

lemma logged_printf [simp]: "logged msg s (printf msg s)"
  unfolding logged_def printf_def by (rule exI [of _ "[]"], rule exI [of _ "[]"]) simp

lemma appends_check_error: "appends s (check_error e f l s)"
  by (simp add: appends_def check_error_def glGetError_def printf_def Let_def)

lemma stdout_gl_cmd_id [simp]: "stdout (gl_cmd E c (\<lambda>s. s) s) = stdout s"
  by (simp add: gl_cmd_def Let_def)

lemma stdout_gl_query [simp]: "stdout (snd (gl_query E c r s)) = stdout s"
  by (simp add: gl_query_def Let_def)

lemma appends_stdout_eq: "stdout t = stdout s \<Longrightarrow> appends t u \<Longrightarrow> appends s u"
  by (simp add: appends_def)

lemma appends_GLCHK: "stdout (stmt s) = stdout s \<Longrightarrow> appends s (GLCHK E n stmt s)"
  unfolding GLCHK_def by (rule appends_stdout_eq [OF _ appends_check_error])

lemma appends_GLCHK_val:
  "stdout (snd (q s)) = stdout s \<Longrightarrow> appends s (snd (GLCHK_val E n q s))"
  unfolding GLCHK_val_def split_def Let_def snd_conv
  by (rule appends_stdout_eq [OF _ appends_check_error])

text \<open>What a checked command prints: nothing, or the report of its own error.\<close>

lemma stdout_GLCHK_cmd:
  "gl_error s = GL_NO_ERROR \<Longrightarrow>
   stdout (GLCHK E n (gl_cmd E c (\<lambda>s. s)) s) =
     stdout s @ (if outcome E s c = GL_NO_ERROR then [] else error_report E n (outcome E s c))"
  unfolding category_eq error_report_def
  by (simp add: GLCHK_def check_error_def glGetError_def gl_cmd_def raise_error_def
      printf_def Let_def)

lemma logged_GLCHK_cmd:
  assumes "gl_error s = GL_NO_ERROR" and "outcome E s c = e" and "e \<noteq> GL_NO_ERROR"
  shows "logged (error_report E n e) s (GLCHK E n (gl_cmd E c (\<lambda>s. s)) s)"
  unfolding logged_def stdout_GLCHK_cmd [OF assms(1)]
  using assms(2,3) by (intro exI [of _ "[]"]) simp

lemma appends_GLCHK_cmd: "appends s (GLCHK E n (gl_cmd E c (\<lambda>s. s)) s)"
  by (rule appends_GLCHK) simp

lemma slot_SomeD: "slot xs i = Some a \<Longrightarrow> a = xs ! nat i \<and> 0 \<le> i"
  by (simp add: slot_def split: if_splits)

lemma set_vertex_attribs_enable_output:
  "set_vertex_attribs_enable E sh i s = Some s' \<Longrightarrow>
   appends s s' \<and>
   (gl_error s = GL_NO_ERROR \<longrightarrow>
      gl_error s' = GL_NO_ERROR \<and>
      (\<forall>j e. i \<le> j \<and> j < attrib_count sh \<and> e \<noteq> GL_NO_ERROR \<and>
             (\<forall>t. outcome E t (EnableVertexAttribArray (attribs sh ! nat j)) = e) \<longrightarrow>
             logged (error_report E 158 e) s s') \<and>
      ((\<forall>t c. outcome E t c = GL_NO_ERROR) \<longrightarrow> stdout s' = stdout s))"
proof (induction "nat (attrib_count sh - i)" arbitrary: i s)
  case 0
  then have "\<not> i < attrib_count sh" by simp
  with "0.prems" show ?case
    by (auto simp add: set_vertex_attribs_enable.simps)
next
  case (Suc k)
  from Suc.hyps(2) have lt: "i < attrib_count sh" by simp
  with Suc.prems obtain a where
    sl: "slot (attribs sh) i = Some a" and
    r: "set_vertex_attribs_enable E sh (i + 1) (GLCHK E 158 (glEnableVertexAttribArray E a) s)
          = Some s'"
    by (subst (asm) set_vertex_attribs_enable.simps) (auto split: option.splits)
  from slot_SomeD [OF sl] have a: "a = attribs sh ! nat i" and i0: "0 \<le> i" by simp_all
  let ?s1 = "GLCHK E 158 (gl_cmd E (EnableVertexAttribArray a) (\<lambda>s. s)) s"
  from r have r': "set_vertex_attribs_enable E sh (i + 1) ?s1 = Some s'"
    by (simp add: glEnableVertexAttribArray_def)
  from Suc.hyps(2) have "k = nat (attrib_count sh - (i + 1))" by simp
  from Suc.hyps(1) [OF this r'] have
    ih1: "appends ?s1 s'" and
    ih2: "gl_error s' = GL_NO_ERROR" and
    ih3: "\<And>j e. i + 1 \<le> j \<Longrightarrow> j < attrib_count sh \<Longrightarrow> e \<noteq> GL_NO_ERROR \<Longrightarrow>
             (\<forall>t. outcome E t (EnableVertexAttribArray (attribs sh ! nat j)) = e) \<Longrightarrow>
             logged (error_report E 158 e) ?s1 s'" and
    ih4: "(\<forall>t c. outcome E t c = GL_NO_ERROR) \<Longrightarrow> stdout s' = stdout ?s1"
    by (simp_all add: GLCHK_def)
  have s1: "appends s ?s1" by (rule appends_GLCHK_cmd)
  have A: "appends s s'" by (rule appends_trans [OF s1 ih1])
  have B: "logged (error_report E 158 e) s s'"
    if g: "gl_error s = GL_NO_ERROR" and j: "i \<le> j" "j < attrib_count sh" and e: "e \<noteq> GL_NO_ERROR"
      and o: "\<forall>t. outcome E t (EnableVertexAttribArray (attribs sh ! nat j)) = e" for j e
  proof (cases "j = i")
    case True
    with o a have "outcome E s (EnableVertexAttribArray a) = e" by simp
    from logged_GLCHK_cmd [OF g this e] have "logged (error_report E 158 e) s ?s1" .
    then show ?thesis by (rule logged_appends [OF _ ih1])
  next
    case False
    with j have "i + 1 \<le> j" by simp
    from ih3 [OF this j(2) e o] show ?thesis by (rule appends_logged [OF s1])
  qed
  have C: "stdout s' = stdout s"
    if g: "gl_error s = GL_NO_ERROR" and o: "\<forall>t c. outcome E t c = GL_NO_ERROR"
    using ih4 [OF o] stdout_GLCHK_cmd [OF g, of E 158 "EnableVertexAttribArray a"] o by simp
  from A B C ih2 show ?case by blast
qed


lemma set_vertex_attribs_parts:
  assumes "set_vertex_attribs E sh s = Some s'" and "length (attribs sh) = 8"
  obtains s1 where
    "set_vertex_attribs_enable E sh 0 s = Some s1"
    "s' = (if 2 < attrib_count sh
           then GLCHK E 172 (gl_cmd E (VertexAttribPointer (attribs sh ! 2) 4 GL_UNSIGNED_BYTE
                                         GL_TRUE 20 16) (\<lambda>s. s))
           else (\<lambda>s. s))
            (GLCHK E 167 (gl_cmd E (VertexAttribPointer (attribs sh ! 1) 2 GL_FLOAT
                                      GL_FALSE 20 8) (\<lambda>s. s))
              (GLCHK E 163 (gl_cmd E (VertexAttribPointer (attribs sh ! 0) 2 GL_FLOAT
                                        GL_FALSE 20 0) (\<lambda>s. s)) s1))"
  using assms
  by (auto simp: set_vertex_attribs_def slot_def Let_def bind_eq_Some_conv
      glVertexAttribPointer_def sizeof_ImDrawVert_def split: if_splits)

lemma set_vertex_attribs_output:
  assumes d: "set_vertex_attribs E sh s = Some s'" and al: "length (attribs sh) = 8"
  shows "gl_error s' = GL_NO_ERROR \<and> appends s s' \<and>
     (gl_error s = GL_NO_ERROR \<longrightarrow>
        (\<forall>i e. 0 \<le> i \<and> i < attrib_count sh \<and> e \<noteq> GL_NO_ERROR \<and>
               (\<forall>t. outcome E t (EnableVertexAttribArray (attribs sh ! nat i)) = e) \<longrightarrow>
               logged (error_report E 158 e) s s') \<and>
        (\<forall>e. e \<noteq> GL_NO_ERROR \<and>
             (\<forall>t. outcome E t (VertexAttribPointer (attribs sh ! 0) 2 GL_FLOAT GL_FALSE 20 0)
                    = e) \<longrightarrow>
             logged (error_report E 163 e) s s') \<and>
        (\<forall>e. e \<noteq> GL_NO_ERROR \<and>
             (\<forall>t. outcome E t (VertexAttribPointer (attribs sh ! 1) 2 GL_FLOAT GL_FALSE 20 8)
                    = e) \<longrightarrow>
             logged (error_report E 167 e) s s') \<and>
        (\<forall>e. 2 < attrib_count sh \<and> e \<noteq> GL_NO_ERROR \<and>
             (\<forall>t. outcome E t (VertexAttribPointer (attribs sh ! 2) 4 GL_UNSIGNED_BYTE GL_TRUE
                                 20 16) = e) \<longrightarrow>
             logged (error_report E 172 e) s s') \<and>
        ((\<forall>t c. outcome E t c = GL_NO_ERROR) \<longrightarrow> stdout s' = stdout s))"
proof -
  let ?p0 = "VertexAttribPointer (attribs sh ! 0) 2 GL_FLOAT GL_FALSE 20 0"
  let ?p1 = "VertexAttribPointer (attribs sh ! 1) 2 GL_FLOAT GL_FALSE 20 8"
  let ?p2 = "VertexAttribPointer (attribs sh ! 2) 4 GL_UNSIGNED_BYTE GL_TRUE 20 16"
  from set_vertex_attribs_parts [OF d al] obtain s1 where
    en: "set_vertex_attribs_enable E sh 0 s = Some s1" and
    s': "s' = (if 2 < attrib_count sh then GLCHK E 172 (gl_cmd E ?p2 (\<lambda>s. s)) else (\<lambda>s. s))
            (GLCHK E 167 (gl_cmd E ?p1 (\<lambda>s. s)) (GLCHK E 163 (gl_cmd E ?p0 (\<lambda>s. s)) s1))"
    by blast
  let ?s2 = "GLCHK E 163 (gl_cmd E ?p0 (\<lambda>s. s)) s1"
  let ?s3 = "GLCHK E 167 (gl_cmd E ?p1 (\<lambda>s. s)) ?s2"
  note eo = set_vertex_attribs_enable_output [OF en]
  from eo have a1: "appends s s1" by blast
  have a2: "appends s1 ?s2" by (rule appends_GLCHK_cmd)
  have a3: "appends ?s2 ?s3" by (rule appends_GLCHK_cmd)
  have a4: "appends ?s3 s'"
    unfolding s' by (simp add: appends_GLCHK_cmd)
  have g2: "gl_error ?s2 = GL_NO_ERROR" and g3: "gl_error ?s3 = GL_NO_ERROR"
    by (simp_all add: GLCHK_def)
  have A: "gl_error s' = GL_NO_ERROR"
    unfolding s' by (simp add: GLCHK_def)
  have B: "appends s s'"
    by (rule appends_trans [OF a1 appends_trans [OF a2 appends_trans [OF a3 a4]]])
  have a24: "appends ?s2 s'" by (rule appends_trans [OF a3 a4])
  have a14: "appends s1 s'" by (rule appends_trans [OF a2 a24])
  have a13: "appends s ?s2" by (rule appends_trans [OF a1 a2])
  have a03: "appends s ?s3" by (rule appends_trans [OF a13 a3])
  have C: "logged (error_report E 158 e) s s'"
    if "gl_error s = GL_NO_ERROR" "0 \<le> i" "i < attrib_count sh" "e \<noteq> GL_NO_ERROR"
      "\<forall>t. outcome E t (EnableVertexAttribArray (attribs sh ! nat i)) = e" for i e
  proof -
    from eo that have "logged (error_report E 158 e) s s1" by blast
    then show ?thesis by (rule logged_appends [OF _ a14])
  qed
  have D0: "logged (error_report E 163 e) s s'"
    if g: "gl_error s = GL_NO_ERROR" and e: "e \<noteq> GL_NO_ERROR"
      and o: "\<forall>t. outcome E t ?p0 = e" for e
  proof -
    from eo g have g1: "gl_error s1 = GL_NO_ERROR" by blast
    from o have "outcome E s1 ?p0 = e" by simp
    from logged_GLCHK_cmd [OF g1 this e] have "logged (error_report E 163 e) s1 ?s2" .
    then have "logged (error_report E 163 e) s1 s'" by (rule logged_appends [OF _ a24])
    then show ?thesis by (rule appends_logged [OF a1])
  qed
  have D1: "logged (error_report E 167 e) s s'"
    if e: "e \<noteq> GL_NO_ERROR" and o: "\<forall>t. outcome E t ?p1 = e" for e
  proof -
    from o have "outcome E ?s2 ?p1 = e" by simp
    from logged_GLCHK_cmd [OF g2 this e] have "logged (error_report E 167 e) ?s2 ?s3" .
    then have "logged (error_report E 167 e) ?s2 s'" by (rule logged_appends [OF _ a4])
    then show ?thesis by (rule appends_logged [OF a13])
  qed
  have D2: "logged (error_report E 172 e) s s'"
    if c: "2 < attrib_count sh" and e: "e \<noteq> GL_NO_ERROR"
      and o: "\<forall>t. outcome E t ?p2 = e" for e
  proof -
    from c s' have s'': "s' = GLCHK E 172 (gl_cmd E ?p2 (\<lambda>s. s)) ?s3" by simp
    from o have "outcome E ?s3 ?p2 = e" by simp
    from logged_GLCHK_cmd [OF g3 this e] have "logged (error_report E 172 e) ?s3 s'"
      unfolding s'' .
    then show ?thesis by (rule appends_logged [OF a03])
  qed
  have Q: "stdout s' = stdout s"
    if g: "gl_error s = GL_NO_ERROR" and o: "\<forall>t c. outcome E t c = GL_NO_ERROR"
  proof -
    from eo g o have 1: "stdout s1 = stdout s" and g1: "gl_error s1 = GL_NO_ERROR"
      by blast+
    have 2: "stdout ?s2 = stdout s1"
      using stdout_GLCHK_cmd [OF g1, of E 163 ?p0] o by simp
    have 3: "stdout ?s3 = stdout ?s2"
      using stdout_GLCHK_cmd [OF g2, of E 167 ?p1] o by simp
    have 4: "stdout s' = stdout ?s3"
      unfolding s' using stdout_GLCHK_cmd [OF g3, of E 172 ?p2] o by simp
    from 1 2 3 4 show ?thesis by simp
  qed
  from A B C D0 D1 D2 Q show ?thesis by blast
qed


subsection \<open>gl::set_vertex_attribs\<close>

text \<open>
  Claim C4, as amended. A slot that holds the sentinel is not skipped. For a shader
  with \<open>attrib_count \<le> 8\<close> the function has defined behaviour whatever the slots hold,
  and it issues exactly these commands, in this order:
  \<^verbatim>\<open>glEnableVertexAttribArray\<close> for each of the first \<open>attrib_count\<close> slots, then
  \<^verbatim>\<open>glVertexAttribPointer\<close> for slot 0 and for slot 1 and, when \<open>attrib_count > 2\<close>,
  for slot 2, each with what the slot holds, the sentinel -1 being the index
  \<^verbatim>\<open>0xffffffff\<close>. So a slot after the third is enabled and never configured, and the
  slots 0 and 1 are configured whether or not \<open>attrib_count\<close> reaches them.
  Every command is followed by \<^verbatim>\<open>check_error\<close>: the function returns with the
  error flag cleared and only adds to the output. When it is entered with the flag
  clear, each command that the driver rejects, the one of a sentinel slot like any
  other, has its error reported with the line of the command, and the commands after
  it are issued all the same; when the driver accepts every command, nothing is
  printed.
\<close>

theorem set_vertex_attribs_every_slot:
  assumes "attrib_count sh \<le> 8" and "length (attribs sh) = 8"
  shows "\<exists>s'. set_vertex_attribs E sh s = Some s' \<and>
     calls s' = calls s
       @ map EnableVertexAttribArray (take (nat (attrib_count sh)) (attribs sh))
       @ [VertexAttribPointer (attribs sh ! 0) 2 GL_FLOAT GL_FALSE 20 0,
          VertexAttribPointer (attribs sh ! 1) 2 GL_FLOAT GL_FALSE 20 8]
       @ (if attrib_count sh > 2
          then [VertexAttribPointer (attribs sh ! 2) 4 GL_UNSIGNED_BYTE GL_TRUE 20 16]
          else []) \<and>
     gl_error s' = GL_NO_ERROR \<and> appends s s' \<and>
     (gl_error s = GL_NO_ERROR \<longrightarrow>
        (\<forall>i e. 0 \<le> i \<and> i < attrib_count sh \<and> e \<noteq> GL_NO_ERROR \<and>
               (\<forall>t. outcome E t (EnableVertexAttribArray (attribs sh ! nat i)) = e) \<longrightarrow>
               logged (error_report E 158 e) s s') \<and>
        (\<forall>e. e \<noteq> GL_NO_ERROR \<and>
             (\<forall>t. outcome E t (VertexAttribPointer (attribs sh ! 0) 2 GL_FLOAT GL_FALSE 20 0)
                    = e) \<longrightarrow>
             logged (error_report E 163 e) s s') \<and>
        (\<forall>e. e \<noteq> GL_NO_ERROR \<and>
             (\<forall>t. outcome E t (VertexAttribPointer (attribs sh ! 1) 2 GL_FLOAT GL_FALSE 20 8)
                    = e) \<longrightarrow>
             logged (error_report E 167 e) s s') \<and>
        (\<forall>e. 2 < attrib_count sh \<and> e \<noteq> GL_NO_ERROR \<and>
             (\<forall>t. outcome E t (VertexAttribPointer (attribs sh ! 2) 4 GL_UNSIGNED_BYTE GL_TRUE
                                 20 16) = e) \<longrightarrow>
             logged (error_report E 172 e) s s') \<and>
        ((\<forall>t c. outcome E t c = GL_NO_ERROR) \<longrightarrow> stdout s' = stdout s))"
proof -
  from set_vertex_attribs_calls [OF assms, of E s] obtain s' where
    d: "set_vertex_attribs E sh s = Some s'" and
    c: "calls s' = calls s @ attrib_calls sh"
    by blast
  from c have "calls s' = calls s
       @ map EnableVertexAttribArray (take (nat (attrib_count sh)) (attribs sh))
       @ [VertexAttribPointer (attribs sh ! 0) 2 GL_FLOAT GL_FALSE 20 0,
          VertexAttribPointer (attribs sh ! 1) 2 GL_FLOAT GL_FALSE 20 8]
       @ (if attrib_count sh > 2
          then [VertexAttribPointer (attribs sh ! 2) 4 GL_UNSIGNED_BYTE GL_TRUE 20 16]
          else [])"
    by (simp add: attrib_calls_def)
  with d set_vertex_attribs_output [OF d assms(2)] show ?thesis
    by blast
qed

text \<open>
  An instance: three attributes, the third not found, and a driver that rejects the
  index \<^verbatim>\<open>0xffffffff\<close>. All six commands are issued and the two rejected ones are
  reported.
\<close>

theorem set_vertex_attribs_every_slot_witness:
  "(\<exists>s'. set_vertex_attribs env_rejects_sentinel
          (shader0\<lparr>attrib_count := 3, attribs := [0, 1, - 1, 0, 0, 0, 0, 0]\<rparr>) world0 = Some s' \<and>
     calls s' =
       [EnableVertexAttribArray 0, EnableVertexAttribArray 1,
        EnableVertexAttribArray (- 1),
        VertexAttribPointer 0 2 GL_FLOAT GL_FALSE 20 0,
        VertexAttribPointer 1 2 GL_FLOAT GL_FALSE 20 8,
        VertexAttribPointer (- 1) 4 GL_UNSIGNED_BYTE GL_TRUE 20 16] \<and>
     gl_error s' = GL_NO_ERROR \<and>
     logged (''OpenGL Error: Invalid value in gl.h:158'' @ newline
             @ ''    --- Expression: stmt'' @ newline) world0 s' \<and>
     logged (''OpenGL Error: Invalid value in gl.h:172'' @ newline
             @ ''    --- Expression: stmt'' @ newline) world0 s') \<and>
   (- 1 :: GLuint) = 0xffffffff \<and>
   gl_error world0 = GL_NO_ERROR"
proof -
  let ?sh = "shader0\<lparr>attrib_count := 3, attribs := [0, 1, - 1, 0, 0, 0, 0, 0]\<rparr>"
  let ?E = env_rejects_sentinel
  have sh: "attrib_count ?sh = 3" "attribs ?sh = [0, 1, - 1, 0, 0, 0, 0, 0]"
    by (simp_all add: shader0_def)
  have g: "gl_error world0 = GL_NO_ERROR"
    by (simp add: world0_def)
  have o: "\<forall>t. outcome ?E t (EnableVertexAttribArray (attribs ?sh ! nat 2)) = GL_INVALID_VALUE"
    "\<forall>t. outcome ?E t (VertexAttribPointer (attribs ?sh ! 2) 4 GL_UNSIGNED_BYTE GL_TRUE 20 16)
        = GL_INVALID_VALUE"
    by (simp_all add: sh env_rejects_sentinel_def env0_def)
  have r: "error_report ?E 158 GL_INVALID_VALUE =
      ''OpenGL Error: Invalid value in gl.h:158'' @ newline
        @ ''    --- Expression: stmt'' @ newline"
    "error_report ?E 172 GL_INVALID_VALUE =
      ''OpenGL Error: Invalid value in gl.h:172'' @ newline
        @ ''    --- Expression: stmt'' @ newline"
    by (simp_all add: error_report_def env_rejects_sentinel_def env0_def category_eq
        gl_error_codes fmt_d_def digits.simps)
  have e: "GL_INVALID_VALUE \<noteq> GL_NO_ERROR"
    by (simp add: gl_error_codes)
  from set_vertex_attribs_every_slot [of ?sh ?E world0] sh g obtain s' where
    d: "set_vertex_attribs ?E ?sh world0 = Some s'" and
    c: "calls s' = [EnableVertexAttribArray 0, EnableVertexAttribArray 1,
        EnableVertexAttribArray (- 1),
        VertexAttribPointer 0 2 GL_FLOAT GL_FALSE 20 0,
        VertexAttribPointer 1 2 GL_FLOAT GL_FALSE 20 8,
        VertexAttribPointer (- 1) 4 GL_UNSIGNED_BYTE GL_TRUE 20 16]" and
    f: "gl_error s' = GL_NO_ERROR" and
    l1: "\<forall>i e. 0 \<le> i \<and> i < attrib_count ?sh \<and> e \<noteq> GL_NO_ERROR \<and>
               (\<forall>t. outcome ?E t (EnableVertexAttribArray (attribs ?sh ! nat i)) = e) \<longrightarrow>
               logged (error_report ?E 158 e) world0 s'" and
    l2: "\<forall>e. 2 < attrib_count ?sh \<and> e \<noteq> GL_NO_ERROR \<and>
             (\<forall>t. outcome ?E t (VertexAttribPointer (attribs ?sh ! 2) 4 GL_UNSIGNED_BYTE
                                  GL_TRUE 20 16) = e) \<longrightarrow>
             logged (error_report ?E 172 e) world0 s'"
    by (auto simp: world0_def)
  from l1 [rule_format, of 2 GL_INVALID_VALUE] o(1) e sh(1)
  have m1: "logged (error_report ?E 158 GL_INVALID_VALUE) world0 s'"
    by simp
  from l2 [rule_format, of GL_INVALID_VALUE] o(2) e sh(1)
  have m2: "logged (error_report ?E 172 GL_INVALID_VALUE) world0 s'"
    by simp
  from d c f m1 m2 g show ?thesis
    unfolding r by simp
qed

text \<open>
  Claim C4 as stated fails: slot 2 holds -1, and both the enable and the configure command
  are issued for it.
\<close>

theorem set_vertex_attribs_sentinel_counterexample:
  "attribs shader_no_color ! 2 = - 1 \<and>
   map_option calls (set_vertex_attribs env0 shader_no_color world0) =
     Some [EnableVertexAttribArray 0, EnableVertexAttribArray 1,
           EnableVertexAttribArray (- 1),
           VertexAttribPointer 0 2 GL_FLOAT GL_FALSE 20 0,
           VertexAttribPointer 1 2 GL_FLOAT GL_FALSE 20 8,
           VertexAttribPointer (- 1) 4 GL_UNSIGNED_BYTE GL_TRUE 20 16]"
proof -
  let ?sh = shader_no_color
  have sh: "attribs ?sh = [0, 1, - 1, 0, 0, 0, 0, 0]" "attrib_count ?sh = 3"
    by (simp_all add: shader_no_color_def)
  from set_vertex_attribs_calls [of ?sh env0 world0] sh obtain s' where
    d: "set_vertex_attribs env0 ?sh world0 = Some s'" and
    c: "calls s' = calls world0 @ attrib_calls ?sh"
    by auto
  have "calls s' = [EnableVertexAttribArray 0, EnableVertexAttribArray 1,
        EnableVertexAttribArray (- 1),
        VertexAttribPointer 0 2 GL_FLOAT GL_FALSE 20 0,
        VertexAttribPointer 1 2 GL_FLOAT GL_FALSE 20 8,
        VertexAttribPointer (- 1) 4 GL_UNSIGNED_BYTE GL_TRUE 20 16]"
    by (simp add: c attrib_calls_def sh world0_def)
  with d sh show ?thesis by simp
qed

subsection \<open>gl::transform_quad, gl::init_quad and gl::allocate_tex\<close>

lemma gl_cmd_id_fields [simp]:
  "blend (gl_cmd E c (\<lambda>s. s) t) = blend t"
  "blend_equation (gl_cmd E c (\<lambda>s. s) t) = blend_equation t"
  "blend_sfactor (gl_cmd E c (\<lambda>s. s) t) = blend_sfactor t"
  "blend_dfactor (gl_cmd E c (\<lambda>s. s) t) = blend_dfactor t"
  "cull_face (gl_cmd E c (\<lambda>s. s) t) = cull_face t"
  "depth_test (gl_cmd E c (\<lambda>s. s) t) = depth_test t"
  "scissor_test (gl_cmd E c (\<lambda>s. s) t) = scissor_test t"
  "array_buffer (gl_cmd E c (\<lambda>s. s) t) = array_buffer t"
  "current_program (gl_cmd E c (\<lambda>s. s) t) = current_program t"
  "texture_binding_2d (gl_cmd E c (\<lambda>s. s) t) = texture_binding_2d t"
  "line_width (gl_cmd E c (\<lambda>s. s) t) = line_width t"
  "buffer_size (gl_cmd E c (\<lambda>s. s) t) = buffer_size t"
  "buffer_data (gl_cmd E c (\<lambda>s. s) t) = buffer_data t"
  by (simp_all add: gl_cmd_frame)

lemma glBufferSubData_fields [simp]:
  "calls (glBufferSubData E tg off sz vs t) = calls t @ [BufferSubData tg off sz vs]"
  "buffer_size (glBufferSubData E tg off sz vs t) = buffer_size t"
  "array_buffer (glBufferSubData E tg off sz vs t) = array_buffer t"
  "buffer_data (glBufferSubData E GL_ARRAY_BUFFER 0 sz vs t) =
     (if outcome E t (BufferSubData GL_ARRAY_BUFFER 0 sz vs) = GL_NO_ERROR
      then (buffer_data t)(array_buffer t := vs @ drop (length vs) (buffer_data t (array_buffer t)))
      else buffer_data t)"
  by (simp_all add: glBufferSubData_def gl_cmd_def Let_def)

text \<open>The six vertices of a rectangle, as \<^verbatim>\<open>transform_quad\<close> lays them out.\<close>

lemma transform_quad_eq:
  "transform_quad E mesh (Vec2 x y) (Vec2 w h) s =
     (mesh,
      GLCHK E 204 (glBufferSubData E GL_ARRAY_BUFFER 0 120
          [\<lparr>pos = ImVec2 (Finite x) (f32_add y h), uv = ImVec2 (Finite 0) (Finite 1),
            col = 0xffffffff\<rparr>,
           \<lparr>pos = ImVec2 (Finite x) (Finite y), uv = ImVec2 (Finite 0) (Finite 0),
            col = 0xffffffff\<rparr>,
           \<lparr>pos = ImVec2 (f32_add x w) (f32_add y h), uv = ImVec2 (Finite 1) (Finite 1),
            col = 0xffffffff\<rparr>,
           \<lparr>pos = ImVec2 (f32_add x w) (Finite y), uv = ImVec2 (Finite 1) (Finite 0),
            col = 0xffffffff\<rparr>,
           \<lparr>pos = ImVec2 (f32_add x w) (f32_add y h), uv = ImVec2 (Finite 1) (Finite 1),
            col = 0xffffffff\<rparr>,
           \<lparr>pos = ImVec2 (Finite x) (Finite y), uv = ImVec2 (Finite 0) (Finite 0),
            col = 0xffffffff\<rparr>])
        (GLCHK E 203 (glBindBuffer E GL_ARRAY_BUFFER (vbo_handle mesh)) s))"
  by (simp add: transform_quad_def Let_def sizeof_ImDrawVert_def)

text \<open>Evaluating the rounding: the binade of a number between two powers of two.\<close>

lemma pow2_powr: "pow2 k = 2 powr (of_int k)"
  unfolding pow2_def by (simp add: powr_int)

lemma pow2_pos: "0 < pow2 k"
  by (simp add: pow2_def)

lemma binade_eq:
  assumes "pow2 e \<le> \<bar>r\<bar>" and "\<bar>r\<bar> < pow2 (e + 1)" and "- 126 \<le> e"
  shows "binade r = e"
proof -
  have "0 < \<bar>r\<bar>"
    using assms(1) pow2_pos [of e] by linarith
  then have "\<lfloor>log 2 \<bar>r\<bar>\<rfloor> = e"
    using assms(1,2) by (simp add: floor_log_eq_powr_iff pow2_powr)
  with assms(3) show ?thesis
    by (simp add: binade_def)
qed

lemma f32_add_tie: "f32_add 16777216 1 = Finite 16777216"
proof -
  have b: "binade 16777217 = 24"
    by (rule binade_eq) (simp_all add: pow2_def)
  show ?thesis
    by (simp add: f32_add_def round_binary32_def b pow2_def round_half_even_def
        max_binary32_def Let_def)
qed

lemma f32_add_three_quarters: "f32_add (1 / 2) (1 / 4) = Finite (3 / 4)"
proof -
  have b: "binade (3 / 4) = - 1"
    by (rule binade_eq) (simp_all add: pow2_def)
  show ?thesis
    by (simp add: f32_add_def round_binary32_def b pow2_def round_half_even_def
        max_binary32_def Let_def)
qed

lemma f32_add_10_30: "f32_add 10 30 = Finite 40"
proof -
  have b: "binade 40 = 5"
    by (rule binade_eq) (simp_all add: pow2_def)
  show ?thesis
    by (simp add: f32_add_def round_binary32_def b pow2_def round_half_even_def
        max_binary32_def Let_def)
qed

lemma f32_add_20_40: "f32_add 20 40 = Finite 60"
proof -
  have b: "binade 60 = 5"
    by (rule binade_eq) (simp_all add: pow2_def)
  show ?thesis
    by (simp add: f32_add_def round_binary32_def b pow2_def round_half_even_def
        max_binary32_def Let_def)
qed

text \<open>
  Claim C2, as amended. For a rectangle at \<open>(x, y)\<close> of size \<open>(w, h)\<close>,
  \<^verbatim>\<open>transform_quad\<close> binds the mesh's buffer and writes, from offset 0, exactly six
  vertices. Their positions are the corners \<open>(x, y2)\<close>, \<open>(x, y)\<close>, \<open>(x2, y2)\<close> and
  \<open>(x2, y)\<close>, \<open>(x2, y2)\<close>, \<open>(x, y)\<close>, where \<open>x2\<close> and \<open>y2\<close> are the binary32 sums of \<open>x\<close>
  and \<open>w\<close> and of \<open>y\<close> and \<open>h\<close>, which round. Each vertex carries the texture coordinate
  of its corner, \<open>(x, y)\<close> with \<open>(0, 0)\<close>, \<open>(x, y2)\<close> with \<open>(0, 1)\<close>, \<open>(x2, y)\<close> with \<open>(1, 0)\<close>
  and \<open>(x2, y2)\<close> with \<open>(1, 1)\<close>, and the colour \<^verbatim>\<open>0xffffffff\<close>. When the sums are
  finite, the two triangles have the signed area \<open>(x2 - x) * (y2 - y) / 2\<close> each, so
  they are counter-clockwise when \<open>x < x2\<close> and \<open>y < y2\<close>, and the bounding box of the six
  positions is \<open>[x, x2] \<times> [y, y2]\<close> when \<open>x \<le> x2\<close> and \<open>y \<le> y2\<close>. Whenever the two sums
  are exact, this is the claim as stated: the corners are those of
  \<open>[x, x+w] \<times> [y, y+h]\<close>, the triangles are counter-clockwise for positive extents and
  the bounding box is \<open>[x, x+w] \<times> [y, y+h]\<close> for non-negative ones. When the driver
  executes the two commands, the six vertices are the first six of the mesh's buffer.
\<close>

theorem transform_quad_vertices:
  "\<exists>vs. calls (snd (transform_quad E mesh (Vec2 x y) (Vec2 w h) s)) =
          calls s @ [BindBuffer GL_ARRAY_BUFFER (vbo_handle mesh),
                     BufferSubData GL_ARRAY_BUFFER 0 (6 * sizeof_ImDrawVert) vs] \<and>
        length vs = 6 \<and>
        map pos vs =
          [ImVec2 (Finite x) (f32_add y h), ImVec2 (Finite x) (Finite y),
           ImVec2 (f32_add x w) (f32_add y h), ImVec2 (f32_add x w) (Finite y),
           ImVec2 (f32_add x w) (f32_add y h), ImVec2 (Finite x) (Finite y)] \<and>
        (\<lambda>v. (pos v, uv v)) ` set vs =
          {(ImVec2 (Finite x) (Finite y), ImVec2 (Finite 0) (Finite 0)),
           (ImVec2 (Finite x) (f32_add y h), ImVec2 (Finite 0) (Finite 1)),
           (ImVec2 (f32_add x w) (Finite y), ImVec2 (Finite 1) (Finite 0)),
           (ImVec2 (f32_add x w) (f32_add y h), ImVec2 (Finite 1) (Finite 1))} \<and>
        (\<forall>v \<in> set vs. col v = 0xffffffff) \<and>
        (\<forall>X Y. f32_add x w = Finite X \<and> f32_add y h = Finite Y \<longrightarrow>
           orient2d (pos (vs ! 0)) (pos (vs ! 1)) (pos (vs ! 2)) = (X - x) * (Y - y) \<and>
           orient2d (pos (vs ! 3)) (pos (vs ! 4)) (pos (vs ! 5)) = (X - x) * (Y - y) \<and>
           (x < X \<and> y < Y \<longrightarrow>
              0 < orient2d (pos (vs ! 0)) (pos (vs ! 1)) (pos (vs ! 2)) \<and>
              0 < orient2d (pos (vs ! 3)) (pos (vs ! 4)) (pos (vs ! 5))) \<and>
           (x \<le> X \<and> y \<le> Y \<longrightarrow>
              Min ((\<lambda>v. val (ix (pos v))) ` set vs) = x \<and>
              Max ((\<lambda>v. val (ix (pos v))) ` set vs) = X \<and>
              Min ((\<lambda>v. val (iy (pos v))) ` set vs) = y \<and>
              Max ((\<lambda>v. val (iy (pos v))) ` set vs) = Y)) \<and>
        (f32_add x w = Finite (x + w) \<and> f32_add y h = Finite (y + h) \<longrightarrow>
           map pos vs =
             [ImVec2 (Finite x) (Finite (y + h)), ImVec2 (Finite x) (Finite y),
              ImVec2 (Finite (x + w)) (Finite (y + h)), ImVec2 (Finite (x + w)) (Finite y),
              ImVec2 (Finite (x + w)) (Finite (y + h)), ImVec2 (Finite x) (Finite y)] \<and>
           orient2d (pos (vs ! 0)) (pos (vs ! 1)) (pos (vs ! 2)) = w * h \<and>
           orient2d (pos (vs ! 3)) (pos (vs ! 4)) (pos (vs ! 5)) = w * h \<and>
           (0 < w \<and> 0 < h \<longrightarrow>
              0 < orient2d (pos (vs ! 0)) (pos (vs ! 1)) (pos (vs ! 2)) \<and>
              0 < orient2d (pos (vs ! 3)) (pos (vs ! 4)) (pos (vs ! 5))) \<and>
           (0 \<le> w \<and> 0 \<le> h \<longrightarrow>
              Min ((\<lambda>v. val (ix (pos v))) ` set vs) = x \<and>
              Max ((\<lambda>v. val (ix (pos v))) ` set vs) = x + w \<and>
              Min ((\<lambda>v. val (iy (pos v))) ` set vs) = y \<and>
              Max ((\<lambda>v. val (iy (pos v))) ` set vs) = y + h)) \<and>
        ((\<forall>t c. outcome E t c = GL_NO_ERROR) \<longrightarrow>
           take 6 (buffer_data (snd (transform_quad E mesh (Vec2 x y) (Vec2 w h) s))
                     (vbo_handle mesh)) = vs)"
proof -
  let ?x2 = "f32_add x w" and ?y2 = "f32_add y h"
  let ?vs = "[\<lparr>pos = ImVec2 (Finite x) ?y2, uv = ImVec2 (Finite 0) (Finite 1),
            col = 0xffffffff\<rparr>,
           \<lparr>pos = ImVec2 (Finite x) (Finite y), uv = ImVec2 (Finite 0) (Finite 0),
            col = 0xffffffff\<rparr>,
           \<lparr>pos = ImVec2 ?x2 ?y2, uv = ImVec2 (Finite 1) (Finite 1),
            col = 0xffffffff\<rparr>,
           \<lparr>pos = ImVec2 ?x2 (Finite y), uv = ImVec2 (Finite 1) (Finite 0),
            col = 0xffffffff\<rparr>,
           \<lparr>pos = ImVec2 ?x2 ?y2, uv = ImVec2 (Finite 1) (Finite 1),
            col = 0xffffffff\<rparr>,
           \<lparr>pos = ImVec2 (Finite x) (Finite y), uv = ImVec2 (Finite 0) (Finite 0),
            col = 0xffffffff\<rparr>]"
  have 1: "calls (snd (transform_quad E mesh (Vec2 x y) (Vec2 w h) s)) =
          calls s @ [BindBuffer GL_ARRAY_BUFFER (vbo_handle mesh),
                     BufferSubData GL_ARRAY_BUFFER 0 (6 * sizeof_ImDrawVert) ?vs]"
    by (simp add: transform_quad_eq sizeof_ImDrawVert_def)
  have 2: "(\<lambda>v. (pos v, uv v)) ` set ?vs =
          {(ImVec2 (Finite x) (Finite y), ImVec2 (Finite 0) (Finite 0)),
           (ImVec2 (Finite x) ?y2, ImVec2 (Finite 0) (Finite 1)),
           (ImVec2 ?x2 (Finite y), ImVec2 (Finite 1) (Finite 0)),
           (ImVec2 ?x2 ?y2, ImVec2 (Finite 1) (Finite 1))}"
    by auto
  have fin: "orient2d (pos (?vs ! 0)) (pos (?vs ! 1)) (pos (?vs ! 2)) = (X - x) * (Y - y) \<and>
           orient2d (pos (?vs ! 3)) (pos (?vs ! 4)) (pos (?vs ! 5)) = (X - x) * (Y - y) \<and>
           (x < X \<and> y < Y \<longrightarrow>
              0 < orient2d (pos (?vs ! 0)) (pos (?vs ! 1)) (pos (?vs ! 2)) \<and>
              0 < orient2d (pos (?vs ! 3)) (pos (?vs ! 4)) (pos (?vs ! 5))) \<and>
           (x \<le> X \<and> y \<le> Y \<longrightarrow>
              Min ((\<lambda>v. val (ix (pos v))) ` set ?vs) = x \<and>
              Max ((\<lambda>v. val (ix (pos v))) ` set ?vs) = X \<and>
              Min ((\<lambda>v. val (iy (pos v))) ` set ?vs) = y \<and>
              Max ((\<lambda>v. val (iy (pos v))) ` set ?vs) = Y)"
    if "?x2 = Finite X \<and> ?y2 = Finite Y" for X Y
  proof -
    have o: "orient2d (pos (?vs ! 0)) (pos (?vs ! 1)) (pos (?vs ! 2)) = (X - x) * (Y - y)"
      "orient2d (pos (?vs ! 3)) (pos (?vs ! 4)) (pos (?vs ! 5)) = (X - x) * (Y - y)"
      using that by (simp_all add: orient2d_def algebra_simps)
    have p: "0 < (X - x) * (Y - y)" if "x < X \<and> y < Y"
      using that by simp
    have m: "Min ((\<lambda>v. val (ix (pos v))) ` set ?vs) = x \<and>
              Max ((\<lambda>v. val (ix (pos v))) ` set ?vs) = X \<and>
              Min ((\<lambda>v. val (iy (pos v))) ` set ?vs) = y \<and>
              Max ((\<lambda>v. val (iy (pos v))) ` set ?vs) = Y"
      if "x \<le> X \<and> y \<le> Y"
      using that \<open>?x2 = Finite X \<and> ?y2 = Finite Y\<close> by (simp add: min_def max_def)
    show ?thesis
      by (simp only: o) (use p m in blast)
  qed
  have ex: "map pos ?vs =
             [ImVec2 (Finite x) (Finite (y + h)), ImVec2 (Finite x) (Finite y),
              ImVec2 (Finite (x + w)) (Finite (y + h)), ImVec2 (Finite (x + w)) (Finite y),
              ImVec2 (Finite (x + w)) (Finite (y + h)), ImVec2 (Finite x) (Finite y)] \<and>
           orient2d (pos (?vs ! 0)) (pos (?vs ! 1)) (pos (?vs ! 2)) = w * h \<and>
           orient2d (pos (?vs ! 3)) (pos (?vs ! 4)) (pos (?vs ! 5)) = w * h \<and>
           (0 < w \<and> 0 < h \<longrightarrow>
              0 < orient2d (pos (?vs ! 0)) (pos (?vs ! 1)) (pos (?vs ! 2)) \<and>
              0 < orient2d (pos (?vs ! 3)) (pos (?vs ! 4)) (pos (?vs ! 5))) \<and>
           (0 \<le> w \<and> 0 \<le> h \<longrightarrow>
              Min ((\<lambda>v. val (ix (pos v))) ` set ?vs) = x \<and>
              Max ((\<lambda>v. val (ix (pos v))) ` set ?vs) = x + w \<and>
              Min ((\<lambda>v. val (iy (pos v))) ` set ?vs) = y \<and>
              Max ((\<lambda>v. val (iy (pos v))) ` set ?vs) = y + h)"
    if e: "?x2 = Finite (x + w) \<and> ?y2 = Finite (y + h)"
  proof -
    note f = fin [OF e]
    have a: "(x + w - x) * (y + h - y) = w * h"
      by simp
    have o: "orient2d (pos (?vs ! 0)) (pos (?vs ! 1)) (pos (?vs ! 2)) = w * h"
      "orient2d (pos (?vs ! 3)) (pos (?vs ! 4)) (pos (?vs ! 5)) = w * h"
      using f a by metis+
    have b: "x \<le> x + w \<and> y \<le> y + h" if "0 \<le> w \<and> 0 \<le> h"
      using that by simp
    have p: "0 < w * h" if "0 < w \<and> 0 < h"
      using that by simp
    have q: "map pos ?vs =
             [ImVec2 (Finite x) (Finite (y + h)), ImVec2 (Finite x) (Finite y),
              ImVec2 (Finite (x + w)) (Finite (y + h)), ImVec2 (Finite (x + w)) (Finite y),
              ImVec2 (Finite (x + w)) (Finite (y + h)), ImVec2 (Finite x) (Finite y)]"
      using e by simp
    show ?thesis
      by (simp only: o) (use f b p q in blast)
  qed
  have 5: "take 6 (buffer_data (snd (transform_quad E mesh (Vec2 x y) (Vec2 w h) s))
                     (vbo_handle mesh)) = ?vs"
    if "\<forall>t c. outcome E t c = GL_NO_ERROR"
    using that by (simp add: transform_quad_eq)
  show ?thesis
    apply (rule exI [of _ ?vs])
    apply (intro conjI)
    subgoal by (rule 1)
    subgoal by simp
    subgoal by simp
    subgoal by (rule 2)
    subgoal by simp
    subgoal using fin by blast
    subgoal using ex by blast
    subgoal using 5 by blast
    done
qed

lemma env0_ok [simp]: "outcome env0 t c = GL_NO_ERROR"
  by (simp add: env0_def)

lemma world0_fields [simp]:
  "calls world0 = []" "texture_binding_2d world0 = 0" "current_program world0 = 0"
  by (simp_all add: world0_def)

lemma mesh0_fields [simp]: "vbo_handle mesh0 = 0"
  by (simp add: mesh0_def)

text \<open>
  An instance: the rectangle at (10, 20) of size (30, 40), whose corner sums 40 and 60
  are exact.
\<close>

theorem transform_quad_vertices_witness:
  "f32_add 10 30 = Finite (10 + 30) \<and> f32_add 20 40 = Finite (20 + 40) \<and>
   calls (snd (transform_quad env0 mesh0 (Vec2 10 20) (Vec2 30 40) world0)) =
     [BindBuffer GL_ARRAY_BUFFER 0,
      BufferSubData GL_ARRAY_BUFFER 0 (6 * sizeof_ImDrawVert)
        (take 6 (buffer_data (snd (transform_quad env0 mesh0 (Vec2 10 20) (Vec2 30 40) world0))
                   0))] \<and>
   map pos (take 6 (buffer_data (snd (transform_quad env0 mesh0 (Vec2 10 20) (Vec2 30 40)
                                         world0)) 0)) =
     [ImVec2 (Finite 10) (Finite 60), ImVec2 (Finite 10) (Finite 20),
      ImVec2 (Finite 40) (Finite 60), ImVec2 (Finite 40) (Finite 20),
      ImVec2 (Finite 40) (Finite 60), ImVec2 (Finite 10) (Finite 20)] \<and>
   (\<lambda>v. (pos v, uv v)) `
     set (take 6 (buffer_data (snd (transform_quad env0 mesh0 (Vec2 10 20) (Vec2 30 40)
                                     world0)) 0)) =
     {(ImVec2 (Finite 10) (Finite 20), ImVec2 (Finite 0) (Finite 0)),
      (ImVec2 (Finite 10) (Finite 60), ImVec2 (Finite 0) (Finite 1)),
      (ImVec2 (Finite 40) (Finite 20), ImVec2 (Finite 1) (Finite 0)),
      (ImVec2 (Finite 40) (Finite 60), ImVec2 (Finite 1) (Finite 1))} \<and>
   Min ((\<lambda>v. val (ix (pos v))) `
     set (take 6 (buffer_data (snd (transform_quad env0 mesh0 (Vec2 10 20) (Vec2 30 40)
                                     world0)) 0))) = 10 \<and>
   Max ((\<lambda>v. val (ix (pos v))) `
     set (take 6 (buffer_data (snd (transform_quad env0 mesh0 (Vec2 10 20) (Vec2 30 40)
                                     world0)) 0))) = 40 \<and>
   Min ((\<lambda>v. val (iy (pos v))) `
     set (take 6 (buffer_data (snd (transform_quad env0 mesh0 (Vec2 10 20) (Vec2 30 40)
                                     world0)) 0))) = 20 \<and>
   Max ((\<lambda>v. val (iy (pos v))) `
     set (take 6 (buffer_data (snd (transform_quad env0 mesh0 (Vec2 10 20) (Vec2 30 40)
                                     world0)) 0))) = 60"
  using transform_quad_vertices [of env0 mesh0 10 20 30 40 world0]
  by (simp add: f32_add_10_30 f32_add_20_40)

text \<open>
  Claim C2 as stated fails: at the position \<open>(2^24, 1/2)\<close> with the size \<open>(1, 1/4)\<close> the
  sum \<open>2^24 + 1\<close> is not a float and rounds to \<open>2^24\<close>. The six vertices written all have
  the abscissa 16777216: their bounding box is not \<open>[x, x+w] \<times> [y, y+h]\<close> and the two
  triangles have no area.
\<close>

theorem transform_quad_rounding_counterexample:
  "calls (snd (transform_quad env0 mesh0 (Vec2 16777216 (1 / 2)) (Vec2 1 (1 / 4)) world0)) =
     [BindBuffer GL_ARRAY_BUFFER 0,
      BufferSubData GL_ARRAY_BUFFER 0 120
        [\<lparr>pos = ImVec2 (Finite 16777216) (Finite (3 / 4)),
          uv = ImVec2 (Finite 0) (Finite 1), col = 0xffffffff\<rparr>,
         \<lparr>pos = ImVec2 (Finite 16777216) (Finite (1 / 2)),
          uv = ImVec2 (Finite 0) (Finite 0), col = 0xffffffff\<rparr>,
         \<lparr>pos = ImVec2 (Finite 16777216) (Finite (3 / 4)),
          uv = ImVec2 (Finite 1) (Finite 1), col = 0xffffffff\<rparr>,
         \<lparr>pos = ImVec2 (Finite 16777216) (Finite (1 / 2)),
          uv = ImVec2 (Finite 1) (Finite 0), col = 0xffffffff\<rparr>,
         \<lparr>pos = ImVec2 (Finite 16777216) (Finite (3 / 4)),
          uv = ImVec2 (Finite 1) (Finite 1), col = 0xffffffff\<rparr>,
         \<lparr>pos = ImVec2 (Finite 16777216) (Finite (1 / 2)),
          uv = ImVec2 (Finite 0) (Finite 0), col = 0xffffffff\<rparr>]] \<and>
   (16777216 :: real) + 1 = 16777217 \<and>
   orient2d (ImVec2 (Finite 16777216) (Finite (3 / 4)))
     (ImVec2 (Finite 16777216) (Finite (1 / 2)))
     (ImVec2 (Finite 16777216) (Finite (3 / 4))) = 0"
  by (simp add: transform_quad_eq f32_add_tie f32_add_three_quarters orient2d_def)

text \<open>
  Claim C8. Two calls of \<^verbatim>\<open>transform_quad\<close> on a mesh, with any two rectangles, leave
  the mesh as it was, so its vertex count and its buffer handle in particular; the size
  of every buffer object is what it was, and the commands issued are two times a bind
  of the mesh's buffer and a write of six vertices from offset 0: no buffer is created
  and none is given a new data store.
\<close>

theorem transform_quad_in_place:
  "fst (transform_quad E (fst (transform_quad E mesh p1 sz1 s)) p2 sz2
          (snd (transform_quad E mesh p1 sz1 s))) = mesh \<and>
   buffer_size (snd (transform_quad E (fst (transform_quad E mesh p1 sz1 s)) p2 sz2
          (snd (transform_quad E mesh p1 sz1 s)))) = buffer_size s \<and>
   (\<exists>vs1 vs2.
      calls (snd (transform_quad E (fst (transform_quad E mesh p1 sz1 s)) p2 sz2
          (snd (transform_quad E mesh p1 sz1 s)))) =
        calls s @ [BindBuffer GL_ARRAY_BUFFER (vbo_handle mesh),
                   BufferSubData GL_ARRAY_BUFFER 0 (6 * sizeof_ImDrawVert) vs1,
                   BindBuffer GL_ARRAY_BUFFER (vbo_handle mesh),
                   BufferSubData GL_ARRAY_BUFFER 0 (6 * sizeof_ImDrawVert) vs2] \<and>
      length vs1 = 6 \<and> length vs2 = 6)"
  by (cases p1; cases sz1; cases p2; cases sz2)
    (simp add: transform_quad_eq sizeof_ImDrawVert_def)

text \<open>An instance: a mesh with six vertices in buffer 4.\<close>

theorem transform_quad_in_place_witness:
  "index_count (fst (transform_quad env0 (fst (transform_quad env0
       (mesh0\<lparr>index_count := 6, vbo_handle := 4\<rparr>) (Vec2 0 0) (Vec2 1 1) world0))
       (Vec2 5 5) (Vec2 2 3)
       (snd (transform_quad env0 (mesh0\<lparr>index_count := 6, vbo_handle := 4\<rparr>)
          (Vec2 0 0) (Vec2 1 1) world0)))) = 6 \<and>
   vbo_handle (fst (transform_quad env0 (fst (transform_quad env0
       (mesh0\<lparr>index_count := 6, vbo_handle := 4\<rparr>) (Vec2 0 0) (Vec2 1 1) world0))
       (Vec2 5 5) (Vec2 2 3)
       (snd (transform_quad env0 (mesh0\<lparr>index_count := 6, vbo_handle := 4\<rparr>)
          (Vec2 0 0) (Vec2 1 1) world0)))) = 4"
  using transform_quad_in_place
    [of env0 "mesh0\<lparr>index_count := 6, vbo_handle := 4\<rparr>" "Vec2 0 0" "Vec2 1 1" world0
      "Vec2 5 5" "Vec2 2 3"]
  by (simp add: mesh0_def)

lemma glGenBuffers_fields [simp]:
  "fst (glGenBuffers E n t) =
     (if outcome E t (GenBuffers n) = GL_NO_ERROR then Some (fresh_name E t) else None)"
  "calls (snd (glGenBuffers E n t)) = calls t @ [GenBuffers n]"
  by (simp_all add: glGenBuffers_def)

lemma glBufferData_calls [simp]:
  "calls (glBufferData E tg sz d u t) = calls t @ [BufferData tg sz d u]"
  by (simp add: glBufferData_def gl_cmd_calls)

text \<open>
  Claim C10. \<^verbatim>\<open>init_quad\<close> returns the mesh with its vertex count set to 6 and its
  buffer handle set to the name the driver generated (left as it was when
  \<^verbatim>\<open>glGenBuffers\<close> fails); the topology flag, \<open>vbo_size\<close> and \<open>elements_handle\<close> are
  what they were before the call. Besides that it issues the commands that create the
  buffer's data store and write the six vertices.
\<close>

theorem init_quad_mesh_fields:
  "fst (init_quad E mesh (Vec2 x y) (Vec2 w h) usage s) =
     mesh\<lparr>vbo_handle := (if outcome E s (GenBuffers 1) = GL_NO_ERROR
                          then fresh_name E s else vbo_handle mesh),
          index_count := 6\<rparr> \<and>
   is_line_loop (fst (init_quad E mesh (Vec2 x y) (Vec2 w h) usage s)) = is_line_loop mesh \<and>
   vbo_size (fst (init_quad E mesh (Vec2 x y) (Vec2 w h) usage s)) = vbo_size mesh \<and>
   elements_handle (fst (init_quad E mesh (Vec2 x y) (Vec2 w h) usage s))
     = elements_handle mesh \<and>
   index_count (fst (init_quad E mesh (Vec2 x y) (Vec2 w h) usage s)) = 6 \<and>
   (\<exists>b vs. calls (snd (init_quad E mesh (Vec2 x y) (Vec2 w h) usage s)) =
      calls s @ [GenBuffers 1, BindBuffer GL_ARRAY_BUFFER b,
                 BufferData GL_ARRAY_BUFFER (6 * sizeof_ImDrawVert) None usage,
                 BindBuffer GL_ARRAY_BUFFER b,
                 BufferSubData GL_ARRAY_BUFFER 0 (6 * sizeof_ImDrawVert) vs])"
  by (simp add: init_quad_def transform_quad_eq Let_def split_def sizeof_ImDrawVert_def
      split: option.splits)

text \<open>An instance: a mesh flagged as a line loop stays one.\<close>

theorem init_quad_mesh_fields_witness:
  "fst (init_quad env0 (mesh0\<lparr>is_line_loop := True, vbo_size := 9, elements_handle := 8\<rparr>)
         (Vec2 1 2) (Vec2 3 4) 0x88E8 world0) =
     \<lparr>is_line_loop = True, vbo_size = 9, index_count = 6, vbo_handle = 1,
      elements_handle = 8\<rparr>"
  using init_quad_mesh_fields
    [of env0 "mesh0\<lparr>is_line_loop := True, vbo_size := 9, elements_handle := 8\<rparr>"
      1 2 3 4 "0x88E8" world0]
  by (simp add: mesh0_def env0_def)

lemma glGenTextures_fields [simp]:
  "fst (glGenTextures E n t) =
     (if outcome E t (GenTextures n) = GL_NO_ERROR then Some (fresh_name E t) else None)"
  "calls (snd (glGenTextures E n t)) = calls t @ [GenTextures n]"
  "texture_binding_2d (snd (glGenTextures E n t)) = texture_binding_2d t"
  by (simp_all add: glGenTextures_def)

text \<open>
  Claim C9. When the driver generates a texture name and accepts its binding,
  \<^verbatim>\<open>allocate_tex\<close> returns that name and the 2D texture binding after the call is the
  new name, whatever was bound before. The commands issued hold no query of the binding
  and a single \<^verbatim>\<open>glBindTexture\<close>: the previous binding is neither saved nor put back.
\<close>

theorem allocate_tex_leaves_texture_bound:
  assumes "outcome E s (GenTextures 1) = GL_NO_ERROR"
    and "\<forall>t. outcome E t (BindTexture GL_TEXTURE_2D (fresh_name E s)) = GL_NO_ERROR"
  shows "\<exists>s'. allocate_tex E w h data s = Some (fresh_name E s, s') \<and>
     texture_binding_2d s' = fresh_name E s \<and>
     calls s' = calls s @
       [GenTextures 1, BindTexture GL_TEXTURE_2D (fresh_name E s),
        TexParameteri GL_TEXTURE_2D GL_TEXTURE_MIN_FILTER GL_LINEAR,
        TexParameteri GL_TEXTURE_2D GL_TEXTURE_MAG_FILTER GL_LINEAR,
        TexImage2D GL_TEXTURE_2D 0 GL_RGBA8 w h 0 GL_RGBA GL_UNSIGNED_BYTE data]"
  using assms
  by (simp add: allocate_tex_def Let_def split_def glTexParameteri_def glTexImage2D_def)

text \<open>An instance: texture 5 was bound, the new texture 1 is bound after the call.\<close>

theorem allocate_tex_leaves_texture_bound_witness:
  "\<exists>s'. allocate_tex env0 64 64 None (world0\<lparr>texture_binding_2d := 5\<rparr>) = Some (1, s') \<and>
        texture_binding_2d s' = 1"
  using allocate_tex_leaves_texture_bound
    [of env0 "world0\<lparr>texture_binding_2d := 5\<rparr>" 64 64 None]
  by (auto simp: env0_def world0_def)

subsection \<open>gl::compile_shader\<close>

lemma stdout_queries [simp]:
  "stdout (snd (glCreateProgram E s)) = stdout s"
  "stdout (snd (glCreateShader E ty s)) = stdout s"
  "stdout (snd (glGetAttribLocation E p name s)) = stdout s"
  "stdout (snd (glGetUniformLocation E p name s)) = stdout s"
  "stdout (snd (glGetShaderiv E h pn s)) = stdout s"
  "stdout (snd (glGetShaderInfoLog E h n s)) = stdout s"
  by (simp_all add: glCreateProgram_def glCreateShader_def glGetAttribLocation_def
      glGetUniformLocation_def glGetShaderiv_def glGetShaderInfoLog_def split_def Let_def)

lemma print_compilation_errors_defined:
  assumes "\<forall>t h p. outcome E t (GetShaderiv h p) = GL_NO_ERROR"
    and "\<forall>t h n. outcome E t (GetShaderInfoLog h n) = GL_NO_ERROR"
  shows "\<exists>s'. print_compilation_errors E h ty file line s = Some s' \<and> appends s s'"
proof -
  let ?q = "GLCHK_val E 99 (glGetShaderiv E h GL_COMPILE_STATUS) s"
  have f: "fst ?q = Some (compile_status E s h)"
    using assms(1) by (simp add: glGetShaderiv_def)
  have a1: "appends s (snd ?q)"
    by (rule appends_GLCHK_val) simp
  show ?thesis
  proof (cases "compile_status E s h = GL_TRUE")
    case True
    then have "print_compilation_errors E h ty file line s = Some (snd ?q)"
      using f by (simp add: print_compilation_errors_def split_def Let_def)
    with a1 show ?thesis by blast
  next
    case False
    let ?s2 = "printf (''Compilation error in '' @ ty @ '' shader in '' @ file
                                @ '':'' @ fmt_d line @ newline) (snd ?q)"
    let ?q3 = "GLCHK_val E 105 (glGetShaderInfoLog E h 4096) ?s2"
    have f3: "fst ?q3 = Some (take 4095 (info_log E ?s2 h))"
      using assms(2) by (simp add: glGetShaderInfoLog_def)
    have e: "print_compilation_errors E h ty file line s
        = Some (printf newline (printf (take 4095 (info_log E ?s2 h)) (snd ?q3)))"
      using f f3 False by (simp add: print_compilation_errors_def split_def Let_def)
    have "appends (snd ?q) ?s2" by simp
    moreover have "appends ?s2 (snd ?q3)"
      by (rule appends_GLCHK_val) simp
    moreover have "appends (snd ?q3)
        (printf newline (printf (take 4095 (info_log E ?s2 h)) (snd ?q3)))"
      by (rule appends_trans [OF appends_printf appends_printf])
    ultimately have "appends s
        (printf newline (printf (take 4095 (info_log E ?s2 h)) (snd ?q3)))"
      using a1 by (blast intro: appends_trans)
    with e show ?thesis by blast
  qed
qed

lemma compile_shader_attrib_step:
  assumes "0 \<le> i" and "i < 8" and "nat i < length (attribs sh)"
  shows "\<exists>s'. compile_shader_attrib E file line i (sh, VStr name # rest, s) =
            Some (sh\<lparr>attribs := (attribs sh)
                    [nat i := fst (glGetAttribLocation E (handle sh) name s)]\<rparr>, rest, s') \<and>
          appends s s' \<and>
          (fst (glGetAttribLocation E (handle sh) name s) = - 1 \<longrightarrow>
             logged (''Attribute '' @ name @ '' not found in shader at '' @ file @ '':''
                     @ fmt_d line @ newline) s s')"
proof -
  let ?q = "GLCHK_val E 137 (glGetAttribLocation E (handle sh) name) s"
  let ?msg = "''Attribute '' @ name @ '' not found in shader at '' @ file @ '':''
                     @ fmt_d line @ newline"
  let ?s2 = "if fst ?q = - 1 then printf ?msg (snd ?q) else snd ?q"
  have a1: "appends s (snd ?q)"
    by (rule appends_GLCHK_val) simp
  have e: "compile_shader_attrib E file line i (sh, VStr name # rest, s) =
            Some (sh\<lparr>attribs := (attribs sh)
                    [nat i := fst (glGetAttribLocation E (handle sh) name s)]\<rparr>, rest, ?s2)"
    using assms by (simp add: compile_shader_attrib_def store_def split_def Let_def)
  have a2: "appends s ?s2"
    using a1 by (auto intro: appends_trans [OF a1 appends_printf])
  have l: "logged ?msg s ?s2" if "fst (glGetAttribLocation E (handle sh) name s) = - 1"
    using that by (simp add: appends_logged [OF a1 logged_printf])
  from e a2 l show ?thesis by blast
qed

lemma compile_shader_attribs_spec:
  assumes "0 \<le> i" and "i + int (length names) = n" and "n \<le> 8"
    and "nat n \<le> length (attribs sh)"
    and "\<forall>t name. fst (glGetAttribLocation E (handle sh) name t) = loc name"
  shows "\<exists>sh' s'. compile_shader_attribs E file line n i (sh, map VStr names @ rest, s) =
            Some (sh', rest, s') \<and>
          handle sh' = handle sh \<and> attrib_count sh' = attrib_count sh \<and>
          uniform_count sh' = uniform_count sh \<and> uniforms sh' = uniforms sh \<and>
          length (attribs sh') = length (attribs sh) \<and>
          (\<forall>j < length names. attribs sh' ! (nat i + j) = loc (names ! j)) \<and>
          (\<forall>j < nat i. attribs sh' ! j = attribs sh ! j) \<and>
          appends s s' \<and>
          (\<forall>name \<in> set names. loc name = - 1 \<longrightarrow>
             logged (''Attribute '' @ name @ '' not found in shader at '' @ file @ '':''
                     @ fmt_d line @ newline) s s')"
  using assms
proof (induction names arbitrary: i sh s)
  case Nil
  then show ?case by (simp add: compile_shader_attribs.simps)
next
  case (Cons name names)
  let ?msg = "\<lambda>name. ''Attribute '' @ name @ '' not found in shader at '' @ file @ '':''
                     @ fmt_d line @ newline"
  from Cons.prems have lt: "i < n" and i8: "i < 8" and len: "nat i < length (attribs sh)"
    by auto
  let ?sh1 = "sh\<lparr>attribs := (attribs sh)[nat i := loc name]\<rparr>"
  from compile_shader_attrib_step [OF Cons.prems(1) i8 len, of E "file" line name
      "map VStr names @ rest" s] Cons.prems(5)
  obtain s1 where
    b: "compile_shader_attrib E file line i (sh, VStr name # map VStr names @ rest, s) =
          Some (?sh1, map VStr names @ rest, s1)" and
    a1: "appends s s1" and
    l1: "loc name = - 1 \<longrightarrow> logged (?msg name) s s1"
    by auto
  from Cons.prems have p: "0 \<le> i + 1" "i + 1 + int (length names) = n"
    "nat n \<le> length (attribs ?sh1)"
    "\<forall>t name. fst (glGetAttribLocation E (handle ?sh1) name t) = loc name"
    by auto
  from Cons.IH [OF p(1,2) Cons.prems(3) p(3,4), of s1] obtain sh' s' where
    r: "compile_shader_attribs E file line n (i + 1) (?sh1, map VStr names @ rest, s1) =
          Some (sh', rest, s')" and
    f: "handle sh' = handle sh" "attrib_count sh' = attrib_count sh"
      "uniform_count sh' = uniform_count sh" "uniforms sh' = uniforms sh"
      "length (attribs sh') = length (attribs sh)" and
    n1: "\<forall>j < length names. attribs sh' ! (nat (i + 1) + j) = loc (names ! j)" and
    n2: "\<forall>j < nat (i + 1). attribs sh' ! j = attribs ?sh1 ! j" and
    a2: "appends s1 s'" and
    l2: "\<forall>nm \<in> set names. loc nm = - 1 \<longrightarrow> logged (?msg nm) s1 s'"
    by auto
  have ni: "nat (i + 1) = Suc (nat i)"
    using Cons.prems(1) by simp
  have e: "compile_shader_attribs E file line n i (sh, map VStr (name # names) @ rest, s) =
            Some (sh', rest, s')"
    using lt b r by (subst compile_shader_attribs.simps) simp
  have w: "\<forall>j < length (name # names). attribs sh' ! (nat i + j) = loc ((name # names) ! j)"
  proof (intro allI impI)
    fix j assume j: "j < length (name # names)"
    show "attribs sh' ! (nat i + j) = loc ((name # names) ! j)"
    proof (cases j)
      case 0
      with n2 ni len show ?thesis by simp
    next
      case (Suc k)
      with j n1 ni show ?thesis by simp
    qed
  qed
  have k: "\<forall>j < nat i. attribs sh' ! j = attribs sh ! j"
    using n2 ni by simp
  have a: "appends s s'"
    using a1 a2 by (rule appends_trans)
  have l: "\<forall>nm \<in> set (name # names). loc nm = - 1 \<longrightarrow> logged (?msg nm) s s'"
    using l1 l2 a1 a2 by (auto intro: logged_appends appends_logged)
  from e f w k a l show ?case by blast
qed

lemma compile_shader_uniform_step:
  assumes "0 \<le> i" and "i < 8" and "nat i < length (uniforms sh)"
  shows "\<exists>s'. compile_shader_uniform E file line i (sh, VStr name # rest, s) =
            Some (sh\<lparr>uniforms := (uniforms sh)
                    [nat i := fst (glGetUniformLocation E (handle sh) name s)]\<rparr>, rest, s') \<and>
          appends s s' \<and>
          (fst (glGetUniformLocation E (handle sh) name s) = - 1 \<longrightarrow>
             logged (''Uniform '' @ name @ '' not found in shader at '' @ file @ '':''
                     @ fmt_d line @ newline) s s')"
proof -
  let ?q = "GLCHK_val E 146 (glGetUniformLocation E (handle sh) name) s"
  let ?msg = "''Uniform '' @ name @ '' not found in shader at '' @ file @ '':''
                     @ fmt_d line @ newline"
  let ?s2 = "if fst ?q = - 1 then printf ?msg (snd ?q) else snd ?q"
  have a1: "appends s (snd ?q)"
    by (rule appends_GLCHK_val) simp
  have e: "compile_shader_uniform E file line i (sh, VStr name # rest, s) =
            Some (sh\<lparr>uniforms := (uniforms sh)
                    [nat i := fst (glGetUniformLocation E (handle sh) name s)]\<rparr>, rest, ?s2)"
    using assms by (simp add: compile_shader_uniform_def store_def split_def Let_def)
  have a2: "appends s ?s2"
    using a1 by (auto intro: appends_trans [OF a1 appends_printf])
  have l: "logged ?msg s ?s2" if "fst (glGetUniformLocation E (handle sh) name s) = - 1"
    using that by (simp add: appends_logged [OF a1 logged_printf])
  from e a2 l show ?thesis by blast
qed

lemma compile_shader_uniforms_spec:
  assumes "0 \<le> i" and "i + int (length names) = n" and "n \<le> 8"
    and "nat n \<le> length (uniforms sh)"
    and "\<forall>t name. fst (glGetUniformLocation E (handle sh) name t) = loc name"
  shows "\<exists>sh' s'. compile_shader_uniforms E file line n i (sh, map VStr names @ rest, s) =
            Some (sh', rest, s') \<and>
          handle sh' = handle sh \<and> attrib_count sh' = attrib_count sh \<and>
          uniform_count sh' = uniform_count sh \<and> attribs sh' = attribs sh \<and>
          length (uniforms sh') = length (uniforms sh) \<and>
          (\<forall>j < length names. uniforms sh' ! (nat i + j) = loc (names ! j)) \<and>
          (\<forall>j < nat i. uniforms sh' ! j = uniforms sh ! j) \<and>
          appends s s' \<and>
          (\<forall>name \<in> set names. loc name = - 1 \<longrightarrow>
             logged (''Uniform '' @ name @ '' not found in shader at '' @ file @ '':''
                     @ fmt_d line @ newline) s s')"
  using assms
proof (induction names arbitrary: i sh s)
  case Nil
  then show ?case by (simp add: compile_shader_uniforms.simps)
next
  case (Cons name names)
  let ?msg = "\<lambda>name. ''Uniform '' @ name @ '' not found in shader at '' @ file @ '':''
                     @ fmt_d line @ newline"
  from Cons.prems have lt: "i < n" and i8: "i < 8" and len: "nat i < length (uniforms sh)"
    by auto
  let ?sh1 = "sh\<lparr>uniforms := (uniforms sh)[nat i := loc name]\<rparr>"
  from compile_shader_uniform_step [OF Cons.prems(1) i8 len, of E "file" line name
      "map VStr names @ rest" s] Cons.prems(5)
  obtain s1 where
    b: "compile_shader_uniform E file line i (sh, VStr name # map VStr names @ rest, s) =
          Some (?sh1, map VStr names @ rest, s1)" and
    a1: "appends s s1" and
    l1: "loc name = - 1 \<longrightarrow> logged (?msg name) s s1"
    by auto
  from Cons.prems have p: "0 \<le> i + 1" "i + 1 + int (length names) = n"
    "nat n \<le> length (uniforms ?sh1)"
    "\<forall>t name. fst (glGetUniformLocation E (handle ?sh1) name t) = loc name"
    by auto
  from Cons.IH [OF p(1,2) Cons.prems(3) p(3,4), of s1] obtain sh' s' where
    r: "compile_shader_uniforms E file line n (i + 1) (?sh1, map VStr names @ rest, s1) =
          Some (sh', rest, s')" and
    f: "handle sh' = handle sh" "attrib_count sh' = attrib_count sh"
      "uniform_count sh' = uniform_count sh" "attribs sh' = attribs sh"
      "length (uniforms sh') = length (uniforms sh)" and
    n1: "\<forall>j < length names. uniforms sh' ! (nat (i + 1) + j) = loc (names ! j)" and
    n2: "\<forall>j < nat (i + 1). uniforms sh' ! j = uniforms ?sh1 ! j" and
    a2: "appends s1 s'" and
    l2: "\<forall>nm \<in> set names. loc nm = - 1 \<longrightarrow> logged (?msg nm) s1 s'"
    by auto
  have ni: "nat (i + 1) = Suc (nat i)"
    using Cons.prems(1) by simp
  have e: "compile_shader_uniforms E file line n i (sh, map VStr (name # names) @ rest, s) =
            Some (sh', rest, s')"
    using lt b r by (subst compile_shader_uniforms.simps) simp
  have w: "\<forall>j < length (name # names). uniforms sh' ! (nat i + j) = loc ((name # names) ! j)"
  proof (intro allI impI)
    fix j assume j: "j < length (name # names)"
    show "uniforms sh' ! (nat i + j) = loc ((name # names) ! j)"
    proof (cases j)
      case 0
      with n2 ni len show ?thesis by simp
    next
      case (Suc k)
      with j n1 ni show ?thesis by simp
    qed
  qed
  have k: "\<forall>j < nat i. uniforms sh' ! j = uniforms sh ! j"
    using n2 ni by simp
  have a: "appends s s'"
    using a1 a2 by (rule appends_trans)
  have l: "\<forall>nm \<in> set (name # names). loc nm = - 1 \<longrightarrow> logged (?msg nm) s s'"
    using l1 l2 a1 a2 by (auto intro: logged_appends appends_logged)
  from e f w k a l show ?case by blast
qed

lemma appends_GLCHK_I:
  "appends s t \<Longrightarrow> stdout (stmt t) = stdout t \<Longrightarrow> appends s (GLCHK E n stmt t)"
  by (blast intro: appends_trans appends_GLCHK)

lemma appends_GLCHK_val_I:
  "appends s t \<Longrightarrow> stdout (snd (q t)) = stdout t \<Longrightarrow> appends s (snd (GLCHK_val E n q t))"
  by (blast intro: appends_trans appends_GLCHK_val)

lemma compile_shader_objects_fields:
  "fst (fst (compile_shader_objects E vert frag s)) = fst (glCreateProgram E s)"
  "appends s (snd (compile_shader_objects E vert frag s))"
proof -
  show "fst (fst (compile_shader_objects E vert frag s)) = fst (glCreateProgram E s)"
    by (simp add: compile_shader_objects_def Let_def split_def)
  show "appends s (snd (compile_shader_objects E vert frag s))"
    unfolding compile_shader_objects_def Let_def split_def snd_conv
    by (intro appends_GLCHK_I appends_GLCHK_val_I appends_refl) (simp_all add: gl_commands)
qed

text \<open>
  Claim C6. A call with \<open>N \<le> 8\<close> attribute names and \<open>M \<le> 8\<close> uniform names, on a
  driver that answers the two status queries, has defined behaviour and returns a shader
  with \<open>attrib_count = N\<close> and \<open>uniform_count = M\<close>, whose first \<open>N\<close> attribute slots are
  what \<^verbatim>\<open>glGetAttribLocation\<close> returns for the \<open>N\<close> names, in the order given, and
  whose first \<open>M\<close> uniform slots are what \<^verbatim>\<open>glGetUniformLocation\<close> returns for the
  \<open>M\<close> names. As the driver returns a location that is -1 or not negative, so is every
  stored slot. For each name whose location is -1 the line
  \<open>Attribute <name> not found in shader at <file>:<line>\<close> (or \<open>Uniform ...\<close>) is printed,
  and the compilation goes on: all the slots are filled whichever names fail.
\<close>

theorem compile_shader_slots:
  assumes na: "length anames \<le> 8" and nu: "length unames \<le> 8"
    and la: "length (attribs shader) = 8" and lu: "length (uniforms shader) = 8"
    and q1: "\<forall>t h p. outcome E t (GetShaderiv h p) = GL_NO_ERROR"
    and q2: "\<forall>t h n. outcome E t (GetShaderInfoLog h n) = GL_NO_ERROR"
    and al: "\<forall>t name. fst (glGetAttribLocation E (fst (glCreateProgram E s)) name t)
               = aloc name"
    and ul: "\<forall>t name. fst (glGetUniformLocation E (fst (glCreateProgram E s)) name t)
               = uloc name"
    and ra: "\<forall>name. aloc name = - 1 \<or> 0 \<le> sint (aloc name)"
    and ru: "\<forall>name. uloc name = - 1 \<or> 0 \<le> sint (uloc name)"
  shows "\<exists>sh' s'.
     compile_shader E shader file line vert frag (int (length anames)) (int (length unames))
       (map VStr anames @ map VStr unames) s = Some (sh', s') \<and>
     handle sh' = fst (glCreateProgram E s) \<and>
     attrib_count sh' = int (length anames) \<and> uniform_count sh' = int (length unames) \<and>
     take (length anames) (attribs sh') = map aloc anames \<and>
     take (length unames) (uniforms sh') = map uloc unames \<and>
     (\<forall>l \<in> set (take (length anames) (attribs sh')) \<union>
            set (take (length unames) (uniforms sh')). l = - 1 \<or> 0 \<le> sint l) \<and>
     (\<forall>name \<in> set anames. aloc name = - 1 \<longrightarrow>
        logged (''Attribute '' @ name @ '' not found in shader at '' @ file @ '':''
                @ fmt_d line @ newline) s s') \<and>
     (\<forall>name \<in> set unames. uloc name = - 1 \<longrightarrow>
        logged (''Uniform '' @ name @ '' not found in shader at '' @ file @ '':''
                @ fmt_d line @ newline) s s')"
proof -
  let ?amsg = "\<lambda>name. ''Attribute '' @ name @ '' not found in shader at '' @ file @ '':''
                @ fmt_d line @ newline"
  let ?umsg = "\<lambda>name. ''Uniform '' @ name @ '' not found in shader at '' @ file @ '':''
                @ fmt_d line @ newline"
  obtain h vh fh s9 where o: "compile_shader_objects E vert frag s = ((h, vh, fh), s9)"
    by (metis prod.exhaust)
  from compile_shader_objects_fields [where E = E and vert = vert and frag = frag and s = s] o
  have h: "h = fst (glCreateProgram E s)" and a9: "appends s s9"
    by simp_all
  from print_compilation_errors_defined [OF q1 q2, of vh "''vertex''" "file" line s9]
  obtain s10 where p1: "print_compilation_errors E vh ''vertex'' file line s9 = Some s10"
    and a10: "appends s9 s10" by blast
  from print_compilation_errors_defined [OF q1 q2, of fh "''fragment''" "file" line s10]
  obtain s11 where p2: "print_compilation_errors E fh ''fragment'' file line s10 = Some s11"
    and a11: "appends s10 s11" by blast
  let ?s12 = "GLCHK E 129 (glLinkProgram E h) s11"
  let ?sh2 = "shader\<lparr>handle := h, attrib_count := int (length anames),
                     uniform_count := int (length unames)\<rparr>"
  have a12: "appends s11 ?s12"
    by (rule appends_GLCHK) (simp add: gl_commands)
  have al': "\<forall>t name. fst (glGetAttribLocation E (handle ?sh2) name t) = aloc name"
    using al h by simp
  from compile_shader_attribs_spec [of 0 anames "int (length anames)" ?sh2 E aloc "file" line
      "map VStr unames" ?s12] na la al'
  obtain sh3 s13 where
    l1: "compile_shader_attribs E file line (int (length anames)) 0
           (?sh2, map VStr anames @ map VStr unames, ?s12) = Some (sh3, map VStr unames, s13)"
    and f3: "handle sh3 = h" "attrib_count sh3 = int (length anames)"
      "uniform_count sh3 = int (length unames)" "uniforms sh3 = uniforms shader"
      "length (attribs sh3) = 8"
    and n3: "\<forall>j < length anames. attribs sh3 ! j = aloc (anames ! j)"
    and a13: "appends ?s12 s13"
    and g3: "\<forall>name \<in> set anames. aloc name = - 1 \<longrightarrow> logged (?amsg name) ?s12 s13"
    by auto
  have ul': "\<forall>t name. fst (glGetUniformLocation E (handle sh3) name t) = uloc name"
    using ul h f3(1) by simp
  from compile_shader_uniforms_spec [of 0 unames "int (length unames)" sh3 E uloc "file" line
      "[]" s13] nu lu f3 ul'
  obtain sh4 s14 where
    l2: "compile_shader_uniforms E file line (int (length unames)) 0
           (sh3, map VStr unames, s13) = Some (sh4, [], s14)"
    and f4: "handle sh4 = h" "attrib_count sh4 = int (length anames)"
      "uniform_count sh4 = int (length unames)" "attribs sh4 = attribs sh3"
      "length (uniforms sh4) = 8"
    and n4: "\<forall>j < length unames. uniforms sh4 ! j = uloc (unames ! j)"
    and a14: "appends s13 s14"
    and g4: "\<forall>name \<in> set unames. uloc name = - 1 \<longrightarrow> logged (?umsg name) s13 s14"
    by auto
  have e: "compile_shader E shader file line vert frag (int (length anames))
       (int (length unames)) (map VStr anames @ map VStr unames) s = Some (sh4, s14)"
    by (simp add: compile_shader_def o p1 p2 l1 l2)
  have ta: "take (length anames) (attribs sh4) = map aloc anames"
    using n3 f3(5) f4(4) na by (intro nth_equalityI) simp_all
  have tu: "take (length unames) (uniforms sh4) = map uloc unames"
    using n4 f4(5) nu by (intro nth_equalityI) simp_all
  have r: "\<forall>l \<in> set (take (length anames) (attribs sh4)) \<union>
            set (take (length unames) (uniforms sh4)). l = - 1 \<or> 0 \<le> sint l"
    unfolding ta tu using ra ru by auto
  have a12': "appends s ?s12"
    using a9 a10 a11 a12 by (blast intro: appends_trans)
  have ga: "\<forall>name \<in> set anames. aloc name = - 1 \<longrightarrow> logged (?amsg name) s s14"
    using g3 a12' a14 by (blast intro: appends_logged logged_appends)
  have a13': "appends s s13"
    using a12' a13 by (rule appends_trans)
  have gu: "\<forall>name \<in> set unames. uloc name = - 1 \<longrightarrow> logged (?umsg name) s s14"
    using g4 a13' by (blast intro: appends_logged)
  from e f4(1,2,3) h ta tu r ga gu show ?thesis by blast
qed

text \<open>
  An instance, the scenario of the specification: the attributes \<open>position\<close>, \<open>uv\<close> and
  \<open>color\<close> and the uniform \<open>u_proj\<close> are asked for, and the program has no \<open>color\<close>.
\<close>

theorem compile_shader_slots_witness:
  "\<exists>sh' s'.
     compile_shader env_two_attribs shader0 ''main.cpp'' 10 ''void main() {}''
       ''void main() {}'' 3 1
       [VStr ''position'', VStr ''uv'', VStr ''color'', VStr ''u_proj''] world0
       = Some (sh', s') \<and>
     attrib_count sh' = 3 \<and> uniform_count sh' = 1 \<and>
     take 3 (attribs sh') = [0, 1, - 1] \<and> take 1 (uniforms sh') = [0] \<and>
     logged (''Attribute color not found in shader at main.cpp:10'' @ newline) world0 s'"
proof -
  let ?E = env_two_attribs
  let ?aloc = "\<lambda>name. if name = ''position'' then 0 else if name = ''uv'' then 1
                       else (- 1 :: GLint)"
  let ?uloc = "\<lambda>name. if name = ''u_proj'' then 0 else (- 1 :: GLint)"
  have ok: "\<forall>t c. outcome ?E t c = GL_NO_ERROR"
    by (simp add: env_two_attribs_def env0_def)
  have al: "\<forall>t name. fst (glGetAttribLocation ?E (fst (glCreateProgram ?E world0)) name t)
      = ?aloc name"
    using ok by (simp add: glGetAttribLocation_def split_def Let_def env_two_attribs_def)
  have ul: "\<forall>t name. fst (glGetUniformLocation ?E (fst (glCreateProgram ?E world0)) name t)
      = ?uloc name"
    using ok by (simp add: glGetUniformLocation_def split_def Let_def env_two_attribs_def)
  have ra: "\<forall>name. ?aloc name = - 1 \<or> 0 \<le> sint (?aloc name)"
    by simp
  have ru: "\<forall>name. ?uloc name = - 1 \<or> 0 \<le> sint (?uloc name)"
    by simp
  have d: "fmt_d 10 = ''10''"
    by (simp add: fmt_d_def digits.simps)
  from compile_shader_slots
    [of "[''position'', ''uv'', ''color'']" "[''u_proj'']" shader0 ?E world0 ?aloc ?uloc
      "''main.cpp''" 10 "''void main() {}''" "''void main() {}''", OF _ _ _ _ _ _ al ul ra ru] ok
  show ?thesis
    by (auto simp: d eval_nat_numeral)
qed

end
